(* ===== verification/Prelude.thy ===== *)
theory Prelude
  imports Main "HOL-Library.Word" "HOL-Library.AList" "HOL-Library.Signed_Division"
begin

text \<open>
  Shared vocabulary of the gokv development. A Go map \<open>map[K]V\<close> is an association list
  with distinct keys: \<open>map_of\<close> reads it, \<open>AList.update\<close> is the assignment
  \<open>m[k] = v\<close> (in place when the key is present, appended otherwise) and the order of the
  list is one iteration order of \<open>for k, v := range m\<close>. Go leaves that order
  unspecified, so every property below that does not mention an order holds for all of
  them. Byte payloads are lists of 8-bit words; Go's \<open>int64\<close> time values are \<open>int\<close>.
  The collection \<open>go_map_simps\<close> gathers the facts on Go maps that the component
  theories rewrite with.
\<close>

type_synonym byte = "8 word"

type_synonym ('k, 'v) gomap = "('k \<times> 'v) list"

named_theorems go_map_simps "rewrite rules for Go maps modelled as association lists"

definition go_map_ok :: "('k, 'v) gomap \<Rightarrow> bool" where
  "go_map_ok m \<longleftrightarrow> distinct (map fst m)"

definition iter_order :: "'k list \<Rightarrow> ('k, 'v) gomap \<Rightarrow> bool" where
  "iter_order ks m \<longleftrightarrow> distinct ks \<and> set ks = set (map fst m)"

subsection \<open>Go maps\<close>

lemma go_map_ok_Nil [simp, go_map_simps]: "go_map_ok []"
  by (simp add: go_map_ok_def)

lemma go_map_ok_single [simp, go_map_simps]: "go_map_ok [(k, v)]"
  by (simp add: go_map_ok_def)

lemma go_map_ok_update [simp, go_map_simps]:
  "go_map_ok m \<Longrightarrow> go_map_ok (AList.update k v m)"
  by (simp add: go_map_ok_def distinct_update)

lemma go_map_ok_map_entry [simp, go_map_simps]:
  "go_map_ok m \<Longrightarrow> go_map_ok (AList.map_entry k f m)"
  by (simp add: go_map_ok_def distinct_map_entry)

lemma map_of_update_eq [simp, go_map_simps]:
  "map_of (AList.update k v m) = (map_of m)(k \<mapsto> v)"
  by (rule update_conv')

lemma map_of_map_entry_eq [simp, go_map_simps]:
  "map_of (AList.map_entry k f m) = (map_of m)(k := map_option f (map_of m k))"
  by (simp add: map_of_map_entry fun_eq_iff split: option.splits)

lemma map_of_None_iff_keys [go_map_simps]:
  "map_of m k = None \<longleftrightarrow> k \<notin> set (map fst m)"
  by (simp add: map_of_eq_None_iff)

lemma keys_update [simp, go_map_simps]:
  "set (map fst (AList.update k v m)) = insert k (set (map fst m))"
  using dom_update [of k v m] by auto

lemma go_map_ok_Cons [simp, go_map_simps]:
  "go_map_ok ((k, v) # m) \<longleftrightarrow> k \<notin> set (map fst m) \<and> go_map_ok m"
  by (simp add: go_map_ok_def)

lemma map_of_eq_Some_in [go_map_simps]:
  "go_map_ok m \<Longrightarrow> map_of m k = Some v \<longleftrightarrow> (k, v) \<in> set m"
  by (simp add: go_map_ok_def)

lemma iter_order_keys:
  "iter_order ks m \<Longrightarrow> k \<in> set ks \<longleftrightarrow> map_of m k \<noteq> None"
  by (auto simp: iter_order_def map_of_None_iff_keys)

end
