(* ===== verification/Wire.thy ===== *)
theory Wire
  imports Prelude
begin

text \<open>
  The protobuf wire format that \<open>proto.Marshal\<close> and \<open>proto.Unmarshal\<close>
  (google.golang.org/protobuf, called by the delegate's \<open>LocalState\<close>,
  \<open>MergeRemoteState\<close> and \<open>NodeMeta\<close>) write and read: base-128 varints
  (\<open>protowire.AppendVarint\<close>; \<open>ConsumeVarint\<close> reads at most ten bytes and
  rejects a value of 2 to the 64 or more), fields as a tag (field number times 8 plus
  wire type) and a payload, length-delimited payloads, and Go's \<open>utf8.Valid\<close>, which
  proto3 string fields must satisfy on both sides. A message is parsed to its list of
  fields first; each message decoder of \<open>Codec\<close> reads that list the way the
  library does: the last occurrence of a scalar wins, the occurrences of a message
  field merge (parsing their concatenation), repeated fields append, and a field with
  an unknown number or an unexpected wire type is skipped. Proto3 does not write a
  scalar field holding its zero value. Wire types 3 and 4 (groups) are rejected;
  gokv's schema has none. A field number of 0 is an error; the library also rejects numbers
  above 2 to the 29 minus 1, which the model reads as unknown fields (the encoders only
  write numbers below that bound, \<open>field_ok\<close>). \<open>parse_fields_prefix\<close> is the same loop keeping the
  fields read before the first error, which is what a message holds after a failed
  \<open>Unmarshal\<close>. The roundtrip lemmas show that parsing what the encoder
  writes gives back the fields.
\<close>

fun enc_varint :: "nat \<Rightarrow> byte list" where
  "enc_varint n =
     (if n < 128 then [of_nat n] else of_nat (n mod 128 + 128) # enc_varint (n div 128))"

fun dec_varint :: "nat \<Rightarrow> byte list \<Rightarrow> (nat \<times> byte list) option" where
  "dec_varint i [] = None"
| "dec_varint i (b # bs) =
     (if 9 \<le> i \<and> 1 < unat b then None
      else if unat b < 128 then Some (unat b, bs)
      else (case dec_varint (Suc i) bs of
              None \<Rightarrow> None
            | Some (v, rest) \<Rightarrow> Some (unat b - 128 + 128 * v, rest)))"

declare enc_varint.simps [simp del]

datatype wire_value = WVarint nat | WFixed64 "byte list" | WBytes "byte list" | WFixed32 "byte list"

type_synonym field = "nat \<times> wire_value"

fun enc_field :: "field \<Rightarrow> byte list" where
  "enc_field (num, WVarint v) = enc_varint (num * 8) @ enc_varint v"
| "enc_field (num, WFixed64 bs) = enc_varint (num * 8 + 1) @ bs"
| "enc_field (num, WBytes bs) = enc_varint (num * 8 + 2) @ enc_varint (length bs) @ bs"
| "enc_field (num, WFixed32 bs) = enc_varint (num * 8 + 5) @ bs"

definition enc_fields :: "field list \<Rightarrow> byte list" where
  "enc_fields fs = concat (map enc_field fs)"

definition parse_value :: "nat \<Rightarrow> byte list \<Rightarrow> (wire_value \<times> byte list) option" where
  "parse_value wt bs =
     (if wt = 0 then map_option (\<lambda>(v, rest). (WVarint v, rest)) (dec_varint 0 bs)
      else if wt = 1 then (if 8 \<le> length bs then Some (WFixed64 (take 8 bs), drop 8 bs) else None)
      else if wt = 2 then
        (case dec_varint 0 bs of
           None \<Rightarrow> None
         | Some (n, rest) \<Rightarrow> if n \<le> length rest then Some (WBytes (take n rest), drop n rest) else None)
      else if wt = 5 then (if 4 \<le> length bs then Some (WFixed32 (take 4 bs), drop 4 bs) else None)
      else None)"

definition parse_field :: "byte list \<Rightarrow> (field \<times> byte list) option" where
  "parse_field bs =
     (case dec_varint 0 bs of
        None \<Rightarrow> None
      | Some (tag, rest) \<Rightarrow>
          if tag div 8 = 0 then None
          else map_option (\<lambda>(v, rest'). ((tag div 8, v), rest')) (parse_value (tag mod 8) rest))"

definition field_ok :: "field \<Rightarrow> bool" where
  "field_ok f \<longleftrightarrow> 0 < fst f \<and> fst f < 2 ^ 29 \<and>
     (case snd f of
        WVarint n \<Rightarrow> n < 2 ^ 64
      | WFixed64 bs \<Rightarrow> length bs = 8
      | WBytes bs \<Rightarrow> length bs < 2 ^ 64
      | WFixed32 bs \<Rightarrow> length bs = 4)"

definition fields_ok :: "field list \<Rightarrow> bool" where
  "fields_ok fs \<longleftrightarrow> (\<forall>f \<in> set fs. field_ok f)"

definition utf8_accept :: "byte \<Rightarrow> (byte \<times> byte) list option" where
  "utf8_accept b =
     (if b < 0x80 then Some []
      else if 0xC2 \<le> b \<and> b \<le> 0xDF then Some [(0x80, 0xBF)]
      else if b = 0xE0 then Some [(0xA0, 0xBF), (0x80, 0xBF)]
      else if 0xE1 \<le> b \<and> b \<le> 0xEC then Some [(0x80, 0xBF), (0x80, 0xBF)]
      else if b = 0xED then Some [(0x80, 0x9F), (0x80, 0xBF)]
      else if 0xEE \<le> b \<and> b \<le> 0xEF then Some [(0x80, 0xBF), (0x80, 0xBF)]
      else if b = 0xF0 then Some [(0x90, 0xBF), (0x80, 0xBF), (0x80, 0xBF)]
      else if 0xF1 \<le> b \<and> b \<le> 0xF3 then Some [(0x80, 0xBF), (0x80, 0xBF), (0x80, 0xBF)]
      else if b = 0xF4 then Some [(0x80, 0x8F), (0x80, 0xBF), (0x80, 0xBF)]
      else None)"

fun utf8_tail :: "(byte \<times> byte) list \<Rightarrow> byte list \<Rightarrow> byte list option" where
  "utf8_tail [] bs = Some bs"
| "utf8_tail ((lo, hi) # rs) (c # cs) = (if lo \<le> c \<and> c \<le> hi then utf8_tail rs cs else None)"
| "utf8_tail (r # rs) [] = None"

definition bytes_of_string :: "string \<Rightarrow> byte list" where
  "bytes_of_string s = map (\<lambda>c. of_nat (of_char c)) s"

definition string_of_bytes :: "byte list \<Rightarrow> string" where
  "string_of_bytes bs = map (\<lambda>b. char_of (unat b)) bs"

definition u64 :: "int \<Rightarrow> nat" where
  "u64 v = nat (v mod 2 ^ 64)"

definition int64_of :: "nat \<Rightarrow> int" where
  "int64_of n = (let u = int (n mod 2 ^ 64) in if u < 2 ^ 63 then u else u - 2 ^ 64)"

definition int32_of :: "nat \<Rightarrow> int" where
  "int32_of n = (let u = int (n mod 2 ^ 32) in if u < 2 ^ 31 then u else u - 2 ^ 32)"

definition int_field :: "nat \<Rightarrow> int \<Rightarrow> field list" where
  "int_field num v = (if v = 0 then [] else [(num, WVarint (u64 v))])"

definition bytes_field :: "nat \<Rightarrow> byte list \<Rightarrow> field list" where
  "bytes_field num bs = (if bs = [] then [] else [(num, WBytes bs)])"

definition string_field :: "nat \<Rightarrow> string \<Rightarrow> field list" where
  "string_field num s = bytes_field num (bytes_of_string s)"

definition varints :: "nat \<Rightarrow> field list \<Rightarrow> nat list" where
  "varints num fs = [v. (n, WVarint v) \<leftarrow> fs, n = num]"

definition payloads :: "nat \<Rightarrow> field list \<Rightarrow> byte list list" where
  "payloads num fs = [bs. (n, WBytes bs) \<leftarrow> fs, n = num]"

definition last_or :: "'a \<Rightarrow> 'a list \<Rightarrow> 'a" where
  "last_or d xs = (if xs = [] then d else last xs)"

definition int64_ok :: "int \<Rightarrow> bool" where
  "int64_ok v \<longleftrightarrow> - (2 ^ 63) \<le> v \<and> v < 2 ^ 63"

definition int32_ok :: "int \<Rightarrow> bool" where
  "int32_ok v \<longleftrightarrow> - (2 ^ 31) \<le> v \<and> v < 2 ^ 31"

subsection \<open>Termination of the parsers\<close>

lemma dec_varint_shorter: "dec_varint i bs = Some (v, rest) \<Longrightarrow> length rest < length bs"
  by (induction i bs arbitrary: v rest rule: dec_varint.induct)
     (auto split: if_splits option.splits prod.splits intro: less_SucI)

lemma parse_value_shorter: "parse_value wt bs = Some (v, rest) \<Longrightarrow> length rest \<le> length bs"
  by (auto simp: parse_value_def split: if_splits option.splits dest!: dec_varint_shorter)

lemma parse_field_shorter: "parse_field bs = Some p \<Longrightarrow> length (snd p) < length bs"
  by (fastforce simp: parse_field_def split: option.splits if_splits
           dest!: dec_varint_shorter parse_value_shorter)

lemma utf8_tail_shorter: "utf8_tail rs bs = Some rest \<Longrightarrow> length rest \<le> length bs"
  by (induction rs bs rule: utf8_tail.induct) (auto split: if_splits)

function parse_fields :: "byte list \<Rightarrow> field list option" where
  "parse_fields bs =
     (if bs = [] then Some []
      else (case parse_field bs of
              None \<Rightarrow> None
            | Some p \<Rightarrow> map_option (Cons (fst p)) (parse_fields (snd p))))"
  by pat_completeness auto
termination
  by (relation "measure length") (auto dest: parse_field_shorter)
declare parse_fields.simps [simp del]

function parse_fields_prefix :: "byte list \<Rightarrow> field list" where
  "parse_fields_prefix bs =
     (if bs = [] then []
      else (case parse_field bs of
              None \<Rightarrow> []
            | Some p \<Rightarrow> fst p # parse_fields_prefix (snd p)))"
  by pat_completeness auto
termination
  by (relation "measure length") (auto dest: parse_field_shorter)
declare parse_fields_prefix.simps [simp del]

function utf8_valid :: "byte list \<Rightarrow> bool" where
  "utf8_valid [] = True"
| "utf8_valid (b # bs) =
     (case utf8_accept b of
        None \<Rightarrow> False
      | Some rs \<Rightarrow> (case utf8_tail rs bs of None \<Rightarrow> False | Some rest \<Rightarrow> utf8_valid rest))"
  by pat_completeness auto
termination
  by (relation "measure length") (auto dest: utf8_tail_shorter)

subsection \<open>Lemmas\<close>

lemma unat_of_nat_byte: "n < 256 \<Longrightarrow> unat (of_nat n :: byte) = n"
  by (simp add: unat_of_nat)

lemma enc_varint_small [simp]: "n < 128 \<Longrightarrow> enc_varint n = [of_nat n]"
  by (subst enc_varint.simps) simp

lemma enc_varint_big [simp]:
  "\<not> n < 128 \<Longrightarrow> enc_varint n = of_nat (n mod 128 + 128) # enc_varint (n div 128)"
  by (subst enc_varint.simps) simp

lemma varint_div_bound: "i < (9::nat) \<Longrightarrow> n < (2::nat) ^ (64 - 7 * i) \<Longrightarrow> n div 128 < 2 ^ (64 - 7 * Suc i)"
proof -
  assume i8: "i < 9" and n: "n < (2::nat) ^ (64 - 7 * i)"
  have e: "64 - 7 * i = 7 + (64 - 7 * Suc i)" using i8 by simp
  have "n < 128 * 2 ^ (64 - 7 * Suc i)"
    using n unfolding e power_add by simp
  then show ?thesis
    by (simp add: div_less_iff_less_mult mult.commute)
qed

lemma varint_last_byte: "n < 2 ^ (64 - 7 * i) \<Longrightarrow> i \<le> (9::nat) \<Longrightarrow> 9 \<le> i \<Longrightarrow> n < (2::nat)"
  by (auto simp: le_antisym)

lemma dec_varint_small:
  "n < 128 \<Longrightarrow> (9 \<le> i \<Longrightarrow> n < 2) \<Longrightarrow> dec_varint i (of_nat n # rest) = Some (n, rest)"
  by (auto simp: unat_of_nat_byte)

lemma dec_varint_big:
  "\<not> n < 128 \<Longrightarrow> i < 9 \<Longrightarrow> dec_varint (Suc i) (enc_varint (n div 128) @ rest) = Some (n div 128, rest) \<Longrightarrow>
     dec_varint i (of_nat (n mod 128 + 128) # enc_varint (n div 128) @ rest) = Some (n, rest)"
proof -
  assume ih: "dec_varint (Suc i) (enc_varint (n div 128) @ rest) = Some (n div 128, rest)" and i8: "i < 9"
  have b: "unat (of_nat (n mod 128 + 128) :: byte) = n mod 128 + 128"
    by (rule unat_of_nat_byte) simp
  have "dec_varint i (of_nat (n mod 128 + 128) # enc_varint (n div 128) @ rest) =
          Some (n mod 128 + 128 - 128 + 128 * (n div 128), rest)"
    using i8 by (simp only: dec_varint.simps b ih) simp
  then show ?thesis by simp
qed

lemma dec_enc_varint:
  "n < 2 ^ (64 - 7 * i) \<Longrightarrow> i \<le> 9 \<Longrightarrow> dec_varint i (enc_varint n @ rest) = Some (n, rest)"
proof (induction n arbitrary: i rule: enc_varint.induct)
  case (1 n)
  show ?case
  proof (cases "n < 128")
    case True
    have "9 \<le> i \<Longrightarrow> n < 2" using "1.prems" varint_last_byte by blast
    then show ?thesis using True by (simp del: dec_varint.simps add: dec_varint_small)
  next
    case False
    have i8: "i < 9"
    proof (rule ccontr)
      assume "\<not> i < 9"
      then have "i = 9" using "1.prems"(2) by simp
      then show False using "1.prems"(1) False by simp
    qed
    have ih: "dec_varint (Suc i) (enc_varint (n div 128) @ rest) = Some (n div 128, rest)"
      by (rule "1.IH" [OF False]) (use varint_div_bound [OF i8 "1.prems"(1)] i8 in simp_all)
    show ?thesis
      by (simp only: enc_varint_big [OF False] append_Cons) (rule dec_varint_big [OF False i8 ih])
  qed
qed

lemma fields_ok_simps [simp]:
  "fields_ok []"
  "fields_ok (f # fs) \<longleftrightarrow> field_ok f \<and> fields_ok fs"
  "fields_ok (fs @ gs) \<longleftrightarrow> fields_ok fs \<and> fields_ok gs"
  by (auto simp: fields_ok_def)

lemma dec_enc_varint0: "n < 2 ^ 64 \<Longrightarrow> dec_varint 0 (enc_varint n @ rest) = Some (n, rest)"
  using dec_enc_varint [of n 0] by simp

lemma enc_varint_not_Nil [simp]: "enc_varint n \<noteq> []"
  by (cases "n < 128") simp_all

lemma enc_field_not_Nil [simp]: "enc_field f \<noteq> []"
  by (cases f rule: enc_field.cases) simp_all

lemma tag_div [simp]: "wt < 8 \<Longrightarrow> (num * 8 + wt) div 8 = (num::nat)"
  by simp

lemma tag_mod [simp]: "wt < 8 \<Longrightarrow> (num * 8 + wt) mod 8 = (wt::nat)"
  by simp

lemma parse_field_tag:
  assumes "wt < 8" and "num < 2 ^ 29" and "0 < num"
  shows "parse_field (enc_varint (num * 8 + wt) @ rest) =
           map_option (\<lambda>(v, rest'). ((num, v), rest')) (parse_value wt rest)"
proof -
  have "num * 8 + wt < 2 ^ 64" using assms by simp
  then show ?thesis using assms by (simp add: parse_field_def dec_enc_varint0)
qed

lemma parse_enc_field:
  assumes ok: "field_ok f" shows "parse_field (enc_field f @ rest) = Some (f, rest)"
proof (cases f rule: enc_field.cases)
  case (1 num v)
  then show ?thesis using ok parse_field_tag [of 0 num "enc_varint v @ rest"]
    by (simp add: field_ok_def parse_value_def dec_enc_varint0)
next
  case (2 num bs)
  then show ?thesis using ok parse_field_tag [of 1 num "bs @ rest"]
    by (simp add: field_ok_def parse_value_def)
next
  case (3 num bs)
  then show ?thesis using ok parse_field_tag [of 2 num "enc_varint (length bs) @ bs @ rest"]
    by (simp add: field_ok_def parse_value_def dec_enc_varint0)
next
  case (4 num bs)
  then show ?thesis using ok parse_field_tag [of 5 num "bs @ rest"]
    by (simp add: field_ok_def parse_value_def)
qed

lemma parse_enc_fields:
  "fields_ok fs \<Longrightarrow> parse_fields (enc_fields fs) = Some fs"
proof (induction fs)
  case Nil
  then show ?case by (simp add: enc_fields_def parse_fields.simps)
next
  case (Cons f fs)
  have "parse_field (enc_field f @ enc_fields fs) = Some (f, enc_fields fs)"
    using Cons.prems by (simp add: parse_enc_field)
  then show ?case using Cons by (simp add: enc_fields_def parse_fields.simps [of "enc_field f @ _"])
qed

lemma utf8_valid_ascii: "\<forall>b \<in> set bs. b < 0x80 \<Longrightarrow> utf8_valid bs"
  by (induction bs) (simp_all add: utf8_accept_def)

lemma string_of_bytes_of_string [simp]: "string_of_bytes (bytes_of_string s) = s"
  by (induction s) (simp_all add: string_of_bytes_def bytes_of_string_def unat_of_nat of_char_mod_256 [where 'a=nat])

lemma string_of_bytes_Nil [simp]: "string_of_bytes [] = []"
  by (simp add: string_of_bytes_def)

lemma bytes_of_string_Nil_iff [simp]: "bytes_of_string s = [] \<longleftrightarrow> s = []"
  by (simp add: bytes_of_string_def)

lemma u64_less: "u64 v < 2 ^ 64"
  by (simp add: u64_def nat_less_iff)

lemma signed_mod_inv:
  fixes v m M :: int
  assumes "M = 2 * m" and "0 < m" and "- m \<le> v" and "v < m"
  shows "(v mod M < m \<longrightarrow> v mod M = v) \<and> (\<not> v mod M < m \<longrightarrow> v mod M - M = v)"
proof (cases "0 \<le> v")
  case True
  then have "v mod M = v" using assms by (simp add: mod_pos_pos_trivial)
  then show ?thesis using assms by simp
next
  case False
  have "v mod M = (v + M) mod M" by simp
  also have "\<dots> = v + M"
    by (rule mod_pos_pos_trivial) (use assms False in simp_all)
  finally show ?thesis using assms False by simp
qed

lemma int64_of_u64 [simp]: "int64_ok v \<Longrightarrow> int64_of (u64 v) = v"
  using signed_mod_inv [of "2 ^ 64" "2 ^ 63" v]
  by (simp add: int64_of_def u64_def int64_ok_def Let_def)

lemma int_u64_mod32: "int (u64 v mod 2 ^ 32) = v mod 2 ^ 32"
proof -
  have "int (u64 v mod 2 ^ 32) = int (u64 v) mod 2 ^ 32" by (simp add: of_nat_mod)
  also have "int (u64 v) = v mod 2 ^ 64" by (simp add: u64_def)
  also have "(v mod 2 ^ 64) mod 2 ^ 32 = v mod 2 ^ 32"
    by (rule mod_mod_cancel) (simp add: le_imp_power_dvd)
  finally show ?thesis .
qed

lemma int32_of_u64 [simp]: "int32_ok v \<Longrightarrow> int32_of (u64 v) = v"
  unfolding int32_of_def Let_def int_u64_mod32
  using signed_mod_inv [of "2 ^ 32" "2 ^ 31" v] by (simp add: int32_ok_def)

lemma varints_append [simp]: "varints num (fs @ gs) = varints num fs @ varints num gs"
  by (simp add: varints_def)

lemma payloads_append [simp]: "payloads num (fs @ gs) = payloads num fs @ payloads num gs"
  by (simp add: payloads_def)

lemma varints_simps [simp]:
  "varints num [] = []"
  "varints num ((n, WVarint v) # fs) = (if n = num then v # varints num fs else varints num fs)"
  "varints num ((n, WBytes bs) # fs) = varints num fs"
  by (simp_all add: varints_def)

lemma payloads_simps [simp]:
  "payloads num [] = []"
  "payloads num ((n, WBytes bs) # fs) = (if n = num then bs # payloads num fs else payloads num fs)"
  "payloads num ((n, WVarint v) # fs) = payloads num fs"
  by (simp_all add: payloads_def)

lemma int_field_simps [simp]:
  "varints num (int_field n v) = (if n = num \<and> v \<noteq> 0 then [u64 v] else [])"
  "payloads num (int_field n v) = []"
  by (simp_all add: int_field_def)

lemma bytes_field_simps [simp]:
  "varints num (bytes_field n bs) = []"
  "payloads num (bytes_field n bs) = (if n = num \<and> bs \<noteq> [] then [bs] else [])"
  by (simp_all add: bytes_field_def)

lemma last_or_simps [simp]: "last_or d [] = d" "last_or d [x] = x"
  by (simp_all add: last_or_def)

lemma payload_shorter:
  "(n, WBytes bs) \<in> set fs \<Longrightarrow> length bs < length (enc_fields fs)"
proof (induction fs)
  case (Cons f fs)
  then show ?case by (auto simp: enc_fields_def)
qed simp

lemma fields_ok_int_field [simp]: "0 < n \<Longrightarrow> n < 2 ^ 29 \<Longrightarrow> fields_ok (int_field n v)"
  using u64_less [of v] by (simp add: int_field_def field_ok_def)

lemma fields_ok_bytes_field:
  "0 < n \<Longrightarrow> n < 2 ^ 29 \<Longrightarrow> length bs < 2 ^ 64 \<Longrightarrow> fields_ok (bytes_field n bs)"
  by (simp add: bytes_field_def field_ok_def)


subsection \<open>Progress of the field loop\<close>

lemma in_payloads: "x \<in> set (payloads n fs) \<Longrightarrow> (n, WBytes x) \<in> set fs"
  by (auto simp: payloads_def)

lemma parse_value_consumes: "parse_value wt bs = Some (v, rest) \<Longrightarrow> length rest < length bs"
  by (auto simp: parse_value_def split: if_splits option.splits dest!: dec_varint_shorter)

lemma parse_field_consumes: "parse_field bs = Some (f, rest) \<Longrightarrow> length rest + 2 \<le> length bs"
  by (fastforce simp: parse_field_def split: option.splits if_splits
           dest!: dec_varint_shorter parse_value_consumes)

lemma parse_field_payload:
  "parse_field bs = Some ((n, WBytes p), rest) \<Longrightarrow> length p + length rest < length bs"
  by (auto simp: parse_field_def parse_value_def split: option.splits if_splits prod.splits
           dest!: dec_varint_shorter)

lemma parse_fields_Cons:
  assumes "parse_fields bs = Some fs" and "bs \<noteq> []"
  obtains f rest fs' where "parse_field bs = Some (f, rest)" and "fs = f # fs'"
    and "parse_fields rest = Some fs'"
  using assms by (auto simp: parse_fields.simps [of bs] split: option.splits)

lemma parse_fields_payload_shorter:
  "parse_fields bs = Some fs \<Longrightarrow> (n, WBytes p) \<in> set fs \<Longrightarrow> length p < length bs"
proof (induction bs arbitrary: fs rule: parse_fields.induct)
  case (1 bs)
  show ?case
  proof (cases "bs = []")
    case True
    with "1.prems" show ?thesis by (simp add: parse_fields.simps)
  next
    case False
    with "1.prems"(1) obtain f rest fs' where pf: "parse_field bs = Some (f, rest)"
      and fs: "fs = f # fs'" and pr: "parse_fields rest = Some fs'"
      by (rule parse_fields_Cons)
    have short: "length rest < length bs" using parse_field_shorter [OF pf] by simp
    from "1.prems"(2) fs consider "f = (n, WBytes p)" | "(n, WBytes p) \<in> set fs'" by auto
    then show ?thesis
    proof cases
      case 1
      then show ?thesis using parse_field_payload pf by fastforce
    next
      case 2
      with "1.IH" [OF False, of "(f, rest)"] pf pr short show ?thesis by fastforce
    qed
  qed
qed

lemma parse_fields_length:
  "parse_fields bs = Some fs \<Longrightarrow> 2 * length fs \<le> length bs"
proof (induction bs arbitrary: fs rule: parse_fields.induct)
  case (1 bs)
  show ?case
  proof (cases "bs = []")
    case True
    with "1.prems" show ?thesis by (simp add: parse_fields.simps)
  next
    case False
    with "1.prems" obtain f rest fs' where pf: "parse_field bs = Some (f, rest)"
      and fs: "fs = f # fs'" and pr: "parse_fields rest = Some fs'"
      by (rule parse_fields_Cons)
    have "2 * length fs' \<le> length rest" using "1.IH" [OF False, of "(f, rest)"] pf pr by simp
    with parse_field_consumes [OF pf] fs show ?thesis by simp
  qed
qed

lemma parse_fields_dom_all: "parse_fields_dom bs"
proof (induction "length bs" arbitrary: bs rule: less_induct)
  case less
  show ?case
    by (rule accpI, erule parse_fields_rel.cases) (auto dest: parse_field_shorter intro: less)
qed


subsection \<open>The fields read before an error\<close>

lemma parse_fields_prefix_complete: "parse_fields bs = Some fs \<Longrightarrow> parse_fields_prefix bs = fs"
proof (induction bs arbitrary: fs rule: parse_fields.induct)
  case (1 bs)
  show ?case
  proof (cases "bs = []")
    case True
    with "1.prems" show ?thesis by (simp add: parse_fields.simps parse_fields_prefix.simps)
  next
    case False
    with "1.prems" obtain f rest fs' where pf: "parse_field bs = Some (f, rest)"
      and fs: "fs = f # fs'" and pr: "parse_fields rest = Some fs'"
      by (rule parse_fields_Cons)
    then show ?thesis using "1.IH" [OF False, of "(f, rest)"] False
      by (simp add: parse_fields_prefix.simps [of bs])
  qed
qed

lemma parse_fields_append:
  "fields_ok fs \<Longrightarrow> parse_fields (enc_fields fs @ rest) = map_option ((@) fs) (parse_fields rest)"
proof (induction fs)
  case Nil
  then show ?case by (simp add: enc_fields_def option.map_ident)
next
  case (Cons f fs)
  have "parse_field (enc_field f @ enc_fields fs @ rest) = Some (f, enc_fields fs @ rest)"
    using Cons.prems by (simp add: parse_enc_field)
  then show ?case using Cons
    by (simp add: enc_fields_def parse_fields.simps [of "enc_field f @ _"] option.map_comp comp_def)
qed

lemma parse_fields_prefix_append:
  "fields_ok fs \<Longrightarrow> parse_fields_prefix (enc_fields fs @ rest) = fs @ parse_fields_prefix rest"
proof (induction fs)
  case Nil
  then show ?case by (simp add: enc_fields_def)
next
  case (Cons f fs)
  have "parse_field (enc_field f @ enc_fields fs @ rest) = Some (f, enc_fields fs @ rest)"
    using Cons.prems by (simp add: parse_enc_field)
  then show ?case using Cons
    by (simp add: enc_fields_def parse_fields_prefix.simps [of "enc_field f @ _"])
qed

lemma parse_fields_bad:
  "bs \<noteq> [] \<Longrightarrow> parse_field bs = None \<Longrightarrow> parse_fields bs = None \<and> parse_fields_prefix bs = []"
  by (simp add: parse_fields.simps [of bs] parse_fields_prefix.simps [of bs])

end
