(* ===== verification/Entry.thy ===== *)
theory Entry
  imports Prelude
begin

text \<open>
  The replicated value record (\<open>internalpb.Entry\<close> in
  \<open>src/internal/internalpb/gokv.pb.go\<close>) with the two well-known protobuf types it
  carries (\<open>timestamppb.Timestamp\<close> and \<open>durationpb.Duration\<close>), its nil-safe
  getters, and the expiry policy of \<open>src/unnamed/part_001\<close> (\<open>expired\<close>,
  \<open>setExpiry\<close>). A pointer field that Go may leave \<open>nil\<close> is an \<open>option\<close>.
\<close>

record Timestamp =
  Seconds :: int
  Nanos :: int

record Duration =
  DurSeconds :: int
  DurNanos :: int

record Entry =
  Key :: string
  Value :: "byte list"
  Archived :: "bool option"
  LastUpdatedTime :: "Timestamp option"
  Expiry :: "Duration option"

definition GetArchived :: "Entry \<Rightarrow> bool" where
  "GetArchived e = (case Archived e of None \<Rightarrow> False | Some b \<Rightarrow> b)"

text \<open>
  \<open>GetLastUpdatedTime().AsTime().Unix()\<close>: a nil timestamp reads as the Unix epoch, and
  \<open>time.Unix(sec, nsec)\<close> normalises the nanoseconds by floor division.
\<close>

definition unix :: "Timestamp option \<Rightarrow> int" where
  "unix t = (case t of None \<Rightarrow> 0 | Some ts \<Rightarrow> Seconds ts + Nanos ts div 1000000000)"

text \<open>A clock reading \<open>time.Now().UTC()\<close> has its nanoseconds within the second.\<close>

definition valid_now :: "Timestamp \<Rightarrow> bool" where
  "valid_now t \<longleftrightarrow> 0 \<le> Nanos t \<and> Nanos t < 1000000000"

definition expired :: "Timestamp \<Rightarrow> Entry \<Rightarrow> bool" where
  "expired now entry =
     (if Expiry entry = None then False
      else (let expiration = unix (LastUpdatedTime entry)
            in if expiration \<le> 0 then False else Seconds now > expiration))"

text \<open>\<open>durationpb.New\<close> splits nanoseconds with Go's truncating division.\<close>

definition durationpb_New :: "int \<Rightarrow> Duration" where
  "durationpb_New d =
     (let secs = d sdiv 1000000000 in \<lparr>DurSeconds = secs, DurNanos = d - secs * 1000000000\<rparr>)"

definition setExpiry :: "int \<Rightarrow> Duration option" where
  "setExpiry expiration = (if expiration > 0 then Some (durationpb_New expiration) else None)"

definition visible :: "Timestamp \<Rightarrow> Entry \<Rightarrow> bool" where
  "visible now e \<longleftrightarrow> \<not> GetArchived e \<and> \<not> expired now e"

subsection \<open>Lemmas\<close>

lemma unix_valid_now [simp]: "valid_now t \<Longrightarrow> unix (Some t) = Seconds t"
  by (simp add: unix_def valid_now_def)

lemma expired_iff:
  "expired now e \<longleftrightarrow>
     Expiry e \<noteq> None \<and> 0 < unix (LastUpdatedTime e) \<and> unix (LastUpdatedTime e) < Seconds now"
  by (auto simp: expired_def Let_def)

lemma expired_no_expiry [simp]: "Expiry e = None \<Longrightarrow> \<not> expired now e"
  by (simp add: expired_def)

lemma expired_later:
  "expired now e \<Longrightarrow> Seconds now \<le> Seconds later \<Longrightarrow> expired later e"
  by (auto simp: expired_iff)

text \<open>
  C16. \<open>setExpiry\<close> drops a non-positive expiration and keeps a positive one exactly:
  the duration's seconds and nanoseconds are the floor quotient and remainder by
  \<open>10^9\<close>, so Go's truncating division in \<open>durationpb.New\<close> loses nothing and the
  nanoseconds stay within \<open>[0, 10^9)\<close>.
\<close>

theorem setExpiry_spec:
  "setExpiry expiration =
     (if 0 < expiration
      then Some \<lparr>DurSeconds = expiration div 1000000000, DurNanos = expiration mod 1000000000\<rparr>
      else None)"
proof (cases "0 < expiration")
  case True
  then have "expiration sdiv 1000000000 = expiration div 1000000000"
    by (simp add: signed_divide_int_eq_divide_int)
  moreover have "expiration - expiration div 1000000000 * 1000000000 = expiration mod 1000000000"
    by (simp add: minus_div_mult_eq_mod)
  ultimately show ?thesis using True by (simp add: setExpiry_def durationpb_New_def Let_def)
next
  case False
  then show ?thesis by (simp add: setExpiry_def)
qed

text \<open>
  C14. \<open>expired\<close> never reads the stored duration: for an entry that has an expiry,
  replacing the duration by any other gives the same answer at every instant. The
  deadline is the last-update second itself (spec, open question 1).
\<close>

theorem expired_ignores_duration:
  "Expiry e \<noteq> None \<Longrightarrow> expired now (e\<lparr>Expiry := Some d\<rparr>) = expired now e"
  by (simp add: expired_iff)

theorem expired_ignores_duration_witness:
  "Expiry \<lparr>Key = ''k'', Value = [], Archived = None,
           LastUpdatedTime = Some \<lparr>Seconds = 10, Nanos = 0\<rparr>,
           Expiry = Some \<lparr>DurSeconds = 0, DurNanos = 100000000\<rparr>\<rparr> \<noteq> None \<and>
   expired \<lparr>Seconds = 11, Nanos = 0\<rparr>
     \<lparr>Key = ''k'', Value = [], Archived = None,
      LastUpdatedTime = Some \<lparr>Seconds = 10, Nanos = 0\<rparr>,
      Expiry = Some \<lparr>DurSeconds = 3600, DurNanos = 0\<rparr>\<rparr>"
proof -
  let ?e = "\<lparr>Key = ''k'', Value = [], Archived = None,
           LastUpdatedTime = Some \<lparr>Seconds = 10, Nanos = 0\<rparr>,
           Expiry = Some \<lparr>DurSeconds = 0, DurNanos = 100000000\<rparr>\<rparr>"
  have "Expiry ?e \<noteq> None" by simp
  from expired_ignores_duration [OF this, of "\<lparr>Seconds = 11, Nanos = 0\<rparr>" "\<lparr>DurSeconds = 3600, DurNanos = 0\<rparr>"]
  show ?thesis by (simp add: expired_iff unix_def)
qed

end
