(* ===== verification/FSM.thy ===== *)
theory FSM
  imports Entry
begin

text \<open>
  The replicated state of one node: \<open>internalpb.NodeState\<close> (a node id and a Go map from
  key to entry) and \<open>internalpb.FSM\<close> (a slice of node states), with
  \<open>internalpb.NodeMeta\<close>, the identity a node gossips. A nil map and an empty map are
  the same value \<open>[]\<close> here: the code only writes to a map after creating it.
  \<open>partitions\<close> abstracts the slice to a two-level map, node id to key to entry, and
  \<open>fsm_ok\<close> is the invariant every delegate keeps: node ids are unique, the node's own
  partition is present, and each partition is a well-formed Go map.
\<close>

record NodeState =
  NodeId :: string
  Entries :: "(string, Entry) gomap"

record FSM =
  NodeStates :: "NodeState list"

record NodeMeta =
  Name :: string
  Host :: string
  Port :: "32 word"
  DiscoveryPort :: "32 word"
  CreationTime :: "Timestamp option"

type_synonym view = "string \<rightharpoonup> (string \<rightharpoonup> Entry)"

definition partitions :: "NodeState list \<Rightarrow> view" where
  "partitions nss = map_of (map (\<lambda>ns. (NodeId ns, map_of (Entries ns))) nss)"

definition node_ids :: "NodeState list \<Rightarrow> string set" where
  "node_ids nss = set (map NodeId nss)"

definition fsm_ok :: "string \<Rightarrow> NodeState list \<Rightarrow> bool" where
  "fsm_ok me nss \<longleftrightarrow>
     distinct (map NodeId nss) \<and> me \<in> set (map NodeId nss) \<and>
     (\<forall>ns \<in> set nss. go_map_ok (Entries ns))"

text \<open>A peer's decoded state: unique node ids and well-formed maps, any owner.\<close>

definition remote_ok :: "NodeState list \<Rightarrow> bool" where
  "remote_ok nss \<longleftrightarrow> distinct (map NodeId nss) \<and> (\<forall>ns \<in> set nss. go_map_ok (Entries ns))"

subsection \<open>Lemmas\<close>

lemma partitions_Nil [simp]: "partitions [] = Map.empty"
  by (simp add: partitions_def)

lemma partitions_Cons [simp]:
  "partitions (ns # nss) = (partitions nss)(NodeId ns \<mapsto> map_of (Entries ns))"
  by (simp add: partitions_def)

lemma partitions_None_iff: "partitions nss n = None \<longleftrightarrow> n \<notin> set (map NodeId nss)"
  by (induction nss) auto

lemma partitions_Some_iff:
  "distinct (map NodeId nss) \<Longrightarrow>
     partitions nss n = Some m \<longleftrightarrow> (\<exists>ns \<in> set nss. NodeId ns = n \<and> m = map_of (Entries ns))"
proof (induction nss)
  case Nil
  then show ?case by simp
next
  case (Cons a nss)
  then show ?case by (cases "n = NodeId a") (auto simp: image_iff)
qed

lemma fsm_ok_remote_ok: "fsm_ok me nss \<Longrightarrow> remote_ok nss"
  by (simp add: fsm_ok_def remote_ok_def)

lemma fsm_ok_own_partition:
  "fsm_ok me nss \<Longrightarrow> \<exists>m. partitions nss me = Some m"
  using partitions_None_iff [of nss me] by (auto simp: fsm_ok_def)

text \<open>
  Rewriting every partition in place by a function that keeps the node id and acts on
  the partition's map as \<open>g\<close>: the view changes pointwise by \<open>g\<close>. This carries the
  proofs about Put.
\<close>

lemma partitions_map:
  assumes "\<And>ns. NodeId (f ns) = NodeId ns"
    and "\<And>ns. map_of (Entries (f ns)) = g (map_of (Entries ns))"
  shows "partitions (map f nss) n = map_option g (partitions nss n)"
  using assms by (induction nss) auto

lemma map_NodeId_map_same_id [simp]:
  "(\<And>ns. NodeId (f ns) = NodeId ns) \<Longrightarrow> map NodeId (map f nss) = map NodeId nss"
  by (induction nss) auto

end
