(* ===== verification/Delegate.thy ===== *)
theory Delegate
  imports FSM
begin

text \<open>
  The node delegate of \<open>src/unnamed/part_001\<close> (package \<open>cluster\<close>): the state a node
  keeps (its metadata, its FSM and its own name) and the local key/value operations
  Put, Get, List, Delete and Exists, together with the memberlist callbacks that do not
  merge. Every operation runs under the delegate's read/write lock, so each is one atomic
  function of the state here; the wall clock \<open>time.Now().UTC()\<close> is the parameter
  \<open>now\<close>. Go's \<open>nil\<close> results and \<open>ErrKeyNotFound\<close> are the left side of a sum.
\<close>

record Delegate =
  nodeMeta :: NodeMeta
  fsm :: FSM
  me :: string

datatype GoError = ErrKeyNotFound

definition newDelegate :: "string \<Rightarrow> NodeMeta \<Rightarrow> Delegate" where
  "newDelegate name meta =
     \<lparr>nodeMeta = meta, fsm = \<lparr>NodeStates = [\<lparr>NodeId = name, Entries = []\<rparr>]\<rparr>, me = name\<rparr>"

definition node_states :: "Delegate \<Rightarrow> NodeState list" where
  "node_states d = NodeStates (fsm d)"

definition set_node_states :: "NodeState list \<Rightarrow> Delegate \<Rightarrow> Delegate" where
  "set_node_states nss d = d\<lparr>fsm := (fsm d)\<lparr>NodeStates := nss\<rparr>\<rparr>"

definition has_key :: "string \<Rightarrow> NodeState \<Rightarrow> bool" where
  "has_key key ns \<longleftrightarrow> map_of (Entries ns) key \<noteq> None"

subsection \<open>Put\<close>

definition new_entry :: "string \<Rightarrow> byte list \<Rightarrow> Timestamp \<Rightarrow> Duration option \<Rightarrow> Entry" where
  "new_entry key value timestamp expiry =
     \<lparr>Key = key, Value = value, Archived = None, LastUpdatedTime = Some timestamp,
      Expiry = expiry\<rparr>"

text \<open>
  The first loop of Put: every partition holding the key gets the new entry (the
  \<open>break\<close> leaves only the inner loop), and \<open>keyExists\<close> records whether one did.
\<close>

definition put_overwrite :: "string \<Rightarrow> Entry \<Rightarrow> NodeState list \<Rightarrow> NodeState list" where
  "put_overwrite key entry nss =
     map (\<lambda>ns. if has_key key ns then ns\<lparr>Entries := AList.update key entry (Entries ns)\<rparr>
               else ns) nss"

definition key_exists :: "string \<Rightarrow> NodeState list \<Rightarrow> bool" where
  "key_exists key nss \<longleftrightarrow> (\<exists>ns \<in> set nss. has_key key ns)"

text \<open>The second loop: the key is new, so the node's own partition receives it.\<close>

fun put_local :: "string \<Rightarrow> string \<Rightarrow> Entry \<Rightarrow> NodeState list \<Rightarrow> NodeState list" where
  "put_local self_id key entry [] = []"
| "put_local self_id key entry (ns # nss) =
     (if NodeId ns = self_id
      then (if length (Entries ns) = 0 then ns\<lparr>Entries := [(key, entry)]\<rparr>
            else ns\<lparr>Entries := AList.update key entry (Entries ns)\<rparr>) # nss
      else ns # put_local self_id key entry nss)"

definition Put :: "Timestamp \<Rightarrow> string \<Rightarrow> byte list \<Rightarrow> int \<Rightarrow> Delegate \<Rightarrow> Delegate" where
  "Put now key value expiration d =
     (let localState = node_states d;
          entry = new_entry key value now (setExpiry expiration)
      in if key_exists key localState
         then set_node_states (put_overwrite key entry localState) d
         else set_node_states (put_local (me d) key entry localState) d)"

subsection \<open>Get, Exists, List\<close>

text \<open>The scan shared by Get and Exists: the first partition, in slice order, holding the key.\<close>

fun find_entry :: "string \<Rightarrow> NodeState list \<Rightarrow> Entry option" where
  "find_entry key [] = None"
| "find_entry key (ns # nss) =
     (case map_of (Entries ns) key of Some entry \<Rightarrow> Some entry | None \<Rightarrow> find_entry key nss)"

definition Get :: "Timestamp \<Rightarrow> string \<Rightarrow> Delegate \<Rightarrow> GoError + Entry" where
  "Get now key d =
     (case find_entry key (node_states d) of
        None \<Rightarrow> Inl ErrKeyNotFound
      | Some entry \<Rightarrow> if expired now entry then Inl ErrKeyNotFound else Inr entry)"

definition List_entries :: "Timestamp \<Rightarrow> Delegate \<Rightarrow> Entry list" where
  "List_entries now d =
     concat (map (\<lambda>ns. filter (\<lambda>entry. \<not> expired now entry) (map snd (Entries ns)))
                 (node_states d))"

definition Exists :: "Timestamp \<Rightarrow> string \<Rightarrow> Delegate \<Rightarrow> bool" where
  "Exists now key d =
     (case find_entry key (node_states d) of
        None \<Rightarrow> False
      | Some entry \<Rightarrow> if expired now entry then False else \<not> GetArchived entry)"

subsection \<open>Delete\<close>

definition tombstone :: "Timestamp \<Rightarrow> Entry \<Rightarrow> Entry" where
  "tombstone now entry = entry\<lparr>Archived := Some True, LastUpdatedTime := Some now\<rparr>"

fun delete_local :: "Timestamp \<Rightarrow> string \<Rightarrow> string \<Rightarrow> NodeState list \<Rightarrow> NodeState list" where
  "delete_local now self_id key [] = []"
| "delete_local now self_id key (ns # nss) =
     (if has_key key ns \<and> NodeId ns = self_id
      then ns\<lparr>Entries := AList.map_entry key (tombstone now) (Entries ns)\<rparr> # nss
      else ns # delete_local now self_id key nss)"

definition Delete :: "Timestamp \<Rightarrow> string \<Rightarrow> Delegate \<Rightarrow> Delegate" where
  "Delete now key d = set_node_states (delete_local now (me d) key (node_states d)) d"

subsection \<open>Callbacks that do not merge\<close>

text \<open>
  \<open>NodeMeta\<close> returns the node's metadata whatever the limit (its protobuf encoding
  is the byte form); \<open>NotifyMsg\<close> ignores the message; \<open>GetBroadcasts\<close> has nothing to
  send; \<open>LocalState\<close> hands the whole FSM to the transport, join or not.
\<close>

definition NodeMeta_cb :: "int \<Rightarrow> Delegate \<Rightarrow> NodeMeta" where
  "NodeMeta_cb limit d = nodeMeta d"

definition NotifyMsg :: "byte list \<Rightarrow> Delegate \<Rightarrow> Delegate" where
  "NotifyMsg bytes d = d"

definition GetBroadcasts :: "int \<Rightarrow> int \<Rightarrow> Delegate \<Rightarrow> byte list list" where
  "GetBroadcasts overhead limit d = []"

definition LocalState :: "bool \<Rightarrow> Delegate \<Rightarrow> FSM" where
  "LocalState join d = fsm d"

definition delegate_ok :: "Delegate \<Rightarrow> bool" where
  "delegate_ok d \<longleftrightarrow> fsm_ok (me d) (node_states d)"

text \<open>Metadata of a test node, as the tests' \<open>startNode\<close> builds it.\<close>

definition test_meta :: "string \<Rightarrow> NodeMeta" where
  "test_meta name =
     \<lparr>Name = name, Host = ''127.0.0.1'', Port = 0, DiscoveryPort = 0, CreationTime = None\<rparr>"

subsection \<open>Lemmas\<close>

lemma map_NodeId_put_overwrite [simp]:
  "map NodeId (put_overwrite key e nss) = map NodeId nss"
  by (induction nss) (auto simp: put_overwrite_def)

lemma map_NodeId_put_local [simp]:
  "map NodeId (put_local s key e nss) = map NodeId nss"
  by (induction nss) auto

lemma map_NodeId_delete_local [simp]:
  "map NodeId (delete_local now s key nss) = map NodeId nss"
  by (induction nss) auto

lemma set_node_states_simps [simp]:
  "node_states (set_node_states nss d) = nss"
  "me (set_node_states nss d) = me d"
  "nodeMeta (set_node_states nss d) = nodeMeta d"
  by (simp_all add: node_states_def set_node_states_def)

lemma go_maps_put_overwrite:
  "\<forall>ns \<in> set nss. go_map_ok (Entries ns) \<Longrightarrow> \<forall>ns \<in> set (put_overwrite key e nss). go_map_ok (Entries ns)"
  by (auto simp: put_overwrite_def)

lemma go_maps_put_local:
  "\<forall>ns \<in> set nss. go_map_ok (Entries ns) \<Longrightarrow> \<forall>ns \<in> set (put_local s key e nss). go_map_ok (Entries ns)"
  by (induction nss) auto

lemma go_maps_delete_local:
  "\<forall>ns \<in> set nss. go_map_ok (Entries ns) \<Longrightarrow> \<forall>ns \<in> set (delete_local now s key nss). go_map_ok (Entries ns)"
  by (induction nss) auto

lemma fsm_ok_same_ids:
  "fsm_ok s nss \<Longrightarrow> map NodeId nss' = map NodeId nss \<Longrightarrow>
     \<forall>ns \<in> set nss'. go_map_ok (Entries ns) \<Longrightarrow> fsm_ok s nss'"
  unfolding fsm_ok_def by (metis set_map)

lemma fsm_ok_put_overwrite:
  assumes ok: "fsm_ok s nss"
  shows "fsm_ok s (put_overwrite key e nss)"
  by (rule fsm_ok_same_ids [OF ok]) (use ok in \<open>auto simp: fsm_ok_def go_maps_put_overwrite\<close>)

lemma fsm_ok_put_local:
  assumes ok: "fsm_ok s nss"
  shows "fsm_ok s (put_local s' key e nss)"
  by (rule fsm_ok_same_ids [OF ok]) (use ok in \<open>auto simp: fsm_ok_def go_maps_put_local\<close>)

lemma fsm_ok_delete_local:
  assumes ok: "fsm_ok s nss"
  shows "fsm_ok s (delete_local now s' key nss)"
  by (rule fsm_ok_same_ids [OF ok]) (use ok in \<open>auto simp: fsm_ok_def go_maps_delete_local\<close>)

lemma Put_ok: "delegate_ok d \<Longrightarrow> delegate_ok (Put now key value expiration d)"
  by (simp add: Put_def Let_def delegate_ok_def fsm_ok_put_overwrite fsm_ok_put_local)

lemma Delete_ok: "delegate_ok d \<Longrightarrow> delegate_ok (Delete now key d)"
  by (simp add: Delete_def delegate_ok_def fsm_ok_delete_local)

lemma newDelegate_ok: "delegate_ok (newDelegate name meta)"
  by (simp add: delegate_ok_def fsm_ok_def newDelegate_def node_states_def)

lemma find_entry_None_iff: "find_entry key nss = None \<longleftrightarrow> \<not> key_exists key nss"
  by (induction nss) (auto simp: key_exists_def has_key_def split: option.splits)

lemma find_entry_put_overwrite:
  "key_exists key nss \<Longrightarrow> find_entry key (put_overwrite key e nss) = Some e"
  by (induction nss) (auto simp: put_overwrite_def key_exists_def has_key_def split: option.splits)

lemma find_entry_put_local:
  "\<not> key_exists key nss \<Longrightarrow> s \<in> set (map NodeId nss) \<Longrightarrow> find_entry key (put_local s key e nss) = Some e"
  by (induction nss) (auto simp: key_exists_def has_key_def)

lemma not_expired_at_write:
  "valid_now now \<Longrightarrow> Seconds t \<le> Seconds now \<Longrightarrow> \<not> expired t (new_entry key value now x)"
  by (simp add: expired_iff new_entry_def)

lemma find_entry_Put:
  "delegate_ok d \<Longrightarrow>
     find_entry key (node_states (Put now key value expiration d)) =
       Some (new_entry key value now (setExpiry expiration))"
  by (auto simp: Put_def Let_def delegate_ok_def fsm_ok_def find_entry_put_overwrite find_entry_put_local)

text \<open>
  C6. Read-your-writes: on a well-formed delegate, Get at the instant of a Put returns
  exactly the entry the Put wrote (key, value, no tombstone, the write's timestamp and
  the expiry \<open>setExpiry\<close> made), whether the key was new or already held by some
  partition.
\<close>

theorem Put_then_Get:
  assumes "delegate_ok d" and "valid_now now"
  shows "Get now key (Put now key value expiration d) = Inr (new_entry key value now (setExpiry expiration))"
  using assms by (simp add: Get_def find_entry_Put not_expired_at_write)

text \<open>
  C15. A Put with any positive expiration, however long, is invisible to Get from the
  next wall-clock second on (for a write after the epoch): the expiry duration is
  never added to the deadline.
\<close>

theorem Put_expires_next_second:
  assumes "delegate_ok d" and "valid_now now" and "0 < expiration" and "0 < Seconds now"
    and "Seconds now < Seconds t"
  shows "Get t key (Put now key value expiration d) = Inl ErrKeyNotFound"
  using assms by (simp add: Get_def find_entry_Put expired_iff new_entry_def setExpiry_def)

lemma partitions_put_overwrite:
  "partitions (put_overwrite key e nss) n =
     map_option (\<lambda>m. if m key = None then m else m(key \<mapsto> e)) (partitions nss n)"
  unfolding put_overwrite_def
  by (rule partitions_map) (auto simp: has_key_def)

lemma partitions_put_local:
  "distinct (map NodeId nss) \<Longrightarrow> partitions (put_local s key e nss) n =
     (if n = s then map_option (\<lambda>m. m(key \<mapsto> e)) (partitions nss n) else partitions nss n)"
  by (induction nss) (auto simp: partitions_None_iff fun_upd_twist)

lemma partitions_delete_local:
  "distinct (map NodeId nss) \<Longrightarrow> partitions (delete_local now s key nss) n =
     (if n = s then map_option (\<lambda>m. m(key := map_option (tombstone now) (m key))) (partitions nss n)
      else partitions nss n)"
  by (induction nss) (auto simp: partitions_None_iff has_key_def fun_upd_idem)

lemma partitions_Delete:
  "delegate_ok d \<Longrightarrow> partitions (node_states (Delete now key d)) n =
     (if n = me d
      then map_option (\<lambda>m. m(key := map_option (tombstone now) (m key))) (partitions (node_states d) n)
      else partitions (node_states d) n)"
  by (simp add: Delete_def delegate_ok_def fsm_ok_def partitions_delete_local)

theorem Put_then_Get_witness:
  "delegate_ok (newDelegate ''n1'' (test_meta ''n1'')) \<and> valid_now \<lparr>Seconds = 100, Nanos = 5\<rparr> \<and>
   Get \<lparr>Seconds = 100, Nanos = 5\<rparr> ''my-key''
       (Put \<lparr>Seconds = 100, Nanos = 5\<rparr> ''my-key'' [1, 2] 0 (newDelegate ''n1'' (test_meta ''n1''))) =
     Inr \<lparr>Key = ''my-key'', Value = [1, 2], Archived = None,
          LastUpdatedTime = Some \<lparr>Seconds = 100, Nanos = 5\<rparr>, Expiry = None\<rparr>"
  using Put_then_Get [of "newDelegate ''n1'' (test_meta ''n1'')" "\<lparr>Seconds = 100, Nanos = 5\<rparr>" "''my-key''" "[1, 2]" 0]
  by (simp add: newDelegate_ok valid_now_def new_entry_def setExpiry_def)

theorem Put_expires_next_second_witness:
  "delegate_ok (newDelegate ''n2'' (test_meta ''n2'')) \<and> valid_now \<lparr>Seconds = 100, Nanos = 0\<rparr> \<and>
   (0::int) < 3600000000000 \<and> (0::int) < 100 \<and> (100::int) < 101 \<and>
   Get \<lparr>Seconds = 101, Nanos = 0\<rparr> ''my-key''
       (Put \<lparr>Seconds = 100, Nanos = 0\<rparr> ''my-key'' [] 3600000000000 (newDelegate ''n2'' (test_meta ''n2''))) =
     Inl ErrKeyNotFound"
  using Put_expires_next_second [of "newDelegate ''n2'' (test_meta ''n2'')" "\<lparr>Seconds = 100, Nanos = 0\<rparr>"
      3600000000000 "\<lparr>Seconds = 101, Nanos = 0\<rparr>" "''my-key''" "[]"]
  by (simp add: newDelegate_ok valid_now_def)

text \<open>
  C11. When the key is held already, Put overwrites it in every partition that holds
  it, not only in one: the \<open>break\<close> of the inner loop leaves the outer loop running.
  Every partition's map changes by exactly that overwrite; partitions without the key
  and the set of node ids are untouched.
\<close>

theorem Put_overwrites_every_copy:
  "key_exists key (node_states d) \<Longrightarrow>
     partitions (node_states (Put now key value expiration d)) n =
       map_option (\<lambda>m. if m key = None then m else m(key \<mapsto> new_entry key value now (setExpiry expiration)))
         (partitions (node_states d) n)"
  by (simp add: Put_def Let_def partitions_put_overwrite)

theorem Put_overwrites_every_copy_witness:
  "key_exists ''k''
     (node_states \<lparr>nodeMeta = test_meta ''n1'', fsm = \<lparr>NodeStates =
        [\<lparr>NodeId = ''n1'', Entries = [(''k'', new_entry ''k'' [1] \<lparr>Seconds = 5, Nanos = 0\<rparr> None)]\<rparr>,
         \<lparr>NodeId = ''n2'', Entries = [(''k'', new_entry ''k'' [2] \<lparr>Seconds = 5, Nanos = 0\<rparr> None)]\<rparr>]\<rparr>,
        me = ''n1''\<rparr>) \<and>
   partitions (node_states (Put \<lparr>Seconds = 9, Nanos = 0\<rparr> ''k'' [3] 0
     \<lparr>nodeMeta = test_meta ''n1'', fsm = \<lparr>NodeStates =
        [\<lparr>NodeId = ''n1'', Entries = [(''k'', new_entry ''k'' [1] \<lparr>Seconds = 5, Nanos = 0\<rparr> None)]\<rparr>,
         \<lparr>NodeId = ''n2'', Entries = [(''k'', new_entry ''k'' [2] \<lparr>Seconds = 5, Nanos = 0\<rparr> None)]\<rparr>]\<rparr>,
        me = ''n1''\<rparr>)) ''n2'' =
     Some [''k'' \<mapsto> new_entry ''k'' [3] \<lparr>Seconds = 9, Nanos = 0\<rparr> None]"
proof -
  let ?d = "\<lparr>nodeMeta = test_meta ''n1'', fsm = \<lparr>NodeStates =
        [\<lparr>NodeId = ''n1'', Entries = [(''k'', new_entry ''k'' [1] \<lparr>Seconds = 5, Nanos = 0\<rparr> None)]\<rparr>,
         \<lparr>NodeId = ''n2'', Entries = [(''k'', new_entry ''k'' [2] \<lparr>Seconds = 5, Nanos = 0\<rparr> None)]\<rparr>]\<rparr>,
        me = ''n1''\<rparr>"
  have ex: "key_exists ''k'' (node_states ?d)"
    by (simp add: key_exists_def has_key_def node_states_def)
  show ?thesis
    using ex Put_overwrites_every_copy [OF ex, of "\<lparr>Seconds = 9, Nanos = 0\<rparr>" "[3]" 0 "''n2''"]
    by (simp add: node_states_def setExpiry_def)
qed

text \<open>
  C12. A key that no partition holds is inserted into the node's own partition, and
  only there; every other partition keeps its map.
\<close>

theorem Put_new_key_local:
  "delegate_ok d \<Longrightarrow> \<not> key_exists key (node_states d) \<Longrightarrow>
     partitions (node_states (Put now key value expiration d)) n =
       (if n = me d
        then map_option (\<lambda>m. m(key \<mapsto> new_entry key value now (setExpiry expiration)))
               (partitions (node_states d) n)
        else partitions (node_states d) n)"
  by (simp add: Put_def Let_def delegate_ok_def fsm_ok_def partitions_put_local)

theorem Put_new_key_local_witness:
  "delegate_ok (newDelegate ''n1'' (test_meta ''n1'')) \<and>
   \<not> key_exists ''k'' (node_states (newDelegate ''n1'' (test_meta ''n1''))) \<and>
   partitions (node_states (Put \<lparr>Seconds = 7, Nanos = 0\<rparr> ''k'' [] 0 (newDelegate ''n1'' (test_meta ''n1'')))) ''n1'' =
     Some [''k'' \<mapsto> new_entry ''k'' [] \<lparr>Seconds = 7, Nanos = 0\<rparr> None]"
proof -
  have ok: "delegate_ok (newDelegate ''n1'' (test_meta ''n1''))" by (rule newDelegate_ok)
  have nk: "\<not> key_exists ''k'' (node_states (newDelegate ''n1'' (test_meta ''n1'')))"
    by (simp add: key_exists_def has_key_def node_states_def newDelegate_def)
  show ?thesis
    using ok nk Put_new_key_local [OF ok nk, of "\<lparr>Seconds = 7, Nanos = 0\<rparr>" "[]" 0 "''n1''"]
    by (simp add: newDelegate_def node_states_def setExpiry_def)
qed

text \<open>
  C7. Delete works on the node's own partition only: there the entry for the key (if
  any) becomes a tombstone (\<open>Archived = true\<close>, timestamp refreshed to \<open>now\<close>, key,
  value and expiry kept); every other partition, and every other key, is untouched.
\<close>

theorem Delete_tombstones_own_entry:
  "delegate_ok d \<Longrightarrow>
     partitions (node_states (Delete now key d)) n =
       (if n = me d
        then map_option (\<lambda>m. m(key := map_option (tombstone now) (m key))) (partitions (node_states d) n)
        else partitions (node_states d) n)"
  by (rule partitions_Delete)

theorem Delete_tombstones_own_entry_witness:
  "delegate_ok (Put \<lparr>Seconds = 3, Nanos = 0\<rparr> ''k'' [7] 0 (newDelegate ''n1'' (test_meta ''n1''))) \<and>
   partitions (node_states (Delete \<lparr>Seconds = 4, Nanos = 0\<rparr> ''k''
       (Put \<lparr>Seconds = 3, Nanos = 0\<rparr> ''k'' [7] 0 (newDelegate ''n1'' (test_meta ''n1''))))) ''n1'' =
     Some [''k'' \<mapsto> \<lparr>Key = ''k'', Value = [7], Archived = Some True,
                      LastUpdatedTime = Some \<lparr>Seconds = 4, Nanos = 0\<rparr>, Expiry = None\<rparr>]"
proof -
  let ?d = "Put \<lparr>Seconds = 3, Nanos = 0\<rparr> ''k'' [7] 0 (newDelegate ''n1'' (test_meta ''n1''))"
  have ok: "delegate_ok ?d" by (intro Put_ok newDelegate_ok)
  have own: "partitions (node_states ?d) ''n1'' =
               Some [''k'' \<mapsto> new_entry ''k'' [7] \<lparr>Seconds = 3, Nanos = 0\<rparr> None]"
    by (simp add: Put_def newDelegate_def node_states_def set_node_states_def key_exists_def
                  has_key_def setExpiry_def)
  have me: "me ?d = ''n1''" by (simp add: Put_def Let_def newDelegate_def set_node_states_def)
  show ?thesis
    using ok Delete_tombstones_own_entry [OF ok, of "\<lparr>Seconds = 4, Nanos = 0\<rparr>" "''k''" "''n1''"]
    by (simp add: me own tombstone_def new_entry_def)
qed

text \<open>
  C13. Expiry is permanent until a newer write: once the entry that Get and Exists
  find for a key has expired, Get fails with \<open>ErrKeyNotFound\<close> and Exists is false at
  every later instant of the same state.
\<close>

theorem expired_entry_stays_hidden:
  "find_entry key (node_states d) = Some e \<Longrightarrow> expired now e \<Longrightarrow> Seconds now \<le> Seconds later \<Longrightarrow>
     Get later key d = Inl ErrKeyNotFound \<and> \<not> Exists later key d"
  by (simp add: Get_def Exists_def expired_later)

theorem expired_entry_stays_hidden_witness:
  "find_entry ''k'' (node_states (Put \<lparr>Seconds = 10, Nanos = 0\<rparr> ''k'' [] 100000000 (newDelegate ''n1'' (test_meta ''n1'')))) =
     Some (new_entry ''k'' [] \<lparr>Seconds = 10, Nanos = 0\<rparr> (Some \<lparr>DurSeconds = 0, DurNanos = 100000000\<rparr>)) \<and>
   expired \<lparr>Seconds = 11, Nanos = 0\<rparr> (new_entry ''k'' [] \<lparr>Seconds = 10, Nanos = 0\<rparr> (Some \<lparr>DurSeconds = 0, DurNanos = 100000000\<rparr>)) \<and>
   Seconds \<lparr>Seconds = 11, Nanos = 0\<rparr> \<le> Seconds \<lparr>Seconds = 500, Nanos = 0\<rparr> \<and>
   \<not> Exists \<lparr>Seconds = 500, Nanos = 0\<rparr> ''k''
        (Put \<lparr>Seconds = 10, Nanos = 0\<rparr> ''k'' [] 100000000 (newDelegate ''n1'' (test_meta ''n1'')))"
proof -
  let ?d = "Put \<lparr>Seconds = 10, Nanos = 0\<rparr> ''k'' [] 100000000 (newDelegate ''n1'' (test_meta ''n1''))"
  let ?e = "new_entry ''k'' [] \<lparr>Seconds = 10, Nanos = 0\<rparr> (Some \<lparr>DurSeconds = 0, DurNanos = 100000000\<rparr>)"
  have f: "find_entry ''k'' (node_states ?d) = Some ?e"
    by (simp add: Put_def newDelegate_def node_states_def set_node_states_def key_exists_def
                  has_key_def setExpiry_def durationpb_New_def)
  have x: "expired \<lparr>Seconds = 11, Nanos = 0\<rparr> ?e" by (simp add: expired_iff new_entry_def unix_def)
  show ?thesis
    using f x expired_entry_stays_hidden [OF f x, of "\<lparr>Seconds = 500, Nanos = 0\<rparr>"] by simp
qed

lemma find_entry_in_Entries:
  "find_entry key nss = Some e \<Longrightarrow> \<exists>ns \<in> set nss. (key, e) \<in> set (Entries ns)"
  by (induction nss) (auto split: option.splits dest: map_of_SomeD)

lemma put_local_only_holder:
  "\<not> key_exists key nss \<Longrightarrow> ns \<in> set (put_local s key e nss) \<Longrightarrow> has_key key ns \<Longrightarrow> NodeId ns = s"
  by (induction nss) (auto simp: key_exists_def has_key_def split: if_splits)

lemma find_entry_delete_local:
  "find_entry key nss = Some e \<Longrightarrow> (\<forall>ns \<in> set nss. has_key key ns \<longrightarrow> NodeId ns = s) \<Longrightarrow>
     find_entry key (delete_local now s key nss) = Some (tombstone now e)"
  by (induction nss) (auto simp: has_key_def map_of_map_entry split: option.splits)

text \<open>
  C33. The local contract of Delete as the spec states it (4.1): after a node writes a
  new key and deletes it, the key's tombstone stays readable at every later instant on
  that node: Get returns it as-is (archived, timestamp refreshed), Exists reports the
  key absent, and List still includes the tombstone, which callers are to filter.
\<close>

theorem Delete_keeps_tombstone_readable:
  assumes ok: "delegate_ok d" and now': "valid_now now'" and fresh: "\<not> key_exists key (node_states d)"
  shows "Get now' key (Delete now' key (Put now key value expiration d)) =
           Inr (tombstone now' (new_entry key value now (setExpiry expiration))) \<and>
         \<not> Exists now' key (Delete now' key (Put now key value expiration d)) \<and>
         tombstone now' (new_entry key value now (setExpiry expiration))
           \<in> set (List_entries now' (Delete now' key (Put now key value expiration d)))"
proof -
  let ?e = "new_entry key value now (setExpiry expiration)"
  let ?d1 = "Put now key value expiration d"
  have nss1: "node_states ?d1 = put_local (me d) key ?e (node_states d)"
    using fresh by (simp add: Put_def Let_def)
  have me1: "me ?d1 = me d" by (simp add: Put_def Let_def)
  have f1: "find_entry key (node_states ?d1) = Some ?e"
    using ok by (rule find_entry_Put)
  have only: "\<forall>ns \<in> set (node_states ?d1). has_key key ns \<longrightarrow> NodeId ns = me ?d1"
    using fresh put_local_only_holder nss1 me1 by metis
  have f2: "find_entry key (node_states (Delete now' key ?d1)) = Some (tombstone now' ?e)"
    using find_entry_delete_local [OF f1 only] by (simp add: Delete_def)
  have ne: "\<not> expired now' (tombstone now' ?e)"
    using now' by (simp add: expired_iff tombstone_def)
  have arch: "GetArchived (tombstone now' ?e)" by (simp add: tombstone_def GetArchived_def)
  obtain ns where ns: "ns \<in> set (node_states (Delete now' key ?d1))"
    and kv: "(key, tombstone now' ?e) \<in> set (Entries ns)"
    using find_entry_in_Entries [OF f2] by blast
  have "tombstone now' ?e \<in> set (List_entries now' (Delete now' key ?d1))"
    using ns kv ne by (force simp: List_entries_def)
  then show ?thesis using f2 ne arch by (simp add: Get_def Exists_def)
qed

theorem Delete_keeps_tombstone_readable_witness:
  "delegate_ok (newDelegate ''n1'' (test_meta ''n1'')) \<and> valid_now \<lparr>Seconds = 6, Nanos = 0\<rparr> \<and>
   \<not> key_exists ''k'' (node_states (newDelegate ''n1'' (test_meta ''n1''))) \<and>
   Get \<lparr>Seconds = 6, Nanos = 0\<rparr> ''k''
     (Delete \<lparr>Seconds = 6, Nanos = 0\<rparr> ''k'' (Put \<lparr>Seconds = 5, Nanos = 0\<rparr> ''k'' [1] 0 (newDelegate ''n1'' (test_meta ''n1'')))) =
     Inr (tombstone \<lparr>Seconds = 6, Nanos = 0\<rparr> (new_entry ''k'' [1] \<lparr>Seconds = 5, Nanos = 0\<rparr> (setExpiry 0)))"
proof -
  have ok: "delegate_ok (newDelegate ''n1'' (test_meta ''n1''))" by (rule newDelegate_ok)
  have v: "valid_now \<lparr>Seconds = 6, Nanos = 0\<rparr>" by (simp add: valid_now_def)
  have nk: "\<not> key_exists ''k'' (node_states (newDelegate ''n1'' (test_meta ''n1'')))"
    by (simp add: key_exists_def has_key_def node_states_def newDelegate_def)
  show ?thesis
    using ok v nk Delete_keeps_tombstone_readable [OF ok v nk, of "\<lparr>Seconds = 5, Nanos = 0\<rparr>" "[1]" 0]
    by simp
qed

end
