(* ===== verification/Merge.thy ===== *)
theory Merge
  imports Delegate
begin

text \<open>
  \<open>MergeRemoteState\<close> of \<open>src/unnamed/part_001\<close>: the anti-entropy merge that fuses a
  peer's FSM into the local one. The working map \<open>entries\<close> (node id to that node's Go
  map) is built from the local slice, every remote partition is folded into it, an
  existing partition key by key with last-writer-wins on whole Unix seconds (ties take
  the remote entry), and the slice is rebuilt by ranging over the working map. The
  order of that last range is Go's map iteration order, so it is the parameter
  \<open>order\<close>, any enumeration of the working map's keys (\<open>iter_order\<close>). The inner
  loops range over the remote Go maps in their list order; a theorem below shows
  that this order does not matter. \<open>lww\<close> and \<open>merge_view\<close> are the abstract
  specification, on maps, that the loops implement.
\<close>

type_synonym entries_map = "(string, (string, Entry) gomap) gomap"

fun merge_entries :: "(string, Entry) gomap \<Rightarrow> (string, Entry) gomap \<Rightarrow> (string, Entry) gomap" where
  "merge_entries [] localEntries = localEntries"
| "merge_entries ((key, remoteEntry) # rest) localEntries =
     merge_entries rest
       (case map_of localEntries key of
          None \<Rightarrow> AList.update key remoteEntry localEntries
        | Some localEntry \<Rightarrow>
            if unix (LastUpdatedTime localEntry) > unix (LastUpdatedTime remoteEntry)
            then localEntries
            else AList.update key remoteEntry localEntries)"

definition merge_node_state :: "entries_map \<Rightarrow> NodeState \<Rightarrow> entries_map" where
  "merge_node_state entries remoteNodeState =
     (case map_of entries (NodeId remoteNodeState) of
        None \<Rightarrow> AList.update (NodeId remoteNodeState) (Entries remoteNodeState) entries
      | Some localEntries \<Rightarrow>
          (let localEntries = (if length localEntries = 0 then [] else localEntries)
           in AList.update (NodeId remoteNodeState)
                (merge_entries (Entries remoteNodeState) localEntries) entries))"

definition local_entries_map :: "NodeState list \<Rightarrow> entries_map" where
  "local_entries_map localStates =
     fold (\<lambda>nodeState entries. AList.update (NodeId nodeState) (Entries nodeState) entries)
       localStates []"

definition merged_entries_map :: "NodeState list \<Rightarrow> NodeState list \<Rightarrow> entries_map" where
  "merged_entries_map localStates remoteStates =
     fold (\<lambda>remoteNodeState entries. merge_node_state entries remoteNodeState)
       remoteStates (local_entries_map localStates)"

definition rebuild_node_states :: "string list \<Rightarrow> entries_map \<Rightarrow> NodeState list" where
  "rebuild_node_states order entries =
     map (\<lambda>k. \<lparr>NodeId = k, Entries = (case map_of entries k of None \<Rightarrow> [] | Some v \<Rightarrow> v)\<rparr>) order"

definition MergeRemoteState :: "string list \<Rightarrow> FSM \<Rightarrow> Delegate \<Rightarrow> Delegate" where
  "MergeRemoteState order remoteFSM d =
     set_node_states
       (rebuild_node_states order (merged_entries_map (node_states d) (NodeStates remoteFSM))) d"

text \<open>The order in which a merge of \<open>remoteFSM\<close> into \<open>d\<close> may rebuild the slice.\<close>

definition merge_order_ok :: "string list \<Rightarrow> FSM \<Rightarrow> Delegate \<Rightarrow> bool" where
  "merge_order_ok order remoteFSM d \<longleftrightarrow>
     iter_order order (merged_entries_map (node_states d) (NodeStates remoteFSM))"

subsection \<open>Abstract specification\<close>

definition lww :: "(string \<rightharpoonup> Entry) \<Rightarrow> (string \<rightharpoonup> Entry) \<Rightarrow> (string \<rightharpoonup> Entry)" where
  "lww l r = (\<lambda>k. case r k of
       None \<Rightarrow> l k
     | Some er \<Rightarrow> (case l k of
         None \<Rightarrow> Some er
       | Some el \<Rightarrow> if unix (LastUpdatedTime el) > unix (LastUpdatedTime er) then Some el else Some er))"

definition merge_view :: "view \<Rightarrow> view \<Rightarrow> view" where
  "merge_view L R = (\<lambda>n. case R n of
       None \<Rightarrow> L n
     | Some r \<Rightarrow> (case L n of None \<Rightarrow> Some r | Some l \<Rightarrow> Some (lww l r)))"

definition view_of :: "entries_map \<Rightarrow> view" where
  "view_of entries = (\<lambda>n. map_option map_of (map_of entries n))"

definition vals_ok :: "entries_map \<Rightarrow> bool" where
  "vals_ok entries \<longleftrightarrow> (\<forall>p \<in> set entries. go_map_ok (snd p))"

text \<open>
  Two replicas that wrote key \<open>k\<close> of node \<open>n1\<close>'s partition in the same second
  with different values, as after the scenario of two clients writing concurrently.
\<close>

definition tie_entry_a :: Entry where
  "tie_entry_a = new_entry ''k'' [1] \<lparr>Seconds = 5, Nanos = 0\<rparr> None"

definition tie_entry_b :: Entry where
  "tie_entry_b = new_entry ''k'' [2] \<lparr>Seconds = 5, Nanos = 700\<rparr> None"

definition tie_a :: Delegate where
  "tie_a = \<lparr>nodeMeta = test_meta ''n1'',
            fsm = \<lparr>NodeStates = [\<lparr>NodeId = ''n1'', Entries = [(''k'', tie_entry_a)]\<rparr>]\<rparr>,
            me = ''n1''\<rparr>"

definition tie_b :: Delegate where
  "tie_b = \<lparr>nodeMeta = test_meta ''n2'',
            fsm = \<lparr>NodeStates = [\<lparr>NodeId = ''n2'', Entries = []\<rparr>,
                                 \<lparr>NodeId = ''n1'', Entries = [(''k'', tie_entry_b)]\<rparr>]\<rparr>,
            me = ''n2''\<rparr>"

subsection \<open>Lemmas\<close>

lemma go_map_ok_merge_entries [simp]:
  "go_map_ok L \<Longrightarrow> go_map_ok (merge_entries R L)"
  by (induction R L rule: merge_entries.induct) (auto split: option.splits)

lemma lww_empty_left [simp]: "lww Map.empty r = r"
  by (simp add: lww_def fun_eq_iff split: option.splits)

lemma map_of_merge_entries:
  "go_map_ok R \<Longrightarrow> map_of (merge_entries R L) = lww (map_of L) (map_of R)"
proof (induction R L rule: merge_entries.induct)
  case (1 localEntries)
  then show ?case by (simp add: lww_def fun_eq_iff split: option.splits)
next
  case (2 key remoteEntry rest localEntries)
  let ?L' = "case map_of localEntries key of
          None \<Rightarrow> AList.update key remoteEntry localEntries
        | Some localEntry \<Rightarrow>
            if unix (LastUpdatedTime localEntry) > unix (LastUpdatedTime remoteEntry)
            then localEntries
            else AList.update key remoteEntry localEntries"
  from "2.prems" have fresh: "map_of rest key = None" and ok: "go_map_ok rest"
    by (simp_all add: map_of_eq_None_iff)
  have step: "map_of ?L' = (map_of localEntries)(key := lww (map_of localEntries) [key \<mapsto> remoteEntry] key)"
    by (auto simp: lww_def fun_eq_iff split: option.splits)
  have "map_of (merge_entries rest ?L') = lww (map_of ?L') (map_of rest)"
    using ok by (rule "2.IH")
  also have "\<dots> = lww (map_of localEntries) ((map_of rest)(key \<mapsto> remoteEntry))"
    using fresh unfolding step by (auto simp: lww_def fun_eq_iff split: option.splits)
  finally show ?case by (simp add: fun_upd_def)
qed

lemma set_update_cases:
  "p \<in> set (AList.update k v m) \<Longrightarrow> p = (k, v) \<or> p \<in> set m"
  by (induction m) (auto split: if_splits)

lemma vals_ok_update [simp]: "vals_ok M \<Longrightarrow> go_map_ok v \<Longrightarrow> vals_ok (AList.update k v M)"
  unfolding vals_ok_def by (auto dest: set_update_cases)

lemma vals_ok_lookup: "vals_ok M \<Longrightarrow> map_of M k = Some v \<Longrightarrow> go_map_ok v"
  unfolding vals_ok_def by (fastforce dest: map_of_SomeD)

lemma view_of_update [simp]: "view_of (AList.update k v M) = (view_of M)(k \<mapsto> map_of v)"
  by (simp add: view_of_def fun_eq_iff)

lemma merge_node_state_ok:
  "vals_ok M \<Longrightarrow> go_map_ok (Entries r) \<Longrightarrow> vals_ok (merge_node_state M r)"
  by (auto simp: merge_node_state_def Let_def vals_ok_lookup split: option.splits)

lemma view_of_merge_node_state:
  assumes "vals_ok M" and "go_map_ok (Entries r)"
  shows "view_of (merge_node_state M r) =
           (view_of M)(NodeId r \<mapsto> (case view_of M (NodeId r) of
                                        None \<Rightarrow> map_of (Entries r)
                                      | Some l \<Rightarrow> lww l (map_of (Entries r))))"
  using assms
  by (auto simp: merge_node_state_def Let_def view_of_def map_of_merge_entries
           split: option.splits)

lemma vals_ok_local_fold:
  "vals_ok M \<Longrightarrow> \<forall>ns \<in> set nss. go_map_ok (Entries ns) \<Longrightarrow>
     vals_ok (fold (\<lambda>ns M. AList.update (NodeId ns) (Entries ns) M) nss M)"
  by (induction nss arbitrary: M) auto

lemma view_of_local_fold:
  "distinct (map NodeId nss) \<Longrightarrow>
     view_of (fold (\<lambda>ns M. AList.update (NodeId ns) (Entries ns) M) nss M) = view_of M ++ partitions nss"
proof (induction nss arbitrary: M)
  case Nil
  then show ?case by simp
next
  case (Cons ns nss)
  then have "NodeId ns \<notin> dom (partitions nss)" by (simp add: partitions_None_iff domIff)
  with Cons show ?case by (auto simp: fun_eq_iff map_add_def domIff split: option.splits)
qed

lemma vals_ok_remote_fold:
  "vals_ok M \<Longrightarrow> \<forall>ns \<in> set rs. go_map_ok (Entries ns) \<Longrightarrow>
     vals_ok (fold (\<lambda>r M. merge_node_state M r) rs M)"
  by (induction rs arbitrary: M) (auto simp: merge_node_state_ok)

lemma view_of_remote_fold:
  "remote_ok rs \<Longrightarrow> vals_ok M \<Longrightarrow>
     view_of (fold (\<lambda>r M. merge_node_state M r) rs M) = merge_view (view_of M) (partitions rs)"
proof (induction rs arbitrary: M)
  case Nil
  then show ?case by (simp add: merge_view_def)
next
  case (Cons r rs)
  from Cons.prems have ok_r: "go_map_ok (Entries r)" and ok_rs: "remote_ok rs"
    and fresh: "partitions rs (NodeId r) = None"
    by (auto simp: remote_ok_def partitions_None_iff)
  have "vals_ok (merge_node_state M r)" using Cons.prems(2) ok_r by (rule merge_node_state_ok)
  with ok_rs have "view_of (fold (\<lambda>r M. merge_node_state M r) rs (merge_node_state M r)) =
      merge_view (view_of (merge_node_state M r)) (partitions rs)"
    by (rule Cons.IH)
  also have "\<dots> = merge_view (view_of M) (partitions (r # rs))"
    using fresh by (auto simp: view_of_merge_node_state [OF Cons.prems(2) ok_r] merge_view_def
                     fun_eq_iff split: option.splits)
  finally show ?case by (simp add: fun_upd_def)
qed

lemma go_map_ok_local_fold:
  "go_map_ok M \<Longrightarrow> go_map_ok (fold (\<lambda>ns M. AList.update (NodeId ns) (Entries ns) M) nss M)"
  by (induction nss arbitrary: M) auto

lemma go_map_ok_remote_fold:
  "go_map_ok M \<Longrightarrow> go_map_ok (fold (\<lambda>r M. merge_node_state M r) rs M)"
  by (induction rs arbitrary: M) (auto simp: merge_node_state_def Let_def split: option.splits)

lemma partitions_rebuild:
  "partitions (rebuild_node_states order M) n =
     (if n \<in> set order then Some (map_of (case map_of M n of None \<Rightarrow> [] | Some v \<Rightarrow> v)) else None)"
  by (induction order) (auto simp: rebuild_node_states_def)

lemma partitions_rebuild_iter:
  "iter_order order M \<Longrightarrow> partitions (rebuild_node_states order M) = view_of M"
  by (auto simp: fun_eq_iff partitions_rebuild view_of_def iter_order_keys split: option.splits)

lemma view_of_Nil [simp]: "view_of [] = Map.empty"
  by (simp add: view_of_def fun_eq_iff)

lemma merged_entries_map_facts:
  assumes "fsm_ok s localStates" and "remote_ok remoteStates"
  shows "go_map_ok (merged_entries_map localStates remoteStates)"
    and "vals_ok (merged_entries_map localStates remoteStates)"
    and "view_of (merged_entries_map localStates remoteStates) =
           merge_view (partitions localStates) (partitions remoteStates)"
proof -
  have loc: "\<forall>ns \<in> set localStates. go_map_ok (Entries ns)" "distinct (map NodeId localStates)"
    using assms(1) by (simp_all add: fsm_ok_def)
  have rem: "\<forall>ns \<in> set remoteStates. go_map_ok (Entries ns)"
    using assms(2) by (simp add: remote_ok_def)
  have v0: "vals_ok (local_entries_map localStates)"
    unfolding local_entries_map_def
    by (rule vals_ok_local_fold) (use loc(1) in \<open>simp_all add: vals_ok_def\<close>)
  show "go_map_ok (merged_entries_map localStates remoteStates)"
    by (simp add: merged_entries_map_def local_entries_map_def go_map_ok_local_fold go_map_ok_remote_fold)
  show "vals_ok (merged_entries_map localStates remoteStates)"
    unfolding merged_entries_map_def using v0 rem by (rule vals_ok_remote_fold)
  have "view_of (local_entries_map localStates) = partitions localStates"
    unfolding local_entries_map_def using loc(2) by (simp add: view_of_local_fold)
  then show "view_of (merged_entries_map localStates remoteStates) =
           merge_view (partitions localStates) (partitions remoteStates)"
    unfolding merged_entries_map_def using view_of_remote_fold [OF assms(2) v0] by simp
qed

lemma partitions_MergeRemoteState:
  assumes "delegate_ok d" and "remote_ok (NodeStates remoteFSM)"
    and "merge_order_ok order remoteFSM d"
  shows "partitions (node_states (MergeRemoteState order remoteFSM d)) =
           merge_view (partitions (node_states d)) (partitions (NodeStates remoteFSM))"
  using assms merged_entries_map_facts(3) [of "me d" "node_states d" "NodeStates remoteFSM"]
  by (simp add: MergeRemoteState_def merge_order_ok_def delegate_ok_def partitions_rebuild_iter)

lemma map_NodeId_rebuild [simp]: "map NodeId (rebuild_node_states order M) = order"
  by (simp add: rebuild_node_states_def comp_def)

lemma merge_view_None_iff: "merge_view L R n = None \<longleftrightarrow> L n = None \<and> R n = None"
  by (simp add: merge_view_def split: option.splits)

lemma delegate_ok_MergeRemoteState:
  assumes ok: "delegate_ok d" and rem: "remote_ok (NodeStates remoteFSM)"
    and ord: "merge_order_ok order remoteFSM d"
  shows "delegate_ok (MergeRemoteState order remoteFSM d)"
proof -
  let ?M = "merged_entries_map (node_states d) (NodeStates remoteFSM)"
  have fs: "fsm_ok (me d) (node_states d)" using ok by (simp add: delegate_ok_def)
  note facts = merged_entries_map_facts [OF fs rem]
  have it: "iter_order order ?M" using ord by (simp add: merge_order_ok_def)
  have "partitions (node_states d) (me d) \<noteq> None"
    using fs by (simp add: fsm_ok_def partitions_None_iff)
  then have "view_of ?M (me d) \<noteq> None" by (simp add: facts(3) merge_view_None_iff)
  then have me_in: "me d \<in> set order"
    using it by (simp add: iter_order_keys view_of_def)
  have maps: "\<forall>ns \<in> set (rebuild_node_states order ?M). go_map_ok (Entries ns)"
    using facts(2) by (auto simp: rebuild_node_states_def vals_ok_lookup split: option.splits)
  show ?thesis
    using it me_in maps
    by (simp add: delegate_ok_def MergeRemoteState_def fsm_ok_def iter_order_def)
qed

lemma lww_keeps_newer:
  "l k = Some e \<Longrightarrow> \<exists>e'. lww l r k = Some e' \<and> unix (LastUpdatedTime e) \<le> unix (LastUpdatedTime e')"
  by (auto simp: lww_def split: option.splits)

lemma lww_tie:
  "l k = Some el \<Longrightarrow> r k = Some er \<Longrightarrow> unix (LastUpdatedTime el) = unix (LastUpdatedTime er) \<Longrightarrow>
     lww l r k = Some er"
  by (simp add: lww_def)

lemma lww_same [simp]: "lww m m = m"
  by (simp add: lww_def fun_eq_iff split: option.splits)

lemma lww_absorb: "lww r (lww l r) = lww l r"
  by (auto simp: lww_def fun_eq_iff split: option.splits)

lemma merge_view_same [simp]: "merge_view V V = V"
  by (simp add: merge_view_def fun_eq_iff split: option.splits)

lemma merge_view_absorb: "merge_view R (merge_view L R) = merge_view L R"
  by (auto simp: merge_view_def fun_eq_iff lww_absorb split: option.splits)

text \<open>
  C17. The inner loop of MergeRemoteState does not depend on Go's iteration order of the
  remote map: any two enumerations of the same remote map merge to the same map.
\<close>

theorem merge_entries_perm:
  assumes "go_map_ok R" and "go_map_ok R'" and "set R' = set R"
  shows "map_of (merge_entries R' L) = map_of (merge_entries R L)"
proof -
  have "map_of R' = map_of R"
    using assms by (simp add: go_map_ok_def map_of_inject_set)
  with assms show ?thesis by (simp add: map_of_merge_entries)
qed

text \<open>
  C8. Merging never makes a stored entry older: an entry held at node id \<open>n\<close> and key
  \<open>k\<close> before MergeRemoteState is replaced, if at all, by one whose last-update second
  is at least as large, and the slot is never emptied.
\<close>

theorem MergeRemoteState_keeps_newer:
  assumes "delegate_ok d" and "remote_ok (NodeStates remoteFSM)"
    and "merge_order_ok order remoteFSM d"
    and "partitions (node_states d) n = Some m" and "m k = Some e"
  shows "\<exists>m' e'. partitions (node_states (MergeRemoteState order remoteFSM d)) n = Some m' \<and>
           m' k = Some e' \<and> unix (LastUpdatedTime e) \<le> unix (LastUpdatedTime e')"
  using assms lww_keeps_newer [of m k e]
  by (auto simp: partitions_MergeRemoteState merge_view_def split: option.splits)

text \<open>
  C9. Last writer wins at the same second: when the local and the remote entry of a
  slot carry the same Unix second, the merged slot holds the remote entry.
\<close>

theorem MergeRemoteState_tie:
  assumes "delegate_ok d" and "remote_ok (NodeStates remoteFSM)"
    and "merge_order_ok order remoteFSM d"
    and "partitions (node_states d) n = Some ml" and "ml k = Some el"
    and "partitions (NodeStates remoteFSM) n = Some mr" and "mr k = Some er"
    and "unix (LastUpdatedTime el) = unix (LastUpdatedTime er)"
  shows "\<exists>m'. partitions (node_states (MergeRemoteState order remoteFSM d)) n = Some m' \<and> m' k = Some er"
  using assms by (simp add: partitions_MergeRemoteState merge_view_def lww_tie)

lemmas merge_eval_simps = merge_order_ok_def iter_order_def merged_entries_map_def
  local_entries_map_def merge_node_state_def LocalState_def node_states_def remote_ok_def
  delegate_ok_def fsm_ok_def tie_a_def tie_b_def tie_entry_a_def tie_entry_b_def new_entry_def
  Let_def unix_def

text \<open>
  C1. MergeRemoteState implements the abstract merge: on a well-formed delegate and a
  well-formed peer state, and for every order in which Go may range over the working
  map, the resulting view is \<open>merge_view\<close> of the two views: a peer's partition the
  node does not know is adopted as it is, a known one is merged key by key with
  last-writer-wins, and partitions the peer does not send are kept.
\<close>

theorem MergeRemoteState_refines_merge_view:
  assumes "delegate_ok d" and "remote_ok (NodeStates remoteFSM)"
    and "merge_order_ok order remoteFSM d"
  shows "partitions (node_states (MergeRemoteState order remoteFSM d)) =
           merge_view (partitions (node_states d)) (partitions (NodeStates remoteFSM))"
  using assms by (rule partitions_MergeRemoteState)

theorem MergeRemoteState_refines_merge_view_witness:
  "delegate_ok tie_b \<and> remote_ok (NodeStates (LocalState False tie_a)) \<and>
   merge_order_ok [''n2'', ''n1''] (LocalState False tie_a) tie_b \<and>
   partitions (node_states (MergeRemoteState [''n2'', ''n1''] (LocalState False tie_a) tie_b)) ''n1'' =
     Some [''k'' \<mapsto> tie_entry_a]"
proof -
  have h: "delegate_ok tie_b" "remote_ok (NodeStates (LocalState False tie_a))"
    "merge_order_ok [''n2'', ''n1''] (LocalState False tie_a) tie_b"
    by (simp_all add: merge_eval_simps)
  have v: "merge_view (partitions (node_states tie_b)) (partitions (NodeStates (LocalState False tie_a))) ''n1'' =
      Some [''k'' \<mapsto> tie_entry_a]"
    by (simp add: merge_view_def lww_def merge_eval_simps fun_eq_iff)
  show ?thesis
    using h by (simp only: MergeRemoteState_refines_merge_view [OF h] v simp_thms)
qed

text \<open>
  C2. The inner merge loop of MergeRemoteState (over one remote partition, with the
  \<open>continue\<close> for a newer local entry) computes \<open>lww\<close>: a key only the remote has is
  added, and a key both have keeps the local entry exactly when its Unix second is
  strictly larger, else takes the remote one.
\<close>

theorem merge_entries_is_lww:
  "go_map_ok remoteEntries \<Longrightarrow>
     map_of (merge_entries remoteEntries localEntries) = lww (map_of localEntries) (map_of remoteEntries)"
  by (rule map_of_merge_entries)

theorem merge_entries_is_lww_witness:
  "go_map_ok [(''k'', tie_entry_b), (''j'', tie_entry_a)] \<and>
   map_of (merge_entries [(''k'', tie_entry_b), (''j'', tie_entry_a)] [(''k'', tie_entry_a)]) =
     [''k'' \<mapsto> tie_entry_b, ''j'' \<mapsto> tie_entry_a]"
proof -
  have ok: "go_map_ok [(''k'', tie_entry_b), (''j'', tie_entry_a)]" by simp
  show ?thesis
    using ok merge_entries_is_lww [OF ok, of "[(''k'', tie_entry_a)]"]
    by (simp add: lww_def fun_eq_iff tie_entry_a_def tie_entry_b_def new_entry_def unix_def)
qed

theorem MergeRemoteState_keeps_newer_witness:
  "delegate_ok tie_b \<and> remote_ok (NodeStates (LocalState False tie_a)) \<and>
   merge_order_ok [''n2'', ''n1''] (LocalState False tie_a) tie_b \<and>
   partitions (node_states tie_b) ''n1'' = Some [''k'' \<mapsto> tie_entry_b] \<and>
   [''k'' \<mapsto> tie_entry_b] ''k'' = Some tie_entry_b \<and>
   (\<exists>m' e'. partitions (node_states (MergeRemoteState [''n2'', ''n1''] (LocalState False tie_a) tie_b)) ''n1'' = Some m' \<and>
           m' ''k'' = Some e' \<and> unix (LastUpdatedTime tie_entry_b) \<le> unix (LastUpdatedTime e'))"
proof -
  have h: "delegate_ok tie_b" "remote_ok (NodeStates (LocalState False tie_a))"
    "merge_order_ok [''n2'', ''n1''] (LocalState False tie_a) tie_b"
    "partitions (node_states tie_b) ''n1'' = Some [''k'' \<mapsto> tie_entry_b]"
    "[''k'' \<mapsto> tie_entry_b] ''k'' = Some tie_entry_b"
    by (simp_all add: merge_eval_simps)
  show ?thesis using h MergeRemoteState_keeps_newer [OF h] by blast
qed

theorem MergeRemoteState_tie_witness:
  "delegate_ok tie_b \<and> remote_ok (NodeStates (LocalState False tie_a)) \<and>
   merge_order_ok [''n2'', ''n1''] (LocalState False tie_a) tie_b \<and>
   partitions (node_states tie_b) ''n1'' = Some [''k'' \<mapsto> tie_entry_b] \<and>
   partitions (NodeStates (LocalState False tie_a)) ''n1'' = Some [''k'' \<mapsto> tie_entry_a] \<and>
   unix (LastUpdatedTime tie_entry_b) = unix (LastUpdatedTime tie_entry_a) \<and>
   (\<exists>m'. partitions (node_states (MergeRemoteState [''n2'', ''n1''] (LocalState False tie_a) tie_b)) ''n1'' = Some m' \<and>
         m' ''k'' = Some tie_entry_a)"
proof -
  have h: "delegate_ok tie_b" "remote_ok (NodeStates (LocalState False tie_a))"
    "merge_order_ok [''n2'', ''n1''] (LocalState False tie_a) tie_b"
    "partitions (node_states tie_b) ''n1'' = Some [''k'' \<mapsto> tie_entry_b]"
    "[''k'' \<mapsto> tie_entry_b] ''k'' = Some tie_entry_b"
    "partitions (NodeStates (LocalState False tie_a)) ''n1'' = Some [''k'' \<mapsto> tie_entry_a]"
    "[''k'' \<mapsto> tie_entry_a] ''k'' = Some tie_entry_a"
    "unix (LastUpdatedTime tie_entry_b) = unix (LastUpdatedTime tie_entry_a)"
    by (simp_all add: merge_eval_simps unix_def)
  show ?thesis using h MergeRemoteState_tie [OF h] by blast
qed

theorem merge_entries_perm_witness:
  "go_map_ok [(''k'', tie_entry_b), (''j'', tie_entry_a)] \<and>
   go_map_ok [(''j'', tie_entry_a), (''k'', tie_entry_b)] \<and>
   set [(''j'', tie_entry_a), (''k'', tie_entry_b)] = set [(''k'', tie_entry_b), (''j'', tie_entry_a)] \<and>
   map_of (merge_entries [(''j'', tie_entry_a), (''k'', tie_entry_b)] [(''k'', tie_entry_a)]) =
   map_of (merge_entries [(''k'', tie_entry_b), (''j'', tie_entry_a)] [(''k'', tie_entry_a)])"
proof -
  have h: "go_map_ok [(''k'', tie_entry_b), (''j'', tie_entry_a)]"
    "go_map_ok [(''j'', tie_entry_a), (''k'', tie_entry_b)]"
    "set [(''j'', tie_entry_a), (''k'', tie_entry_b)] = set [(''k'', tie_entry_b), (''j'', tie_entry_a)]"
    by auto
  show ?thesis using h merge_entries_perm [OF h] by blast
qed

end
