(* ===== verification/Codec.thy ===== *)
theory Codec
  imports Wire Merge
begin

text \<open>
  The messages of \<open>src/internal/internalpb/gokv.pb.go\<close> on the wire, as the struct
  tags and the file descriptor \<open>file_internal_gokv_proto_rawDesc\<close> declare them:
  \<open>Entry\<close> (key 1 string, value 2 bytes, archived 3 optional bool,
  last_updated_time 4 Timestamp, expiry 5 Duration), \<open>NodeState\<close> (node_id 1,
  entries 2 as a map, each entry a message with key 1 and value 2, both always
  written), \<open>FSM\<close> (node_states 1 repeated) and \<open>NodeMeta\<close> (name 1, host 2,
  port 3, discovery_port 4, creation_time 5), with the well-known \<open>Timestamp\<close>
  and \<open>Duration\<close> (seconds 1 int64, nanos 2 int32). Each message has its field
  list (\<open>fields_X\<close>), its encoder (\<open>enc_X\<close>) and a decoder (\<open>dec_X\<close>) that
  reads the parsed fields. The map's range order is the order of the association list.
  On top of them are the byte-level callbacks of \<open>src/unnamed/part_001\<close>:
  \<open>LocalState_bytes\<close> and \<open>NodeMeta_bytes\<close> marshal and ignore the error
  (\<open>bytea, _ := proto.Marshal(...)\<close>), and \<open>MergeRemoteState_bytes\<close> unmarshals
  and ignores the error (\<open>_ = proto.Unmarshal(buf, remoteFSM)\<close>). A marshal error
  (a string field that is not UTF-8) is modelled as sending no bytes. Unmarshal resets
  the message and applies the fields one by one; a repeated message is appended only
  once it has decoded, so after an error the FSM holds the node states decoded before
  it (\<open>Unmarshal_FSM\<close>: the fields read before the first parse error,
  \<open>parse_fields_prefix\<close>, and their node states up to the first that fails to
  decode, \<open>dec_until_error\<close>). That FSM is what \<open>MergeRemoteState\<close> merges.
\<close>

definition fields_Timestamp :: "Timestamp \<Rightarrow> field list" where
  "fields_Timestamp t = int_field 1 (Seconds t) @ int_field 2 (Nanos t)"

definition enc_Timestamp :: "Timestamp \<Rightarrow> byte list" where
  "enc_Timestamp t = enc_fields (fields_Timestamp t)"

definition build_Timestamp :: "field list \<Rightarrow> Timestamp" where
  "build_Timestamp fs =
     \<lparr>Seconds = last_or 0 (map int64_of (varints 1 fs)), Nanos = last_or 0 (map int32_of (varints 2 fs))\<rparr>"

definition dec_Timestamp :: "byte list \<Rightarrow> Timestamp option" where
  "dec_Timestamp bs = map_option build_Timestamp (parse_fields bs)"

definition fields_Duration :: "Duration \<Rightarrow> field list" where
  "fields_Duration d = int_field 1 (DurSeconds d) @ int_field 2 (DurNanos d)"

definition enc_Duration :: "Duration \<Rightarrow> byte list" where
  "enc_Duration d = enc_fields (fields_Duration d)"

definition build_Duration :: "field list \<Rightarrow> Duration" where
  "build_Duration fs =
     \<lparr>DurSeconds = last_or 0 (map int64_of (varints 1 fs)), DurNanos = last_or 0 (map int32_of (varints 2 fs))\<rparr>"

definition dec_Duration :: "byte list \<Rightarrow> Duration option" where
  "dec_Duration bs = map_option build_Duration (parse_fields bs)"

definition sub_message :: "(byte list \<Rightarrow> 'a option) \<Rightarrow> byte list list \<Rightarrow> 'a option option" where
  "sub_message dec bss = (if bss = [] then Some None else map_option Some (dec (concat bss)))"

definition bool_field :: "nat \<Rightarrow> bool option \<Rightarrow> field list" where
  "bool_field num b = (case b of None \<Rightarrow> [] | Some v \<Rightarrow> [(num, WVarint (if v then 1 else 0))])"

definition message_field :: "nat \<Rightarrow> ('a \<Rightarrow> byte list) \<Rightarrow> 'a option \<Rightarrow> field list" where
  "message_field num enc x = (case x of None \<Rightarrow> [] | Some v \<Rightarrow> [(num, WBytes (enc v))])"

definition fields_Entry :: "Entry \<Rightarrow> field list" where
  "fields_Entry e =
     string_field 1 (Key e) @ bytes_field 2 (Value e) @ bool_field 3 (Archived e) @
     message_field 4 enc_Timestamp (LastUpdatedTime e) @ message_field 5 enc_Duration (Expiry e)"

definition enc_Entry :: "Entry \<Rightarrow> byte list" where
  "enc_Entry e = enc_fields (fields_Entry e)"

definition build_Entry :: "field list \<Rightarrow> Entry option" where
  "build_Entry fs =
     (if \<not> list_all utf8_valid (payloads 1 fs) then None
      else (case sub_message dec_Timestamp (payloads 4 fs) of
              None \<Rightarrow> None
            | Some t \<Rightarrow> (case sub_message dec_Duration (payloads 5 fs) of
                None \<Rightarrow> None
              | Some d \<Rightarrow> Some
                  \<lparr>Key = string_of_bytes (last_or [] (payloads 1 fs)),
                   Value = last_or [] (payloads 2 fs),
                   Archived = (if varints 3 fs = [] then None else Some (last (varints 3 fs) \<noteq> 0)),
                   LastUpdatedTime = t, Expiry = d\<rparr>)))"

definition dec_Entry :: "byte list \<Rightarrow> Entry option" where
  "dec_Entry bs = Option.bind (parse_fields bs) build_Entry"

definition ts_ok :: "Timestamp \<Rightarrow> bool" where
  "ts_ok t \<longleftrightarrow> int64_ok (Seconds t) \<and> int32_ok (Nanos t)"

definition dur_ok :: "Duration \<Rightarrow> bool" where
  "dur_ok d \<longleftrightarrow> int64_ok (DurSeconds d) \<and> int32_ok (DurNanos d)"

definition empty_Entry :: Entry where
  "empty_Entry = \<lparr>Key = [], Value = [], Archived = None, LastUpdatedTime = None, Expiry = None\<rparr>"

definition fields_MapEntry :: "string \<times> Entry \<Rightarrow> field list" where
  "fields_MapEntry p = [(1, WBytes (bytes_of_string (fst p))), (2, WBytes (enc_Entry (snd p)))]"

definition build_MapEntry :: "field list \<Rightarrow> (string \<times> Entry) option" where
  "build_MapEntry fs =
     (if \<not> list_all utf8_valid (payloads 1 fs) then None
      else map_option (\<lambda>v. (string_of_bytes (last_or [] (payloads 1 fs)), v))
             (if payloads 2 fs = [] then Some empty_Entry else dec_Entry (concat (payloads 2 fs))))"

definition dec_MapEntry :: "byte list \<Rightarrow> (string \<times> Entry) option" where
  "dec_MapEntry bs = Option.bind (parse_fields bs) build_MapEntry"

fun dec_map :: "byte list list \<Rightarrow> (string, Entry) gomap \<Rightarrow> (string, Entry) gomap option" where
  "dec_map [] m = Some m"
| "dec_map (bs # bss) m =
     (case dec_MapEntry bs of None \<Rightarrow> None | Some (k, v) \<Rightarrow> dec_map bss (AList.update k v m))"

definition fields_NodeState :: "NodeState \<Rightarrow> field list" where
  "fields_NodeState ns =
     string_field 1 (NodeId ns) @ map (\<lambda>p. (2, WBytes (enc_fields (fields_MapEntry p)))) (Entries ns)"

definition enc_NodeState :: "NodeState \<Rightarrow> byte list" where
  "enc_NodeState ns = enc_fields (fields_NodeState ns)"

definition build_NodeState :: "field list \<Rightarrow> NodeState option" where
  "build_NodeState fs =
     (if \<not> list_all utf8_valid (payloads 1 fs) then None
      else map_option (\<lambda>m. \<lparr>NodeId = string_of_bytes (last_or [] (payloads 1 fs)), Entries = m\<rparr>)
             (dec_map (payloads 2 fs) []))"

definition dec_NodeState :: "byte list \<Rightarrow> NodeState option" where
  "dec_NodeState bs = Option.bind (parse_fields bs) build_NodeState"

fun dec_list :: "('b \<Rightarrow> 'a option) \<Rightarrow> 'b list \<Rightarrow> 'a list option" where
  "dec_list dec [] = Some []"
| "dec_list dec (x # xs) = (case dec x of None \<Rightarrow> None | Some v \<Rightarrow> map_option (Cons v) (dec_list dec xs))"

definition fields_FSM :: "FSM \<Rightarrow> field list" where
  "fields_FSM f = map (\<lambda>ns. (1, WBytes (enc_NodeState ns))) (NodeStates f)"

definition enc_FSM :: "FSM \<Rightarrow> byte list" where
  "enc_FSM f = enc_fields (fields_FSM f)"

definition build_FSM :: "field list \<Rightarrow> FSM option" where
  "build_FSM fs = map_option (\<lambda>nss. \<lparr>NodeStates = nss\<rparr>) (dec_list dec_NodeState (payloads 1 fs))"

definition dec_FSM :: "byte list \<Rightarrow> FSM option" where
  "dec_FSM bs = Option.bind (parse_fields bs) build_FSM"

definition uint32_field :: "nat \<Rightarrow> 32 word \<Rightarrow> field list" where
  "uint32_field num w = (if w = 0 then [] else [(num, WVarint (unat w))])"

definition fields_NodeMeta :: "NodeMeta \<Rightarrow> field list" where
  "fields_NodeMeta m =
     string_field 1 (Name m) @ string_field 2 (Host m) @ uint32_field 3 (Port m) @
     uint32_field 4 (DiscoveryPort m) @ message_field 5 enc_Timestamp (CreationTime m)"

definition enc_NodeMeta :: "NodeMeta \<Rightarrow> byte list" where
  "enc_NodeMeta m = enc_fields (fields_NodeMeta m)"

definition meta_utf8 :: "NodeMeta \<Rightarrow> bool" where
  "meta_utf8 m \<longleftrightarrow> utf8_valid (bytes_of_string (Name m)) \<and> utf8_valid (bytes_of_string (Host m))"

definition fsm_utf8 :: "FSM \<Rightarrow> bool" where
  "fsm_utf8 f \<longleftrightarrow> (\<forall>ns \<in> set (NodeStates f). utf8_valid (bytes_of_string (NodeId ns)) \<and>
     (\<forall>(k, e) \<in> set (Entries ns). utf8_valid (bytes_of_string k) \<and> utf8_valid (bytes_of_string (Key e))))"

definition NodeMeta_bytes :: "int \<Rightarrow> Delegate \<Rightarrow> byte list" where
  "NodeMeta_bytes limit d = (if meta_utf8 (nodeMeta d) then enc_NodeMeta (nodeMeta d) else [])"

definition LocalState_bytes :: "bool \<Rightarrow> Delegate \<Rightarrow> byte list" where
  "LocalState_bytes join d = (if fsm_utf8 (fsm d) then enc_FSM (fsm d) else [])"

fun dec_until_error :: "('b \<Rightarrow> 'a option) \<Rightarrow> 'b list \<Rightarrow> 'a list" where
  "dec_until_error dec [] = []"
| "dec_until_error dec (x # xs) = (case dec x of None \<Rightarrow> [] | Some v \<Rightarrow> v # dec_until_error dec xs)"

definition Unmarshal_FSM :: "byte list \<Rightarrow> FSM" where
  "Unmarshal_FSM buf = \<lparr>NodeStates = dec_until_error dec_NodeState (payloads 1 (parse_fields_prefix buf))\<rparr>"

definition MergeRemoteState_bytes :: "string list \<Rightarrow> byte list \<Rightarrow> bool \<Rightarrow> Delegate \<Rightarrow> Delegate" where
  "MergeRemoteState_bytes order buf join d = MergeRemoteState order (Unmarshal_FSM buf) d"

definition entry_valid :: "Entry \<Rightarrow> bool" where
  "entry_valid e \<longleftrightarrow> utf8_valid (bytes_of_string (Key e)) \<and>
     pred_option ts_ok (LastUpdatedTime e) \<and> pred_option dur_ok (Expiry e)"

definition node_valid :: "NodeState \<Rightarrow> bool" where
  "node_valid ns \<longleftrightarrow> utf8_valid (bytes_of_string (NodeId ns)) \<and> go_map_ok (Entries ns) \<and>
     (\<forall>(k, e) \<in> set (Entries ns). utf8_valid (bytes_of_string k) \<and> entry_valid e)"

definition fsm_valid :: "FSM \<Rightarrow> bool" where
  "fsm_valid f \<longleftrightarrow> (\<forall>ns \<in> set (NodeStates f). node_valid ns)"

definition wire_example :: Delegate where
  "wire_example = Put \<lparr>Seconds = 100, Nanos = 0\<rparr> ''k'' [7] 0 (newDelegate ''n1'' (test_meta ''n1''))"

subsection \<open>Roundtrip lemmas\<close>

lemma dec_list_cong [fundef_cong]:
  assumes "xs = ys" and "\<And>x. x \<in> set ys \<Longrightarrow> f x = g x"
  shows "dec_list f xs = dec_list g ys"
  using assms(2) unfolding assms(1) by (induction ys) (simp_all split: option.splits)

lemma dec_enc_Timestamp: "ts_ok t \<Longrightarrow> dec_Timestamp (enc_Timestamp t) = Some t"
proof -
  assume ok: "ts_ok t"
  have "parse_fields (enc_Timestamp t) = Some (fields_Timestamp t)"
    unfolding enc_Timestamp_def by (rule parse_enc_fields) (simp add: fields_Timestamp_def)
  then show ?thesis using ok
    by (simp add: dec_Timestamp_def build_Timestamp_def fields_Timestamp_def ts_ok_def)
qed

lemma dec_enc_Duration: "dur_ok d \<Longrightarrow> dec_Duration (enc_Duration d) = Some d"
proof -
  assume ok: "dur_ok d"
  have "parse_fields (enc_Duration d) = Some (fields_Duration d)"
    unfolding enc_Duration_def by (rule parse_enc_fields) (simp add: fields_Duration_def)
  then show ?thesis using ok
    by (simp add: dec_Duration_def build_Duration_def fields_Duration_def dur_ok_def)
qed

lemma bool_field_simps [simp]:
  "varints num (bool_field n b) = (if n = num then (case b of None \<Rightarrow> [] | Some v \<Rightarrow> [if v then 1 else 0]) else [])"
  "payloads num (bool_field n b) = []"
  "fields_ok (bool_field n b) \<longleftrightarrow> (b \<noteq> None \<longrightarrow> 0 < n \<and> n < 2 ^ 29)"
  by (auto simp: bool_field_def field_ok_def split: option.splits)

lemma message_field_simps [simp]:
  "varints num (message_field n enc x) = []"
  "payloads num (message_field n enc x) = (if n = num then (case x of None \<Rightarrow> [] | Some v \<Rightarrow> [enc v]) else [])"
  by (auto simp: message_field_def split: option.splits)

lemma string_field_simps [simp]:
  "varints num (string_field n s) = []"
  "payloads num (string_field n s) = (if n = num \<and> s \<noteq> [] then [bytes_of_string s] else [])"
  by (simp_all add: string_field_def)

lemma sub_message_simps [simp]:
  "sub_message dec [] = Some None"
  "sub_message dec [bs] = map_option Some (dec bs)"
  by (simp_all add: sub_message_def)

lemma fields_ok_payloads:
  "fields_ok fs \<longleftrightarrow> (\<forall>f \<in> set fs. 0 < fst f \<and> fst f < 2 ^ 29 \<and>
     (case snd f of WVarint n \<Rightarrow> n < 2 ^ 64 | WFixed64 bs \<Rightarrow> length bs = 8
      | WBytes bs \<Rightarrow> length bs < 2 ^ 64 | WFixed32 bs \<Rightarrow> length bs = 4))"
  by (simp add: fields_ok_def field_ok_def)

lemma fields_ok_bounded:
  assumes "length (enc_fields fs) < 2 ^ 64"
    and "\<forall>f \<in> set fs. 0 < fst f \<and> fst f < 2 ^ 29 \<and> (\<forall>n. snd f = WVarint n \<longrightarrow> n < 2 ^ 64) \<and>
           (\<forall>bs. snd f \<noteq> WFixed64 bs \<and> snd f \<noteq> WFixed32 bs)"
  shows "fields_ok fs"
  unfolding fields_ok_def field_ok_def
proof
  fix f assume f: "f \<in> set fs"
  obtain n v where fv: "f = (n, v)" by (cases f)
  have "(n, v) \<in> set fs" using f fv by simp
  then show "0 < fst f \<and> fst f < 2 ^ 29 \<and>
     (case snd f of WVarint n \<Rightarrow> n < 2 ^ 64 | WFixed64 bs \<Rightarrow> length bs = 8
      | WBytes bs \<Rightarrow> length bs < 2 ^ 64 | WFixed32 bs \<Rightarrow> length bs = 4)"
    using assms payload_shorter [of n _ fs] fv by (cases v) (fastforce+)
qed

lemma dec_enc_Entry:
  "entry_valid e \<Longrightarrow> length (enc_Entry e) < 2 ^ 64 \<Longrightarrow> dec_Entry (enc_Entry e) = Some e"
proof -
  assume ok: "entry_valid e" and len: "length (enc_Entry e) < 2 ^ 64"
  have "fields_ok (fields_Entry e)"
    by (rule fields_ok_bounded)
       (use ok len in \<open>auto simp: entry_valid_def enc_Entry_def fields_Entry_def string_field_def
          bytes_field_def bool_field_def message_field_def split: option.splits\<close>)
  then have "parse_fields (enc_Entry e) = Some (fields_Entry e)"
    unfolding enc_Entry_def by (rule parse_enc_fields)
  moreover have "build_Entry (fields_Entry e) = Some e"
    using ok by (cases e)
      (auto simp: build_Entry_def fields_Entry_def entry_valid_def dec_enc_Timestamp dec_enc_Duration
            split: option.splits)
  ultimately show ?thesis by (simp add: dec_Entry_def)
qed

lemma payloads_map [simp]:
  "payloads num (map (\<lambda>x. (n, WBytes (g x))) xs) = (if n = num then map g xs else [])"
  by (induction xs) auto

lemma update_fresh: "k \<notin> set (map fst m) \<Longrightarrow> AList.update k v m = m @ [(k, v)]"
  by (induction m) auto

lemma dec_map_enc:
  assumes "\<forall>p \<in> set ps. dec_MapEntry (enc_fields (fields_MapEntry p)) = Some p"
    and "go_map_ok (m @ ps)"
  shows "dec_map (map (\<lambda>p. enc_fields (fields_MapEntry p)) ps) m = Some (m @ ps)"
  using assms
proof (induction ps arbitrary: m)
  case (Cons p ps)
  obtain k v where p: "p = (k, v)" by (cases p)
  have fresh: "k \<notin> set (map fst m)" using Cons.prems(2) p by (simp add: go_map_ok_def)
  have "dec_map (map (\<lambda>p. enc_fields (fields_MapEntry p)) ps) (m @ [(k, v)]) = Some ((m @ [(k, v)]) @ ps)"
    by (rule Cons.IH) (use Cons.prems p in simp_all)
  then show ?case using Cons.prems(1) p fresh by (simp add: update_fresh)
qed simp

lemma dec_list_map: "\<forall>x \<in> set xs. dec (enc x) = Some x \<Longrightarrow> dec_list dec (map enc xs) = Some xs"
  by (induction xs) simp_all

lemma dec_enc_MapEntry:
  assumes "utf8_valid (bytes_of_string k)" and "entry_valid e"
    and len: "length (enc_fields (fields_MapEntry (k, e))) < 2 ^ 64"
  shows "dec_MapEntry (enc_fields (fields_MapEntry (k, e))) = Some (k, e)"
proof -
  have lens: "length (bytes_of_string k) < 2 ^ 64" "length (enc_Entry e) < 2 ^ 64"
    using payload_shorter [of 1 "bytes_of_string k" "fields_MapEntry (k, e)"]
          payload_shorter [of 2 "enc_Entry e" "fields_MapEntry (k, e)"] len
    by (simp_all add: fields_MapEntry_def)
  then have "fields_ok (fields_MapEntry (k, e))"
    by (simp add: fields_MapEntry_def field_ok_def)
  then have "parse_fields (enc_fields (fields_MapEntry (k, e))) = Some (fields_MapEntry (k, e))"
    by (rule parse_enc_fields)
  then show ?thesis using assms lens
    by (simp add: dec_MapEntry_def build_MapEntry_def fields_MapEntry_def dec_enc_Entry)
qed

lemma dec_enc_NodeState:
  assumes ok: "node_valid ns" and len: "length (enc_NodeState ns) < 2 ^ 64"
  shows "dec_NodeState (enc_NodeState ns) = Some ns"
proof -
  have lp: "length (enc_fields (fields_MapEntry p)) < 2 ^ 64" if "p \<in> set (Entries ns)" for p
    using payload_shorter [of 2 "enc_fields (fields_MapEntry p)" "fields_NodeState ns"] that len
    by (force simp: fields_NodeState_def enc_NodeState_def)
  have "fields_ok (fields_NodeState ns)"
    by (rule fields_ok_bounded)
       (use len in \<open>auto simp: fields_NodeState_def enc_NodeState_def string_field_def bytes_field_def\<close>)
  then have "parse_fields (enc_NodeState ns) = Some (fields_NodeState ns)"
    unfolding enc_NodeState_def by (rule parse_enc_fields)
  moreover have "\<forall>p \<in> set (Entries ns). dec_MapEntry (enc_fields (fields_MapEntry p)) = Some p"
    using ok lp by (auto simp: node_valid_def intro!: dec_enc_MapEntry)
  then have "dec_map (map (\<lambda>p. enc_fields (fields_MapEntry p)) (Entries ns)) [] = Some (Entries ns)"
    using dec_map_enc [of "Entries ns" "[]"] ok by (simp add: node_valid_def)
  ultimately show ?thesis using ok
    by (cases ns) (auto simp: dec_NodeState_def build_NodeState_def fields_NodeState_def node_valid_def)
qed

lemma enc_FSM_facts:
  assumes ok: "fsm_valid f" and len: "length (enc_FSM f) < 2 ^ 64"
  shows "fields_ok (fields_FSM f)"
    and "dec_list dec_NodeState (payloads 1 (fields_FSM f)) = Some (NodeStates f)"
proof -
  have ln: "length (enc_NodeState ns) < 2 ^ 64" if "ns \<in> set (NodeStates f)" for ns
    using payload_shorter [of 1 "enc_NodeState ns" "fields_FSM f"] that len
    by (force simp: fields_FSM_def enc_FSM_def)
  show "fields_ok (fields_FSM f)"
    by (rule fields_ok_bounded) (use len in \<open>auto simp: fields_FSM_def enc_FSM_def\<close>)
  have "dec_list dec_NodeState (map enc_NodeState (NodeStates f)) = Some (NodeStates f)"
    by (rule dec_list_map) (use ok ln in \<open>auto simp: fsm_valid_def dec_enc_NodeState\<close>)
  then show "dec_list dec_NodeState (payloads 1 (fields_FSM f)) = Some (NodeStates f)"
    by (simp add: fields_FSM_def)
qed

lemma dec_enc_FSM:
  assumes ok: "fsm_valid f" and len: "length (enc_FSM f) < 2 ^ 64"
  shows "dec_FSM (enc_FSM f) = Some f"
proof -
  have "parse_fields (enc_FSM f) = Some (fields_FSM f)"
    unfolding enc_FSM_def using enc_FSM_facts(1) [OF ok len] by (rule parse_enc_fields)
  then show ?thesis using enc_FSM_facts(2) [OF ok len]
    by (simp add: dec_FSM_def build_FSM_def)
qed

lemma dec_until_error_dec_list: "dec_list dec xs = Some ys \<Longrightarrow> dec_until_error dec xs = ys"
  by (induction xs arbitrary: ys) (auto split: option.splits)

lemma Unmarshal_FSM_dec: "dec_FSM buf = Some f \<Longrightarrow> Unmarshal_FSM buf = f"
  by (auto simp: dec_FSM_def build_FSM_def Unmarshal_FSM_def parse_fields_prefix_complete
           dec_until_error_dec_list split: Option.bind_splits)

lemma fsm_valid_utf8: "fsm_valid f \<Longrightarrow> fsm_utf8 f"
  by (fastforce simp: fsm_valid_def fsm_utf8_def node_valid_def entry_valid_def)

lemma wire_example_ok: "fsm_valid (fsm wire_example) \<and> length (enc_FSM (fsm wire_example)) < 2 ^ 64"
  by (simp add: wire_example_def Put_def newDelegate_def node_states_def set_node_states_def key_exists_def
      has_key_def setExpiry_def new_entry_def fsm_valid_def node_valid_def entry_valid_def ts_ok_def
      int64_ok_def int32_ok_def bytes_of_string_def utf8_accept_def enc_FSM_def fields_FSM_def
      enc_NodeState_def fields_NodeState_def fields_MapEntry_def enc_Entry_def fields_Entry_def
      enc_Timestamp_def fields_Timestamp_def enc_fields_def string_field_def bytes_field_def
      int_field_def bool_field_def message_field_def u64_def)

text \<open>
  C19. The byte-level exchange refines the message-level model: when a node's FSM is
  well formed for the wire (UTF-8 strings, 64-bit times, Go maps), the state that
  \<open>MergeRemoteState\<close> decodes from the bytes \<open>LocalState\<close> marshalled is exactly
  that FSM, so the peer's merge is the merge of the FSM itself.
\<close>

theorem MergeRemoteState_of_LocalState_bytes:
  "fsm_valid (fsm a) \<Longrightarrow> length (enc_FSM (fsm a)) < 2 ^ 64 \<Longrightarrow>
     MergeRemoteState_bytes order (LocalState_bytes join a) join' b = MergeRemoteState order (LocalState join a) b"
  by (simp add: MergeRemoteState_bytes_def LocalState_bytes_def LocalState_def fsm_valid_utf8 dec_enc_FSM
      Unmarshal_FSM_dec)

theorem MergeRemoteState_of_LocalState_bytes_witness:
  "fsm_valid (fsm wire_example) \<and> length (enc_FSM (fsm wire_example)) < 2 ^ 64 \<and>
   MergeRemoteState_bytes [''n1''] (LocalState_bytes False wire_example) False wire_example =
     MergeRemoteState [''n1''] (LocalState False wire_example) wire_example"
  using wire_example_ok MergeRemoteState_of_LocalState_bytes [of wire_example] by blast

text \<open>
  C20. Encoding an FSM and decoding the bytes gives the FSM back, for every FSM whose
  strings are UTF-8 and whose times fit Go's \<open>int64\<close>/\<open>int32\<close>: node ids, partition
  order, each Go map with its keys in iteration order, and every entry field, including
  an absent or false \<open>archived\<close> and an absent or zero timestamp.
\<close>

theorem FSM_wire_roundtrip:
  "fsm_valid f \<Longrightarrow> length (enc_FSM f) < 2 ^ 64 \<Longrightarrow> dec_FSM (enc_FSM f) = Some f"
  by (rule dec_enc_FSM)

theorem FSM_wire_roundtrip_witness:
  "fsm_valid (fsm wire_example) \<and> length (enc_FSM (fsm wire_example)) < 2 ^ 64 \<and>
   dec_FSM (enc_FSM (fsm wire_example)) = Some (fsm wire_example)"
  using wire_example_ok FSM_wire_roundtrip [of "fsm wire_example"] by blast

lemma dec_list_length: "dec_list f xs = Some ys \<Longrightarrow> length ys = length xs"
  by (induction xs arbitrary: ys) (auto split: option.splits)

lemma length_payloads: "length (payloads n fs) \<le> length fs"
  by (induction fs) (auto simp: payloads_def split: wire_value.splits)

text \<open>
  C25. A payload corrupted after its last complete node state is not dropped:
  \<open>proto.Unmarshal\<close> reports the error (the full decode fails), \<open>MergeRemoteState\<close>
  ignores it and merges every node state decoded before the corruption, here the
  sender's whole state. The spec says malformed merge input is silently dropped, or
  that the merge proceeds with a zero FSM.
\<close>

theorem MergeRemoteState_merges_before_error:
  assumes ok: "fsm_valid (fsm a)" and len: "length (enc_FSM (fsm a)) < 2 ^ 64"
    and junk: "junk \<noteq> []" "parse_field junk = None"
  shows "dec_FSM (LocalState_bytes join a @ junk) = None \<and>
         MergeRemoteState_bytes order (LocalState_bytes join a @ junk) join' b =
           MergeRemoteState order (LocalState join a) b"
proof -
  have buf: "LocalState_bytes join a = enc_fields (fields_FSM (fsm a))"
    using fsm_valid_utf8 [OF ok] by (simp add: LocalState_bytes_def enc_FSM_def)
  have fok: "fields_ok (fields_FSM (fsm a))" by (rule enc_FSM_facts(1) [OF ok len])
  have bad: "parse_fields junk = None" "parse_fields_prefix junk = []"
    using parse_fields_bad [OF junk] by simp_all
  have "dec_FSM (LocalState_bytes join a @ junk) = None"
    using parse_fields_append [OF fok, of junk] bad by (simp add: dec_FSM_def buf)
  moreover have "Unmarshal_FSM (LocalState_bytes join a @ junk) = fsm a"
    using parse_fields_prefix_append [OF fok, of junk] bad
      dec_until_error_dec_list [OF enc_FSM_facts(2) [OF ok len]]
    by (simp add: Unmarshal_FSM_def buf)
  ultimately show ?thesis by (simp add: MergeRemoteState_bytes_def LocalState_def)
qed

theorem MergeRemoteState_merges_before_error_witness:
  "fsm_valid (fsm wire_example) \<and> length (enc_FSM (fsm wire_example)) < 2 ^ 64 \<and>
   [0xFF] \<noteq> ([] :: byte list) \<and> parse_field [0xFF] = None \<and>
   dec_FSM (LocalState_bytes False wire_example @ [0xFF]) = None \<and>
   MergeRemoteState_bytes [''n1''] (LocalState_bytes False wire_example @ [0xFF]) False wire_example =
     MergeRemoteState [''n1''] (LocalState False wire_example) wire_example"
proof -
  have pf: "parse_field [0xFF] = None" by (simp add: parse_field_def)
  show ?thesis
    using wire_example_ok pf MergeRemoteState_merges_before_error [of wire_example "[0xFF]"] by simp
qed

end
