(* ===== verification/Service.thy ===== *)
theory Service
  imports Codec
begin

text \<open>
  The client-facing side. The request and response messages of the RPC service
  \<open>KVService\<close> are generated in \<open>src/internal/internalpb/gokv.pb.go\<close>; their fields
  are prefixed with the message name here because several messages share a field name.
  The service handlers and the client of the \<open>gokv\<close> package are not under
  \<open>src/\<close>: they are modelled from the spec (section 6: direct projections of the
  delegate's operations that surface \<open>KeyNotFound\<close> when Get finds no visible entry),
  with the library conversion \<open>durationpb.(*Duration).AsDuration\<close> that the Put
  handler needs to turn the request's expiry back into a \<open>time.Duration\<close>.
  \<open>Hello\<close> is the test message \<open>testpb.Hello\<close> (one string field, name = 1).
\<close>

record GetRequest =
  GetRequest_Key :: string

record GetResponse =
  GetResponse_Entry :: "Entry option"

record PutRequest =
  PutRequest_Key :: string
  PutRequest_Value :: "byte list"
  PutRequest_Expiry :: "Duration option"

datatype PutResponse = PutResponse

record DeleteRequest =
  DeleteRequest_Key :: string

datatype DeleteResponse = DeleteResponse

record KeyExistsRequest =
  KeyExistsRequest_Key :: string

record KeyExistResponse =
  KeyExistResponse_Exists :: bool

datatype ListRequest = ListRequest

record ListResponse =
  ListResponse_Entries :: "Entry list"

text \<open>Go's \<open>int64\<close> arithmetic: the result wraps modulo 2 to the 64.\<close>

definition wrap64 :: "int \<Rightarrow> int" where
  "wrap64 x = (let u = x mod 2 ^ 64 in if u < 2 ^ 63 then u else u - 2 ^ 64)"

definition AsDuration :: "Duration option \<Rightarrow> int" where
  "AsDuration x =
     (let secs = (case x of None \<Rightarrow> 0 | Some d \<Rightarrow> DurSeconds d);
          nanos = (case x of None \<Rightarrow> 0 | Some d \<Rightarrow> DurNanos d);
          d = wrap64 (secs * 1000000000);
          overflow = (d sdiv 1000000000 \<noteq> secs);
          d = wrap64 (d + nanos);
          overflow = (overflow \<or> (secs < 0 \<and> nanos < 0 \<and> 0 < d) \<or> (0 < secs \<and> 0 < nanos \<and> d < 0))
      in if overflow \<and> secs < 0 then - (2 ^ 63)
         else if overflow \<and> 0 < secs then 2 ^ 63 - 1
         else d)"

subsection \<open>Service handlers\<close>

definition KVService_Put :: "Timestamp \<Rightarrow> PutRequest \<Rightarrow> Delegate \<Rightarrow> PutResponse \<times> Delegate" where
  "KVService_Put now req d =
     (PutResponse, Put now (PutRequest_Key req) (PutRequest_Value req) (AsDuration (PutRequest_Expiry req)) d)"

definition KVService_Get :: "Timestamp \<Rightarrow> GetRequest \<Rightarrow> Delegate \<Rightarrow> GoError + GetResponse" where
  "KVService_Get now req d =
     (case Get now (GetRequest_Key req) d of
        Inl err \<Rightarrow> Inl err
      | Inr entry \<Rightarrow> Inr \<lparr>GetResponse_Entry = Some entry\<rparr>)"

definition KVService_Delete :: "Timestamp \<Rightarrow> DeleteRequest \<Rightarrow> Delegate \<Rightarrow> DeleteResponse \<times> Delegate" where
  "KVService_Delete now req d = (DeleteResponse, Delete now (DeleteRequest_Key req) d)"

definition KVService_KeyExists :: "Timestamp \<Rightarrow> KeyExistsRequest \<Rightarrow> Delegate \<Rightarrow> KeyExistResponse" where
  "KVService_KeyExists now req d = \<lparr>KeyExistResponse_Exists = Exists now (KeyExistsRequest_Key req) d\<rparr>"

definition KVService_List :: "Timestamp \<Rightarrow> ListRequest \<Rightarrow> Delegate \<Rightarrow> ListResponse" where
  "KVService_List now req d = \<lparr>ListResponse_Entries = List_entries now d\<rparr>"

subsection \<open>Client\<close>

datatype ClientError = ClientKeyNotFound | SerializationError

definition NoExpiration :: int where
  "NoExpiration = 0"

definition client_Put :: "Timestamp \<Rightarrow> Entry \<Rightarrow> int \<Rightarrow> Delegate \<Rightarrow> Delegate" where
  "client_Put now entry expiration d =
     snd (KVService_Put now
           \<lparr>PutRequest_Key = Key entry, PutRequest_Value = Value entry,
            PutRequest_Expiry = Some (durationpb_New expiration)\<rparr> d)"

definition client_PutString :: "Timestamp \<Rightarrow> string \<Rightarrow> string \<Rightarrow> int \<Rightarrow> Delegate \<Rightarrow> Delegate" where
  "client_PutString now key value expiration d =
     client_Put now \<lparr>Key = key, Value = bytes_of_string value, Archived = None,
                     LastUpdatedTime = None, Expiry = None\<rparr> expiration d"

definition client_PutProto ::
  "('m \<Rightarrow> byte list option) \<Rightarrow> Timestamp \<Rightarrow> string \<Rightarrow> 'm \<Rightarrow> int \<Rightarrow> Delegate \<Rightarrow> ClientError + Delegate" where
  "client_PutProto marshal now key value expiration d =
     (case marshal value of
        None \<Rightarrow> Inl SerializationError
      | Some bytea \<Rightarrow> Inr (client_Put now \<lparr>Key = key, Value = bytea, Archived = None,
                                          LastUpdatedTime = None, Expiry = None\<rparr> expiration d))"

definition client_Get :: "Timestamp \<Rightarrow> string \<Rightarrow> Delegate \<Rightarrow> ClientError + Entry" where
  "client_Get now key d =
     (case KVService_Get now \<lparr>GetRequest_Key = key\<rparr> d of
        Inl ErrKeyNotFound \<Rightarrow> Inl ClientKeyNotFound
      | Inr resp \<Rightarrow> (case GetResponse_Entry resp of None \<Rightarrow> Inl ClientKeyNotFound | Some e \<Rightarrow> Inr e))"

definition client_GetString :: "Timestamp \<Rightarrow> string \<Rightarrow> Delegate \<Rightarrow> ClientError + string" where
  "client_GetString now key d =
     (case client_Get now key d of Inl err \<Rightarrow> Inl err | Inr e \<Rightarrow> Inr (string_of_bytes (Value e)))"

definition client_GetProto ::
  "(byte list \<Rightarrow> 'm option) \<Rightarrow> Timestamp \<Rightarrow> string \<Rightarrow> Delegate \<Rightarrow> ClientError + 'm" where
  "client_GetProto unmarshal now key d =
     (case client_Get now key d of
        Inl err \<Rightarrow> Inl err
      | Inr e \<Rightarrow> (case unmarshal (Value e) of None \<Rightarrow> Inl SerializationError | Some m \<Rightarrow> Inr m))"

definition client_Exists :: "Timestamp \<Rightarrow> string \<Rightarrow> Delegate \<Rightarrow> bool" where
  "client_Exists now key d = KeyExistResponse_Exists (KVService_KeyExists now \<lparr>KeyExistsRequest_Key = key\<rparr> d)"

subsection \<open>The test message\<close>

record Hello =
  Hello_Name :: string

definition enc_Hello :: "Hello \<Rightarrow> byte list" where
  "enc_Hello h = enc_fields (string_field 1 (Hello_Name h))"

definition marshal_Hello :: "Hello \<Rightarrow> byte list option" where
  "marshal_Hello h = (if utf8_valid (bytes_of_string (Hello_Name h)) then Some (enc_Hello h) else None)"

definition dec_Hello :: "byte list \<Rightarrow> Hello option" where
  "dec_Hello bs =
     Option.bind (parse_fields bs)
       (\<lambda>fs. if list_all utf8_valid (payloads 1 fs)
             then Some \<lparr>Hello_Name = string_of_bytes (last_or [] (payloads 1 fs))\<rparr> else None)"


subsection \<open>Lemmas\<close>

lemma wrap64_id: "int64_ok x \<Longrightarrow> wrap64 x = x"
  using signed_mod_inv [of "2 ^ 64" "2 ^ 63" x] by (simp add: wrap64_def int64_ok_def Let_def)

lemma sdiv_facts:
  fixes e l :: int
  assumes l: "0 < l"
  shows "\<bar>e sdiv l * l\<bar> \<le> \<bar>e\<bar>"
    and "e sdiv l < 0 \<Longrightarrow> e < 0" and "0 < e sdiv l \<Longrightarrow> 0 < e"
    and "e - e sdiv l * l < 0 \<Longrightarrow> e < 0" and "0 < e - e sdiv l * l \<Longrightarrow> 0 < e"
    and "e < 0 \<Longrightarrow> e sdiv l \<le> 0"
proof -
  have pos: "0 \<le> x \<Longrightarrow> x sdiv l = x div l" for x
    using l by (cases "x = 0") (simp_all add: signed_divide_int_def)
  have neg: "x < 0 \<Longrightarrow> x sdiv l = - ((- x) div l)" for x
    using l by (simp add: signed_divide_int_def)
  have m1: "x div l * l \<le> x" for x
    using pos_mod_sign [OF l, of x] div_mult_mod_eq [of x l] by linarith
  have m2: "0 \<le> x \<Longrightarrow> 0 \<le> x div l * l" for x
    using l by (simp add: pos_imp_zdiv_nonneg_iff)
  show "\<bar>e sdiv l * l\<bar> \<le> \<bar>e\<bar>"
    using pos [of e] neg [of e] m1 [of e] m1 [of "- e"] m2 [of e] m2 [of "- e"] by (cases "0 \<le> e") auto
  show "e sdiv l < 0 \<Longrightarrow> e < 0"
    using pos [of e] pos_imp_zdiv_nonneg_iff [OF l, of e] by (cases "0 \<le> e") auto
  show "0 < e sdiv l \<Longrightarrow> 0 < e"
    using neg [of e] pos_imp_zdiv_nonneg_iff [OF l, of "- e"] by (cases "0 \<le> e") auto
  show "e - e sdiv l * l < 0 \<Longrightarrow> e < 0"
    using pos [of e] m1 [of e] by (cases "0 \<le> e") auto
  show "0 < e - e sdiv l * l \<Longrightarrow> 0 < e"
    using neg [of e] m1 [of "- e"] pos [of e] m2 [of e] by (cases "0 \<le> e") auto
  show "e < 0 \<Longrightarrow> e sdiv l \<le> 0"
    using neg [of e] pos_imp_zdiv_nonneg_iff [OF l, of "- e"] by simp
qed

lemma sdiv_mult_exact: "(q * 1000000000) sdiv 1000000000 = (q :: int)"
  by (simp add: signed_divide_int_def abs_mult sgn_mult mult_sgn_abs)

lemma AsDuration_New: "int64_ok e \<Longrightarrow> AsDuration (Some (durationpb_New e)) = e"
proof -
  assume ok: "int64_ok e"
  define q where "q = e sdiv 1000000000"
  define r where "r = e - q * 1000000000"
  have f: "\<bar>q * 1000000000\<bar> \<le> \<bar>e\<bar>" "q < 0 \<Longrightarrow> e < 0" "0 < q \<Longrightarrow> 0 < e"
    "r < 0 \<Longrightarrow> e < 0" "0 < r \<Longrightarrow> 0 < e" "e < 0 \<Longrightarrow> q \<le> 0"
    using sdiv_facts [of 1000000000 e] unfolding q_def r_def by simp_all
  have mid: "int64_ok (q * 1000000000)"
    using ok f(1) f(6) unfolding int64_ok_def by (auto simp: abs_if split: if_splits)
  have w1: "wrap64 (q * 1000000000) = q * 1000000000" by (rule wrap64_id [OF mid])
  have s: "(q * 1000000000) sdiv 1000000000 = q" by (rule sdiv_mult_exact)
  have w2: "wrap64 (q * 1000000000 + r) = e" using ok by (simp add: r_def wrap64_id)
  have nov: "\<not> ((q < 0 \<and> r < 0 \<and> 0 < e) \<or> (0 < q \<and> 0 < r \<and> e < 0))" using f by auto
  have dn: "durationpb_New e = \<lparr>DurSeconds = q, DurNanos = r\<rparr>"
    by (simp add: durationpb_New_def q_def r_def Let_def)
  show ?thesis unfolding AsDuration_def dn Let_def using w1 s w2 nov by auto
qed

lemma client_Put_Put: "int64_ok expiration \<Longrightarrow>
  client_Put now entry expiration d = Put now (Key entry) (Value entry) expiration d"
  by (simp add: client_Put_def KVService_Put_def AsDuration_New)

lemma client_Get_Get:
  "client_Get now key d = (case Get now key d of Inl _ \<Rightarrow> Inl ClientKeyNotFound | Inr e \<Rightarrow> Inr e)"
  by (simp add: client_Get_def KVService_Get_def split: sum.splits GoError.splits)

lemma dec_enc_Hello:
  "utf8_valid (bytes_of_string (Hello_Name h)) \<Longrightarrow> length (bytes_of_string (Hello_Name h)) < 2 ^ 64 \<Longrightarrow>
     dec_Hello (enc_Hello h) = Some h"
proof -
  assume u: "utf8_valid (bytes_of_string (Hello_Name h))" and l: "length (bytes_of_string (Hello_Name h)) < 2 ^ 64"
  have "parse_fields (enc_Hello h) = Some (string_field 1 (Hello_Name h))"
    unfolding enc_Hello_def by (rule parse_enc_fields) (use l in \<open>simp add: string_field_def fields_ok_bytes_field\<close>)
  then show ?thesis using u by (cases h) (simp add: dec_Hello_def)
qed


text \<open>
  C21. Through the client and the RPC service, a Put stores exactly the expiration the
  caller passed: \<open>durationpb.New\<close> on the client and \<open>AsDuration\<close> on the server are
  inverse on every \<open>int64\<close> duration, so the delegate's Put receives the caller's
  value (and the entry gets \<open>setExpiry\<close> of it).
\<close>

theorem client_Put_stores_expiration:
  "int64_ok expiration \<Longrightarrow>
     client_Put now entry expiration d = Put now (Key entry) (Value entry) expiration d"
  by (simp add: client_Put_def KVService_Put_def AsDuration_New)

theorem client_Put_stores_expiration_witness:
  "int64_ok (- 5) \<and>
   client_Put \<lparr>Seconds = 1, Nanos = 0\<rparr> \<lparr>Key = ''k'', Value = [], Archived = None, LastUpdatedTime = None, Expiry = None\<rparr>
     (- 5) (newDelegate ''n'' (test_meta ''n'')) =
   Put \<lparr>Seconds = 1, Nanos = 0\<rparr> ''k'' [] (- 5) (newDelegate ''n'' (test_meta ''n''))"
proof -
  have h: "int64_ok (- 5)" by (simp add: int64_ok_def)
  show ?thesis using h client_Put_stores_expiration [OF h] by simp
qed

end
