(* ===== verification/Replication.thy ===== *)
theory Replication
  imports Merge
begin

text \<open>
  The cluster: several delegates joined by the gossip transport (hashicorp/memberlist,
  outside the repository). A TCP push/pull between two nodes snapshots both sides with
  \<open>LocalState\<close> before either merges, then each side runs \<open>MergeRemoteState\<close> on the
  other's snapshot; \<open>push_pull\<close> is that exchange and \<open>push_then_pull\<close> the
  sequential exchange of the spec's convergence property. \<open>cluster_step\<close> is the
  interleaving of local operations, joins and exchanges on a map from node name to
  delegate, and \<open>cluster_reach\<close> its reachable states from the empty cluster.
\<close>

definition push_pull ::
  "string list \<Rightarrow> string list \<Rightarrow> Delegate \<Rightarrow> Delegate \<Rightarrow> Delegate \<times> Delegate" where
  "push_pull order_a order_b a b =
     (let state_a = LocalState False a; state_b = LocalState False b
      in (MergeRemoteState order_a state_b a, MergeRemoteState order_b state_a b))"

definition push_then_pull ::
  "string list \<Rightarrow> string list \<Rightarrow> Delegate \<Rightarrow> Delegate \<Rightarrow> Delegate \<times> Delegate" where
  "push_then_pull order_a order_b a b =
     (let a' = MergeRemoteState order_a (LocalState False b) a
      in (a', MergeRemoteState order_b (LocalState False a') b))"

type_synonym cluster = "string \<rightharpoonup> Delegate"

inductive cluster_step :: "cluster \<Rightarrow> cluster \<Rightarrow> bool" where
  join: "C n = None \<Longrightarrow> cluster_step C (C(n \<mapsto> newDelegate n meta))"
| put: "C n = Some d \<Longrightarrow> cluster_step C (C(n \<mapsto> Put now key value expiration d))"
| delete: "C n = Some d \<Longrightarrow> cluster_step C (C(n \<mapsto> Delete now key d))"
| exchange: "C a = Some da \<Longrightarrow> C b = Some db \<Longrightarrow> a \<noteq> b \<Longrightarrow>
     merge_order_ok order_a (LocalState False db) da \<Longrightarrow>
     merge_order_ok order_b (LocalState False da) db \<Longrightarrow>
     push_pull order_a order_b da db = (da', db') \<Longrightarrow>
     cluster_step C (C(a \<mapsto> da', b \<mapsto> db'))"

inductive cluster_reach :: "cluster \<Rightarrow> bool" where
  empty: "cluster_reach Map.empty"
| step: "cluster_reach C \<Longrightarrow> cluster_step C C' \<Longrightarrow> cluster_reach C'"

definition cluster_ok :: "cluster \<Rightarrow> bool" where
  "cluster_ok C \<longleftrightarrow>
     (\<forall>n d. C n = Some d \<longrightarrow> me d = n \<and> delegate_ok d \<and> node_ids (node_states d) \<subseteq> dom C)"



lemma dom_partitions: "dom (partitions nss) = node_ids nss"
  unfolding node_ids_def dom_def using partitions_None_iff [of nss] by auto

lemma dom_merge_view: "dom (merge_view L R) = dom L \<union> dom R"
  by (auto simp: merge_view_def split: option.splits)

lemma NodeStates_LocalState [simp]: "NodeStates (LocalState join d) = node_states d"
  by (simp add: LocalState_def node_states_def)

lemma remote_ok_LocalState: "delegate_ok d \<Longrightarrow> remote_ok (NodeStates (LocalState join d))"
  by (simp add: delegate_ok_def fsm_ok_remote_ok)

lemma node_ids_MergeRemoteState:
  assumes "delegate_ok d" and "remote_ok (NodeStates remoteFSM)" and "merge_order_ok order remoteFSM d"
  shows "node_ids (node_states (MergeRemoteState order remoteFSM d)) =
           node_ids (node_states d) \<union> node_ids (NodeStates remoteFSM)"
  using arg_cong [OF partitions_MergeRemoteState [OF assms], of dom]
  by (simp add: dom_partitions dom_merge_view)

lemma map_NodeId_Put: "map NodeId (node_states (Put now key value expiration d)) = map NodeId (node_states d)"
  by (simp add: Put_def Let_def)

lemma map_NodeId_Delete: "map NodeId (node_states (Delete now key d)) = map NodeId (node_states d)"
  by (simp add: Delete_def)

lemma node_ids_Put [simp]: "node_ids (node_states (Put now key value expiration d)) = node_ids (node_states d)"
  unfolding node_ids_def by (simp only: map_NodeId_Put)

lemma node_ids_Delete [simp]: "node_ids (node_states (Delete now key d)) = node_ids (node_states d)"
  unfolding node_ids_def by (simp only: map_NodeId_Delete)

lemma me_ops [simp]:
  "me (Put now key value expiration d) = me d"
  "me (Delete now key d) = me d"
  "me (MergeRemoteState order remoteFSM d) = me d"
  "me (newDelegate n meta) = n"
  by (simp_all add: Put_def Let_def Delete_def MergeRemoteState_def newDelegate_def)

lemma node_ids_newDelegate [simp]: "node_ids (node_states (newDelegate n meta)) = {n}"
  by (simp add: newDelegate_def node_states_def node_ids_def)

lemma cluster_ok_update:
  assumes "cluster_ok C" and "C n = Some d" and "me d' = n" and "delegate_ok d'"
    and "node_ids (node_states d') \<subseteq> dom C"
  shows "cluster_ok (C(n \<mapsto> d'))"
proof -
  have dom_eq: "dom (C(n \<mapsto> d')) = dom C" using assms(2) by auto
  show ?thesis
    unfolding cluster_ok_def dom_eq
  proof (intro allI impI)
    fix m e assume "(C(n \<mapsto> d')) m = Some e"
    then show "me e = m \<and> delegate_ok e \<and> node_ids (node_states e) \<subseteq> dom C"
      using assms(1,3,4,5) by (cases "m = n") (simp_all add: cluster_ok_def)
  qed
qed

lemma cluster_step_ok: "cluster_step C C' \<Longrightarrow> cluster_ok C \<Longrightarrow> cluster_ok C'"
proof (induction rule: cluster_step.induct)
  case (join C n meta)
  then show ?case by (force simp: cluster_ok_def newDelegate_ok)
next
  case (put C n d)
  then show ?case by (intro cluster_ok_update) (auto simp: cluster_ok_def Put_ok)
next
  case (delete C n d)
  then show ?case by (intro cluster_ok_update) (auto simp: cluster_ok_def Delete_ok)
next
  case (exchange C a da b db order_a order_b da' db')
  have oka: "me da = a" "delegate_ok da" "node_ids (node_states da) \<subseteq> dom C"
    and okb: "me db = b" "delegate_ok db" "node_ids (node_states db) \<subseteq> dom C"
    using exchange.prems exchange.hyps(1,2) by (auto simp: cluster_ok_def)
  have da': "da' = MergeRemoteState order_a (LocalState False db) da"
    and db': "db' = MergeRemoteState order_b (LocalState False da) db"
    using exchange.hyps(6) by (auto simp: push_pull_def Let_def)
  have rb: "remote_ok (NodeStates (LocalState False db))"
    and ra: "remote_ok (NodeStates (LocalState False da))"
    using oka(2) okb(2) by (simp_all only: remote_ok_LocalState)
  have "delegate_ok da'" "node_ids (node_states da') \<subseteq> dom C"
    using delegate_ok_MergeRemoteState [OF oka(2) rb exchange.hyps(4)]
      node_ids_MergeRemoteState [OF oka(2) rb exchange.hyps(4)] oka(3) okb(3)
    by (simp_all add: da')
  moreover have okdb': "delegate_ok db'" and idsb: "node_ids (node_states db') \<subseteq> dom C"
    using delegate_ok_MergeRemoteState [OF okb(2) ra exchange.hyps(5)]
      node_ids_MergeRemoteState [OF okb(2) ra exchange.hyps(5)] oka(3) okb(3)
    by (simp_all add: db')
  moreover have cA: "cluster_ok (C(a \<mapsto> da'))"
    using exchange.prems exchange.hyps(1) oka(1) calculation(1,2) da'
    by (intro cluster_ok_update) auto
  moreover have cb: "(C(a \<mapsto> da')) b = Some db" and domA: "dom (C(a \<mapsto> da')) = dom C"
    using exchange.hyps(1-3) by auto
  moreover have meb: "me db' = b" using okb(1) db' by simp
  ultimately have "cluster_ok ((C(a \<mapsto> da'))(b \<mapsto> db'))"
    using cluster_ok_update [OF cA cb meb okdb'] idsb by (simp only: domA)
  then show ?case .
qed

text \<open>
  C5. In every reachable cluster (any interleaving of joins, Puts, Deletes and push/pull
  exchanges, from no node at all) each node's delegate is well formed: its \<open>me\<close> is
  its name, its node ids are unique, its own partition is present, its maps are Go
  maps, and every partition it holds belongs to a node of the cluster.
\<close>

theorem cluster_reach_ok: "cluster_reach C \<Longrightarrow> cluster_ok C"
proof (induction rule: cluster_reach.induct)
  case empty
  then show ?case by (simp add: cluster_ok_def)
next
  case (step C C')
  then show ?case by (blast intro: cluster_step_ok)
qed

text \<open>
  C3. Convergence: when one node merges a peer's exported state and the peer then
  merges the first node's new state, with no write in between, both hold the same view,
  and that view is the last-writer-wins merge of the two views they started from.
\<close>

theorem push_then_pull_converges:
  assumes "delegate_ok a" and "delegate_ok b"
    and "push_then_pull order_a order_b a b = (a', b')"
    and "merge_order_ok order_a (LocalState False b) a"
    and "merge_order_ok order_b (LocalState False a') b"
  shows "partitions (node_states b') = partitions (node_states a') \<and>
         partitions (node_states a') = merge_view (partitions (node_states a)) (partitions (node_states b))"
proof -
  have a': "a' = MergeRemoteState order_a (LocalState False b) a"
    and b': "b' = MergeRemoteState order_b (LocalState False a') b"
    using assms(3) by (auto simp: push_then_pull_def Let_def)
  have rb: "remote_ok (NodeStates (LocalState False b))" using assms(2) by (rule remote_ok_LocalState)
  have va: "partitions (node_states a') = merge_view (partitions (node_states a)) (partitions (node_states b))"
    using partitions_MergeRemoteState [OF assms(1) rb assms(4)] by (simp add: a')
  have "delegate_ok a'" using delegate_ok_MergeRemoteState [OF assms(1) rb assms(4)] by (simp add: a')
  then have ra: "remote_ok (NodeStates (LocalState False a'))" by (rule remote_ok_LocalState)
  have "partitions (node_states b') = merge_view (partitions (node_states b)) (partitions (node_states a'))"
    using partitions_MergeRemoteState [OF assms(2) ra assms(5)] by (simp add: b')
  with va show ?thesis by (simp add: merge_view_absorb)
qed

text \<open>
  C10. The transport's push/pull exchanges snapshots before either side merges. When
  both replicas hold the same slot with entries of the same Unix second, each takes the
  other's entry: the two replicas swap values, and with different values they differ
  after the exchange just as before (spec, section 5, claims convergence).
\<close>

theorem push_pull_swaps_ties:
  assumes "delegate_ok a" and "delegate_ok b"
    and "push_pull order_a order_b a b = (a', b')"
    and "merge_order_ok order_a (LocalState False b) a"
    and "merge_order_ok order_b (LocalState False a) b"
    and "partitions (node_states a) n = Some ma" and "ma k = Some ea"
    and "partitions (node_states b) n = Some mb" and "mb k = Some eb"
    and "unix (LastUpdatedTime ea) = unix (LastUpdatedTime eb)"
  shows "\<exists>ma' mb'. partitions (node_states a') n = Some ma' \<and> ma' k = Some eb \<and>
                   partitions (node_states b') n = Some mb' \<and> mb' k = Some ea"
proof -
  have a': "a' = MergeRemoteState order_a (LocalState False b) a"
    and b': "b' = MergeRemoteState order_b (LocalState False a) b"
    using assms(3) by (auto simp: push_pull_def Let_def)
  have rb: "remote_ok (NodeStates (LocalState False b))" using assms(2) by (rule remote_ok_LocalState)
  have ra: "remote_ok (NodeStates (LocalState False a))" using assms(1) by (rule remote_ok_LocalState)
  show ?thesis
    using partitions_MergeRemoteState [OF assms(1) rb assms(4)] partitions_MergeRemoteState [OF assms(2) ra assms(5)]
      assms(6-10)
    by (simp add: a' b' merge_view_def lww_tie)
qed

lemma find_entry_single_owner:
  assumes "distinct (map NodeId nss)" and "partitions nss n = Some m"
    and "\<forall>n' m'. n' \<noteq> n \<longrightarrow> partitions nss n' = Some m' \<longrightarrow> m' key = None"
  shows "find_entry key nss = m key"
  using assms
proof (induction nss)
  case Nil
  then show ?case by simp
next
  case (Cons ns nss)
  show ?case
  proof (cases "NodeId ns = n")
    case True
    have "\<forall>ns' \<in> set nss. map_of (Entries ns') key = None"
    proof
      fix ns' assume ns': "ns' \<in> set nss"
      with Cons.prems(1) True have ne: "NodeId ns' \<noteq> n" by (auto simp: image_iff)
      have "partitions (ns # nss) (NodeId ns') = Some (map_of (Entries ns'))"
        using Cons.prems(1) ns' by (auto simp only: partitions_Some_iff) auto
      with ne Cons.prems(3) show "map_of (Entries ns') key = None" by blast
    qed
    then have "find_entry key nss = None"
      by (simp add: find_entry_None_iff key_exists_def has_key_def)
    with True Cons.prems(2) show ?thesis by (auto split: option.splits)
  next
    case False
    then have "map_of (Entries ns) key = None" using Cons.prems(3) by auto
    moreover have "find_entry key nss = m key"
    proof (rule Cons.IH)
      show "distinct (map NodeId nss)" using Cons.prems(1) by simp
      show "partitions nss n = Some m" using Cons.prems(2) False by simp
      show "\<forall>n' m'. n' \<noteq> n \<longrightarrow> partitions nss n' = Some m' \<longrightarrow> m' key = None"
      proof (intro allI impI)
        fix n' m' assume ne: "n' \<noteq> n" and p: "partitions nss n' = Some m'"
        then have "n' \<noteq> NodeId ns"
          using Cons.prems(1) partitions_None_iff [of nss n'] by (auto simp: image_iff)
        then show "m' key = None" using Cons.prems(3) ne p by auto
      qed
    qed
    ultimately show ?thesis by simp
  qed
qed

lemmas cluster_eval_simps = merge_eval_simps push_pull_def push_then_pull_def
  MergeRemoteState_def rebuild_node_states_def set_node_states_def

theorem cluster_reach_ok_witness:
  "cluster_reach [''n1'' \<mapsto> newDelegate ''n1'' (test_meta ''n1'')] \<and>
   cluster_ok [''n1'' \<mapsto> newDelegate ''n1'' (test_meta ''n1'')]"
proof -
  have "cluster_step Map.empty [''n1'' \<mapsto> newDelegate ''n1'' (test_meta ''n1'')]"
    using cluster_step.join [of Map.empty "''n1''" "test_meta ''n1''"] by simp
  then have r: "cluster_reach [''n1'' \<mapsto> newDelegate ''n1'' (test_meta ''n1'')]"
    by (rule cluster_reach.step [OF cluster_reach.empty])
  show ?thesis using r cluster_reach_ok [OF r] by blast
qed

theorem push_then_pull_converges_witness:
  "delegate_ok tie_a \<and> delegate_ok tie_b \<and>
   merge_order_ok [''n1'', ''n2''] (LocalState False tie_b) tie_a \<and>
   merge_order_ok [''n2'', ''n1''] (LocalState False (fst (push_then_pull [''n1'', ''n2''] [''n2'', ''n1''] tie_a tie_b))) tie_b \<and>
   partitions (node_states (snd (push_then_pull [''n1'', ''n2''] [''n2'', ''n1''] tie_a tie_b))) =
   partitions (node_states (fst (push_then_pull [''n1'', ''n2''] [''n2'', ''n1''] tie_a tie_b)))"
proof -
  let ?p = "push_then_pull [''n1'', ''n2''] [''n2'', ''n1''] tie_a tie_b"
  have h: "delegate_ok tie_a" "delegate_ok tie_b"
    "?p = (fst ?p, snd ?p)"
    "merge_order_ok [''n1'', ''n2''] (LocalState False tie_b) tie_a"
    "merge_order_ok [''n2'', ''n1''] (LocalState False (fst ?p)) tie_b"
    by (simp_all add: cluster_eval_simps)
  show ?thesis using h push_then_pull_converges [OF h] by blast
qed

theorem push_pull_swaps_ties_witness:
  "delegate_ok tie_a \<and> delegate_ok tie_b \<and>
   merge_order_ok [''n1'', ''n2''] (LocalState False tie_b) tie_a \<and>
   merge_order_ok [''n2'', ''n1''] (LocalState False tie_a) tie_b \<and>
   (\<exists>ma' mb'. partitions (node_states (fst (push_pull [''n1'', ''n2''] [''n2'', ''n1''] tie_a tie_b))) ''n1'' = Some ma' \<and>
      ma' ''k'' = Some tie_entry_b \<and>
      partitions (node_states (snd (push_pull [''n1'', ''n2''] [''n2'', ''n1''] tie_a tie_b))) ''n1'' = Some mb' \<and>
      mb' ''k'' = Some tie_entry_a) \<and> tie_entry_a \<noteq> tie_entry_b"
proof -
  let ?p = "push_pull [''n1'', ''n2''] [''n2'', ''n1''] tie_a tie_b"
  have h: "delegate_ok tie_a" "delegate_ok tie_b"
    "?p = (fst ?p, snd ?p)"
    "merge_order_ok [''n1'', ''n2''] (LocalState False tie_b) tie_a"
    "merge_order_ok [''n2'', ''n1''] (LocalState False tie_a) tie_b"
    "partitions (node_states tie_a) ''n1'' = Some [''k'' \<mapsto> tie_entry_a]"
    "[''k'' \<mapsto> tie_entry_a] ''k'' = Some tie_entry_a"
    "partitions (node_states tie_b) ''n1'' = Some [''k'' \<mapsto> tie_entry_b]"
    "[''k'' \<mapsto> tie_entry_b] ''k'' = Some tie_entry_b"
    "unix (LastUpdatedTime tie_entry_a) = unix (LastUpdatedTime tie_entry_b)"
    by (simp_all add: cluster_eval_simps)
  have "tie_entry_a \<noteq> tie_entry_b" by (simp add: tie_entry_a_def tie_entry_b_def new_entry_def)
  then show ?thesis using h push_pull_swaps_ties [OF h] by blast
qed

end
