(* ===== verification/Tests.thy ===== *)
theory Tests
  imports Service Replication
begin

text \<open>
  The tests of \<open>src/unnamed/part_000\<close> (\<open>TestClient\<close>), one definition per subtest,
  each the conjunction of the subtest's \<open>require\<close> and \<open>assert\<close> checks. A run
  (\<open>two_node_run\<close>) starts two nodes (\<open>newDelegate\<close> with the test metadata),
  performs the push/pull of the join, the client's write on node 2, and the push/pull
  the one-second pause leaves time for; the reads follow on node 1 at a later clock
  reading. The Go map iteration orders of both exchanges are the \<open>schedule\<close>;
  \<open>two_node_schedule_ok\<close> says that each of the four merges ranges over its working
  map in an order Go may produce. The NATS discovery server, \<open>Stop\<close> and the
  cleanup calls are not modelled: they do not touch the replicated state.
\<close>

type_synonym schedule = "(string list \<times> string list) \<times> (string list \<times> string list)"

definition two_node_run ::
  "string \<Rightarrow> string \<Rightarrow> schedule \<Rightarrow> (Delegate \<Rightarrow> ClientError + Delegate) \<Rightarrow> ClientError + Delegate \<times> Delegate" where
  "two_node_run n1 n2 sched write =
     (let (node1, node2) = push_pull (fst (fst sched)) (snd (fst sched))
                             (newDelegate n1 (test_meta n1)) (newDelegate n2 (test_meta n2))
      in case write node2 of
           Inl err \<Rightarrow> Inl err
         | Inr node2 \<Rightarrow> Inr (push_pull (fst (snd sched)) (snd (snd sched)) node1 node2))"

definition two_node_schedule_ok ::
  "string \<Rightarrow> string \<Rightarrow> schedule \<Rightarrow> (Delegate \<Rightarrow> ClientError + Delegate) \<Rightarrow> bool" where
  "two_node_schedule_ok n1 n2 sched write \<longleftrightarrow>
     (let d1 = newDelegate n1 (test_meta n1); d2 = newDelegate n2 (test_meta n2);
          (node1, node2) = push_pull (fst (fst sched)) (snd (fst sched)) d1 d2
      in merge_order_ok (fst (fst sched)) (LocalState False d2) d1 \<and>
         merge_order_ok (snd (fst sched)) (LocalState False d1) d2 \<and>
         (case write node2 of
            Inl _ \<Rightarrow> True
          | Inr node2' \<Rightarrow> merge_order_ok (fst (snd sched)) (LocalState False node2') node1 \<and>
                          merge_order_ok (snd (snd sched)) (LocalState False node1) node2'))"

definition Millisecond :: int where
  "Millisecond = 1000000"

definition test_PutProto_GetProto :: "string \<Rightarrow> string \<Rightarrow> schedule \<Rightarrow> Timestamp \<Rightarrow> Timestamp \<Rightarrow> bool" where
  "test_PutProto_GetProto n1 n2 sched t_put t_read =
     (let key = ''my-key''; value = \<lparr>Hello_Name = []\<rparr>
      in case two_node_run n1 n2 sched (client_PutProto marshal_Hello t_put key value NoExpiration) of
           Inl _ \<Rightarrow> False
         | Inr (node1, node2) \<Rightarrow>
             client_Exists t_read key node1 \<and> client_GetProto dec_Hello t_read key node1 = Inr value)"

definition test_PutString_GetString :: "string \<Rightarrow> string \<Rightarrow> schedule \<Rightarrow> Timestamp \<Rightarrow> Timestamp \<Rightarrow> bool" where
  "test_PutString_GetString n1 n2 sched t_put t_read =
     (let key = ''my-key''; value = ''my-value''
      in case two_node_run n1 n2 sched (\<lambda>d. Inr (client_PutString t_put key value NoExpiration d)) of
           Inl _ \<Rightarrow> False
         | Inr (node1, node2) \<Rightarrow>
             client_Exists t_read key node1 \<and> client_GetString t_read key node1 = Inr value \<and>
             value \<noteq> [])"

definition test_PutProto_GetProto_expiration ::
  "string \<Rightarrow> string \<Rightarrow> schedule \<Rightarrow> Timestamp \<Rightarrow> Timestamp \<Rightarrow> bool" where
  "test_PutProto_GetProto_expiration n1 n2 sched t_put t_read =
     (let expiration = 100 * Millisecond; key = ''my-key''; value = \<lparr>Hello_Name = key\<rparr>
      in case two_node_run n1 n2 sched (client_PutProto marshal_Hello t_put key value expiration) of
           Inl _ \<Rightarrow> False
         | Inr (node1, node2) \<Rightarrow>
             \<not> client_Exists t_read key node1 \<and>
             client_GetProto dec_Hello t_read key node1 = Inl ClientKeyNotFound)"

definition test_PutString_GetString_expiration ::
  "string \<Rightarrow> string \<Rightarrow> schedule \<Rightarrow> Timestamp \<Rightarrow> Timestamp \<Rightarrow> bool" where
  "test_PutString_GetString_expiration n1 n2 sched t_put t_read =
     (let key = ''my-key''; value = ''my-value''; expiration = 100 * Millisecond
      in case two_node_run n1 n2 sched (\<lambda>d. Inr (client_PutString t_put key value expiration d)) of
           Inl _ \<Rightarrow> False
         | Inr (node1, node2) \<Rightarrow>
             \<not> client_Exists t_read key node1 \<and>
             client_GetString t_read key node1 = Inl ClientKeyNotFound)"

definition test_Put_Get_expiration ::
  "string \<Rightarrow> string \<Rightarrow> schedule \<Rightarrow> Timestamp \<Rightarrow> Timestamp \<Rightarrow> bool" where
  "test_Put_Get_expiration n1 n2 sched t_put t_read =
     (let expiration = 100 * Millisecond; key = ''my-key''; value = \<lparr>Hello_Name = key\<rparr>
      in case marshal_Hello value of
           None \<Rightarrow> False
         | Some bytea \<Rightarrow>
             (let entry = \<lparr>Key = key, Value = bytea, Archived = None, LastUpdatedTime = None, Expiry = None\<rparr>
              in case two_node_run n1 n2 sched (\<lambda>d. Inr (client_Put t_put entry expiration d)) of
                   Inl _ \<Rightarrow> False
                 | Inr (node1, node2) \<Rightarrow>
                     \<not> client_Exists t_read key node1 \<and> client_Get t_read key node1 = Inl ClientKeyNotFound))"

lemma partitions_newDelegate: "partitions (node_states (newDelegate n m)) = [n \<mapsto> Map.empty]"
  by (simp add: newDelegate_def node_states_def fun_eq_iff)

lemma merge_exchange:
  assumes "delegate_ok a" and "delegate_ok b" and "merge_order_ok oa (LocalState False b) a"
  shows "partitions (node_states (MergeRemoteState oa (LocalState False b) a)) =
           merge_view (partitions (node_states a)) (partitions (node_states b))"
    and "delegate_ok (MergeRemoteState oa (LocalState False b) a)"
    and "me (MergeRemoteState oa (LocalState False b) a) = me a"
  using partitions_MergeRemoteState [OF assms(1) remote_ok_LocalState [OF assms(2)] assms(3)]
        delegate_ok_MergeRemoteState [OF assms(1) remote_ok_LocalState [OF assms(2)] assms(3)]
  by (simp_all add: MergeRemoteState_def)

lemma merge_order_ok_iff:
  assumes ok: "delegate_ok d" and rem: "remote_ok (NodeStates R)"
  shows "merge_order_ok order R d \<longleftrightarrow>
           distinct order \<and> set order = node_ids (node_states d) \<union> node_ids (NodeStates R)"
proof -
  let ?M = "merged_entries_map (node_states d) (NodeStates R)"
  have "set (map fst ?M) = dom (view_of ?M)"
    by (force simp: view_of_def dom_def map_of_eq_None_iff)
  also have "\<dots> = dom (merge_view (partitions (node_states d)) (partitions (NodeStates R)))"
    using merged_entries_map_facts(3) [of "me d" "node_states d" "NodeStates R"] ok rem
    by (simp add: delegate_ok_def)
  also have "\<dots> = node_ids (node_states d) \<union> node_ids (NodeStates R)"
    by (simp add: dom_merge_view dom_partitions)
  finally show ?thesis by (simp add: merge_order_ok_def iter_order_def)
qed

lemma two_node_schedule_ok_canonical:
  assumes ne: "n1 \<noteq> n2"
    and W: "\<And>d d'. delegate_ok d \<Longrightarrow> W d = Inr d' \<Longrightarrow>
              delegate_ok d' \<and> node_ids (node_states d') = node_ids (node_states d)"
  shows "two_node_schedule_ok n1 n2 (([n1, n2], [n1, n2]), ([n1, n2], [n1, n2])) W"
proof -
  define d1 where "d1 = newDelegate n1 (test_meta n1)"
  define d2 where "d2 = newDelegate n2 (test_meta n2)"
  have ok1: "delegate_ok d1" and ok2: "delegate_ok d2" by (simp_all add: d1_def d2_def newDelegate_ok)
  have r1: "remote_ok (NodeStates (LocalState False d1))" by (rule remote_ok_LocalState [OF ok1])
  have r2: "remote_ok (NodeStates (LocalState False d2))" by (rule remote_ok_LocalState [OF ok2])
  have ids: "node_ids (node_states d1) = {n1}" "node_ids (node_states d2) = {n2}"
    by (simp_all add: d1_def d2_def)
  have o1: "merge_order_ok [n1, n2] (LocalState False d2) d1"
    and o2: "merge_order_ok [n1, n2] (LocalState False d1) d2"
    using ne ids by (auto simp: merge_order_ok_iff [OF ok1 r2] merge_order_ok_iff [OF ok2 r1])
  define j1 where "j1 = MergeRemoteState [n1, n2] (LocalState False d2) d1"
  define j2 where "j2 = MergeRemoteState [n1, n2] (LocalState False d1) d2"
  have okj1: "delegate_ok j1" and okj2: "delegate_ok j2"
    using delegate_ok_MergeRemoteState [OF ok1 r2 o1] delegate_ok_MergeRemoteState [OF ok2 r1 o2]
    by (simp_all add: j1_def j2_def)
  have idj1: "node_ids (node_states j1) = {n1, n2}" and idj2: "node_ids (node_states j2) = {n1, n2}"
    using node_ids_MergeRemoteState [OF ok1 r2 o1] node_ids_MergeRemoteState [OF ok2 r1 o2] ids
    by (auto simp: j1_def j2_def)
  have second: "merge_order_ok [n1, n2] (LocalState False w) j1 \<and> merge_order_ok [n1, n2] (LocalState False j1) w"
    if "W j2 = Inr w" for w
  proof -
    have okw: "delegate_ok w" and idw: "node_ids (node_states w) = {n1, n2}"
      using W [OF okj2 that] idj2 by simp_all
    show ?thesis
      using ne idj1 idw
      by (simp add: merge_order_ok_iff [OF okj1 remote_ok_LocalState [OF okw]]
                    merge_order_ok_iff [OF okw remote_ok_LocalState [OF okj1]])
  qed
  show ?thesis
    using o1 o2 second
    by (auto simp: two_node_schedule_ok_def Let_def push_pull_def d1_def d2_def j1_def j2_def
             split: sum.splits)
qed

lemma two_node_run_find:
  assumes ne: "n1 \<noteq> n2" and sched: "two_node_schedule_ok n1 n2 sched (\<lambda>d. Inr (client_Put t entry exp d))"
    and exp: "int64_ok exp"
  shows "case two_node_run n1 n2 sched (\<lambda>d. Inr (client_Put t entry exp d)) of
           Inl _ \<Rightarrow> False
         | Inr p \<Rightarrow> find_entry (Key entry) (node_states (fst p)) =
                     Some (new_entry (Key entry) (Value entry) t (setExpiry exp))"
proof -
  define d1 where "d1 = newDelegate n1 (test_meta n1)"
  define d2 where "d2 = newDelegate n2 (test_meta n2)"
  define j1 where "j1 = MergeRemoteState (fst (fst sched)) (LocalState False d2) d1"
  define j2 where "j2 = MergeRemoteState (snd (fst sched)) (LocalState False d1) d2"
  define w where "w = client_Put t entry exp j2"
  define f1 where "f1 = MergeRemoteState (fst (snd sched)) (LocalState False w) j1"
  define e where "e = new_entry (Key entry) (Value entry) t (setExpiry exp)"
  have ok1: "delegate_ok d1" and ok2: "delegate_ok d2" by (simp_all add: d1_def d2_def newDelegate_ok)
  have o1: "merge_order_ok (fst (fst sched)) (LocalState False d2) d1"
    and o2: "merge_order_ok (snd (fst sched)) (LocalState False d1) d2"
    and o3: "merge_order_ok (fst (snd sched)) (LocalState False w) j1"
    using sched by (simp_all add: two_node_schedule_ok_def Let_def push_pull_def d1_def d2_def j1_def j2_def w_def)
  have both: "merge_view [n1 \<mapsto> Map.empty] [n2 \<mapsto> Map.empty] = [n1 \<mapsto> Map.empty, n2 \<mapsto> Map.empty]"
    using ne by (auto simp: merge_view_def fun_eq_iff)
  have pj1: "partitions (node_states j1) = [n1 \<mapsto> Map.empty, n2 \<mapsto> Map.empty]"
    and okj1: "delegate_ok j1"
    using merge_exchange [OF ok1 ok2 o1] both by (simp_all add: j1_def d1_def d2_def partitions_newDelegate)
  have both2: "merge_view [n2 \<mapsto> Map.empty] [n1 \<mapsto> Map.empty] = [n1 \<mapsto> Map.empty, n2 \<mapsto> Map.empty]"
    using ne by (auto simp: merge_view_def fun_eq_iff)
  have pj2: "partitions (node_states j2) = [n1 \<mapsto> Map.empty, n2 \<mapsto> Map.empty]"
    and okj2: "delegate_ok j2"
    using merge_exchange [OF ok2 ok1 o2] both2 by (simp_all add: j2_def d1_def d2_def partitions_newDelegate)
  have mej2: "me j2 = n2"
    using merge_exchange(3) [OF ok2 ok1 o2] by (simp add: j2_def d2_def newDelegate_def)
  have dj2: "distinct (map NodeId (node_states j2))" using okj2 by (simp add: delegate_ok_def fsm_ok_def)
  have "find_entry (Key entry) (node_states j2) = None"
    using find_entry_single_owner [OF dj2, of n1 Map.empty "Key entry"] pj2 ne by auto
  then have nokey: "\<not> key_exists (Key entry) (node_states j2)" by (simp add: find_entry_None_iff)
  have pw: "partitions (node_states w) = [n1 \<mapsto> Map.empty, n2 \<mapsto> [Key entry \<mapsto> e]]"
    using nokey dj2 pj2 mej2 ne
    by (auto simp: w_def client_Put_Put [OF exp] Put_def Let_def e_def partitions_put_local fun_eq_iff)
  have okw: "delegate_ok w" using okj2 by (simp add: w_def client_Put_Put [OF exp] Put_ok)
  have pf1: "partitions (node_states f1) = [n1 \<mapsto> Map.empty, n2 \<mapsto> [Key entry \<mapsto> e]]"
    using merge_exchange [OF okj1 okw o3] pj1 pw ne
    by (auto simp: f1_def merge_view_def lww_def fun_eq_iff)
  have df1: "distinct (map NodeId (node_states f1))"
    using merge_exchange(2) [OF okj1 okw o3] by (simp add: f1_def delegate_ok_def fsm_ok_def)
  have "find_entry (Key entry) (node_states f1) = Some e"
    using find_entry_single_owner [OF df1, of n2 "[Key entry \<mapsto> e]" "Key entry"] pf1 ne by auto
  then show ?thesis
    by (simp add: two_node_run_def Let_def push_pull_def d1_def d2_def j1_def j2_def w_def f1_def e_def)
qed


lemma client_reads_find_entry:
  "find_entry key (node_states d) = Some e \<Longrightarrow>
     client_Exists now key d = (\<not> expired now e \<and> \<not> GetArchived e) \<and>
     client_Get now key d = (if expired now e then Inl ClientKeyNotFound else Inr e)"
  by (simp add: client_Exists_def KVService_KeyExists_def Exists_def client_Get_Get Get_def)

lemma client_PutProto_ok:
  "marshal m = Some bs \<Longrightarrow>
     client_PutProto marshal now key m expiration =
       (\<lambda>d. Inr (client_Put now \<lparr>Key = key, Value = bs, Archived = None, LastUpdatedTime = None, Expiry = None\<rparr> expiration d))"
  by (simp add: client_PutProto_def fun_eq_iff)

lemma client_PutString_Put:
  "(\<lambda>d. Inr (client_PutString now key value expiration d)) =
     (\<lambda>d. Inr (client_Put now \<lparr>Key = key, Value = bytes_of_string value, Archived = None,
                               LastUpdatedTime = None, Expiry = None\<rparr> expiration d))"
  by (simp add: client_PutString_def)

lemma marshal_Hello_my_key:
  "marshal_Hello \<lparr>Hello_Name = ''my-key''\<rparr> = Some (enc_Hello \<lparr>Hello_Name = ''my-key''\<rparr>)"
  by (simp add: marshal_Hello_def bytes_of_string_def utf8_accept_def)

lemma marshal_Hello_empty: "marshal_Hello \<lparr>Hello_Name = []\<rparr> = Some []"
  by (simp add: marshal_Hello_def enc_Hello_def string_field_def bytes_field_def enc_fields_def
                bytes_of_string_def)

lemmas test_simps = Let_def NoExpiration_def Millisecond_def setExpiry_def durationpb_New_def
  expired_iff new_entry_def GetArchived_def int64_ok_def


lemma two_node_run_reads:
  assumes ne: "n1 \<noteq> n2" and sched: "two_node_schedule_ok n1 n2 sched (\<lambda>d. Inr (client_Put t entry exp d))"
    and exp: "int64_ok exp"
    and P: "\<And>p. (\<And>now. client_Exists now (Key entry) (fst p) =
                    (\<not> expired now (new_entry (Key entry) (Value entry) t (setExpiry exp)))) \<Longrightarrow>
             (\<And>now. client_Get now (Key entry) (fst p) =
                    (if expired now (new_entry (Key entry) (Value entry) t (setExpiry exp)) then Inl ClientKeyNotFound
                     else Inr (new_entry (Key entry) (Value entry) t (setExpiry exp)))) \<Longrightarrow> P p"
  shows "case two_node_run n1 n2 sched (\<lambda>d. Inr (client_Put t entry exp d)) of Inl _ \<Rightarrow> False | Inr p \<Rightarrow> P p"
proof (cases "two_node_run n1 n2 sched (\<lambda>d. Inr (client_Put t entry exp d))")
  case (Inl x)
  then show ?thesis using two_node_run_find [OF ne sched exp] by simp
next
  case (Inr p)
  then have f: "find_entry (Key entry) (node_states (fst p)) = Some (new_entry (Key entry) (Value entry) t (setExpiry exp))"
    using two_node_run_find [OF ne sched exp] by simp
  have "P p" by (rule P) (use client_reads_find_entry [OF f] in \<open>simp_all add: new_entry_def GetArchived_def\<close>)
  then show ?thesis using Inr by simp
qed

lemma test_PutString_GetString_passes:
  assumes ne: "n1 \<noteq> n2"
    and sched: "two_node_schedule_ok n1 n2 sched (\<lambda>d. Inr (client_PutString t_put ''my-key'' ''my-value'' NoExpiration d))"
  shows "test_PutString_GetString n1 n2 sched t_put t_read"
  unfolding test_PutString_GetString_def Let_def client_PutString_Put
  by (rule two_node_run_reads [OF ne sched [unfolded client_PutString_Put]])
     (auto simp: client_GetString_def test_simps)

lemma test_PutProto_GetProto_passes:
  assumes ne: "n1 \<noteq> n2"
    and sched: "two_node_schedule_ok n1 n2 sched (client_PutProto marshal_Hello t_put ''my-key'' \<lparr>Hello_Name = []\<rparr> NoExpiration)"
  shows "test_PutProto_GetProto n1 n2 sched t_put t_read"
  unfolding test_PutProto_GetProto_def Let_def client_PutProto_ok [of marshal_Hello "\<lparr>Hello_Name = []\<rparr>", OF marshal_Hello_empty]
  by (rule two_node_run_reads [OF ne sched [unfolded client_PutProto_ok [of marshal_Hello "\<lparr>Hello_Name = []\<rparr>", OF marshal_Hello_empty]]])
     (auto simp: client_GetProto_def test_simps dec_Hello_def parse_fields.simps)

lemma test_PutString_GetString_expiration_passes:
  assumes ne: "n1 \<noteq> n2"
    and sched: "two_node_schedule_ok n1 n2 sched (\<lambda>d. Inr (client_PutString t_put ''my-key'' ''my-value'' (100 * Millisecond) d))"
    and t: "valid_now t_put" "0 < Seconds t_put" "Seconds t_put < Seconds t_read"
  shows "test_PutString_GetString_expiration n1 n2 sched t_put t_read"
  unfolding test_PutString_GetString_expiration_def Let_def client_PutString_Put
  by (rule two_node_run_reads [OF ne sched [unfolded client_PutString_Put]])
     (use t in \<open>auto simp: client_GetString_def test_simps\<close>)

lemma test_PutProto_GetProto_expiration_passes:
  assumes ne: "n1 \<noteq> n2"
    and sched: "two_node_schedule_ok n1 n2 sched
                  (client_PutProto marshal_Hello t_put ''my-key'' \<lparr>Hello_Name = ''my-key''\<rparr> (100 * Millisecond))"
    and t: "valid_now t_put" "0 < Seconds t_put" "Seconds t_put < Seconds t_read"
  shows "test_PutProto_GetProto_expiration n1 n2 sched t_put t_read"
  unfolding test_PutProto_GetProto_expiration_def Let_def client_PutProto_ok [of marshal_Hello "\<lparr>Hello_Name = ''my-key''\<rparr>", OF marshal_Hello_my_key]
  by (rule two_node_run_reads [OF ne sched [unfolded client_PutProto_ok [of marshal_Hello "\<lparr>Hello_Name = ''my-key''\<rparr>", OF marshal_Hello_my_key]]])
     (use t in \<open>auto simp: client_GetProto_def test_simps\<close>)

lemma test_Put_Get_expiration_passes:
  assumes ne: "n1 \<noteq> n2"
    and sched: "two_node_schedule_ok n1 n2 sched
                  (\<lambda>d. Inr (client_Put t_put \<lparr>Key = ''my-key'', Value = enc_Hello \<lparr>Hello_Name = ''my-key''\<rparr>,
                      Archived = None, LastUpdatedTime = None, Expiry = None\<rparr> (100 * Millisecond) d))"
    and t: "valid_now t_put" "0 < Seconds t_put" "Seconds t_put < Seconds t_read"
  shows "test_Put_Get_expiration n1 n2 sched t_put t_read"
  unfolding test_Put_Get_expiration_def Let_def marshal_Hello_my_key option.case
  by (rule two_node_run_reads [OF ne sched]) (use t in \<open>auto simp: test_simps\<close>)


lemma client_Put_keeps_ids:
  "int64_ok exp \<Longrightarrow> delegate_ok d \<Longrightarrow>
     delegate_ok (client_Put t e exp d) \<and> node_ids (node_states (client_Put t e exp d)) = node_ids (node_states d)"
  by (simp add: client_Put_Put Put_ok)

lemma canonical_schedules:
  assumes "n1 \<noteq> n2" and "int64_ok exp"
  shows "two_node_schedule_ok n1 n2 (([n1, n2], [n1, n2]), ([n1, n2], [n1, n2]))
           (client_PutProto marshal_Hello t ''my-key'' h exp)"
    and "two_node_schedule_ok n1 n2 (([n1, n2], [n1, n2]), ([n1, n2], [n1, n2]))
           (\<lambda>d. Inr (client_PutString t ''my-key'' v exp d))"
    and "two_node_schedule_ok n1 n2 (([n1, n2], [n1, n2]), ([n1, n2], [n1, n2]))
           (\<lambda>d. Inr (client_Put t e exp d))"
  using assms
  by (auto intro!: two_node_schedule_ok_canonical simp: client_PutProto_def client_PutString_def
           client_Put_keeps_ids split: option.splits)

text \<open>
  C18. The test suite \<open>TestClient\<close> of \<open>src/unnamed/part_000\<close> passes: for any two
  distinct node names, any clock readings with the second read at least one second
  after the write (the tests pause one second), and every order in which Go's map
  ranges may run the two push/pull exchanges, each of the five subtests' requirements
  holds: a Put without expiration is found by the other node with its value (as proto,
  string or raw bytes), and a Put with a 100 ms expiration is reported missing.
\<close>

theorem TestClient_passes:
  assumes "n1 \<noteq> n2" and "valid_now t_put" and "0 < Seconds t_put" and "Seconds t_put < Seconds t_read"
    and "two_node_schedule_ok n1 n2 s1 (client_PutProto marshal_Hello t_put ''my-key'' \<lparr>Hello_Name = []\<rparr> NoExpiration)"
    and "two_node_schedule_ok n1 n2 s2 (\<lambda>d. Inr (client_PutString t_put ''my-key'' ''my-value'' NoExpiration d))"
    and "two_node_schedule_ok n1 n2 s3
           (client_PutProto marshal_Hello t_put ''my-key'' \<lparr>Hello_Name = ''my-key''\<rparr> (100 * Millisecond))"
    and "two_node_schedule_ok n1 n2 s4 (\<lambda>d. Inr (client_PutString t_put ''my-key'' ''my-value'' (100 * Millisecond) d))"
    and "two_node_schedule_ok n1 n2 s5
           (\<lambda>d. Inr (client_Put t_put \<lparr>Key = ''my-key'', Value = enc_Hello \<lparr>Hello_Name = ''my-key''\<rparr>,
                      Archived = None, LastUpdatedTime = None, Expiry = None\<rparr> (100 * Millisecond) d))"
  shows "test_PutProto_GetProto n1 n2 s1 t_put t_read \<and> test_PutString_GetString n1 n2 s2 t_put t_read \<and>
         test_PutProto_GetProto_expiration n1 n2 s3 t_put t_read \<and>
         test_PutString_GetString_expiration n1 n2 s4 t_put t_read \<and>
         test_Put_Get_expiration n1 n2 s5 t_put t_read"
  using assms
  by (simp add: test_PutProto_GetProto_passes test_PutString_GetString_passes
      test_PutProto_GetProto_expiration_passes test_PutString_GetString_expiration_passes
      test_Put_Get_expiration_passes)

theorem TestClient_passes_witness:
  "test_PutProto_GetProto ''node1'' ''node2'' (([''node1'', ''node2''], [''node1'', ''node2'']), ([''node1'', ''node2''], [''node1'', ''node2'']))
     \<lparr>Seconds = 100, Nanos = 0\<rparr> \<lparr>Seconds = 101, Nanos = 0\<rparr> \<and>
   test_Put_Get_expiration ''node1'' ''node2'' (([''node1'', ''node2''], [''node1'', ''node2'']), ([''node1'', ''node2''], [''node1'', ''node2'']))
     \<lparr>Seconds = 100, Nanos = 0\<rparr> \<lparr>Seconds = 101, Nanos = 0\<rparr>"
proof -
  let ?s = "(([''node1'', ''node2''], [''node1'', ''node2'']), ([''node1'', ''node2''], [''node1'', ''node2'']))"
  have ne: "''node1'' \<noteq> ''node2''" by simp
  have i0: "int64_ok NoExpiration" and i1: "int64_ok (100 * Millisecond)"
    by (simp_all add: int64_ok_def NoExpiration_def Millisecond_def)
  have t: "valid_now \<lparr>Seconds = 100, Nanos = 0\<rparr>" "0 < Seconds \<lparr>Seconds = 100, Nanos = 0\<rparr>"
    "Seconds \<lparr>Seconds = 100, Nanos = 0\<rparr> < Seconds \<lparr>Seconds = 101, Nanos = 0\<rparr>"
    by (simp_all add: valid_now_def)
  show ?thesis
    using TestClient_passes [OF ne t canonical_schedules(1) [OF ne i0] canonical_schedules(2) [OF ne i0]
      canonical_schedules(1) [OF ne i1] canonical_schedules(2) [OF ne i1] canonical_schedules(3) [OF ne i1]]
    by simp
qed

end
