(* ===== verification/Descriptor.thy ===== *)
theory Descriptor
  imports Codec
begin

text \<open>
  The file descriptor that \<open>protoc-gen-go\<close> generated into
  \<open>src/internal/internalpb/gokv.pb.go\<close> (\<open>file_internal_gokv_proto_rawDesc\<close>), byte
  for byte, and the part of \<open>google/protobuf/descriptor.proto\<close> needed to read it:
  \<open>FileDescriptorProto\<close> (name, package, dependencies, messages, enums, services,
  syntax), \<open>DescriptorProto\<close> (name, fields, nested messages, nested enums, the
  \<open>map_entry\<close> option), \<open>FieldDescriptorProto\<close> (name, number, label 1 optional or 3
  repeated, type 8 bool, 9 string, 11 message, 12 bytes, 13 uint32, type name),
  \<open>ServiceDescriptorProto\<close> and \<open>MethodDescriptorProto\<close>. Options other than
  \<open>map_entry\<close>, JSON names, oneofs and extensions are unknown fields here and
  skipped, as a reader of an older descriptor.proto would. The decoders use the wire
  parser of \<open>Wire\<close>, so the code that decodes a peer's state also decodes the schema;
  the nested-message decoder recurses on payloads, which are shorter than the message.
  \<open>gokv_proto\<close> is the schema \<open>internal/gokv.proto\<close> as a value; the rawDesc
  decodes to it. The agreement lemma checks the encoders of \<open>Codec\<close> against the
  decoded descriptor: every field they write has a number the descriptor declares for
  that message, with the wire type of the declared type.
\<close>

record FieldDescriptorProto =
  FieldName :: string
  FieldNumber :: nat
  FieldLabel :: nat
  FieldType :: nat
  FieldTypeName :: string

datatype DescriptorProto =
  DescriptorProto (MsgName: string) (MsgFields: "FieldDescriptorProto list")
    (MsgNested: "DescriptorProto list") (MsgEnums: "string list") (MsgMapEntry: bool)

record MethodDescriptorProto =
  MethodName :: string
  MethodInputType :: string
  MethodOutputType :: string

record ServiceDescriptorProto =
  ServiceName :: string
  ServiceMethods :: "MethodDescriptorProto list"

record FileDescriptorProto =
  FileName :: string
  FilePackage :: string
  FileDependency :: "string list"
  FileMessageTypes :: "DescriptorProto list"
  FileEnums :: "string list"
  FileServices :: "ServiceDescriptorProto list"
  FileSyntax :: string

definition file_internal_gokv_proto_rawDesc :: "byte list" where
  "file_internal_gokv_proto_rawDesc = [
     0x0a, 0x13, 0x69, 0x6e, 0x74, 0x65, 0x72, 0x6e, 0x61, 0x6c, 0x2f, 0x67, 0x6f, 0x6b, 0x76, 0x2e,
     0x70, 0x72, 0x6f, 0x74, 0x6f, 0x12, 0x0a, 0x69, 0x6e, 0x74, 0x65, 0x72, 0x6e, 0x61, 0x6c, 0x70,
     0x62, 0x1a, 0x1e, 0x67, 0x6f, 0x6f, 0x67, 0x6c, 0x65, 0x2f, 0x70, 0x72, 0x6f, 0x74, 0x6f, 0x62,
     0x75, 0x66, 0x2f, 0x64, 0x75, 0x72, 0x61, 0x74, 0x69, 0x6f, 0x6e, 0x2e, 0x70, 0x72, 0x6f, 0x74,
     0x6f, 0x1a, 0x1f, 0x67, 0x6f, 0x6f, 0x67, 0x6c, 0x65, 0x2f, 0x70, 0x72, 0x6f, 0x74, 0x6f, 0x62,
     0x75, 0x66, 0x2f, 0x74, 0x69, 0x6d, 0x65, 0x73, 0x74, 0x61, 0x6d, 0x70, 0x2e, 0x70, 0x72, 0x6f,
     0x74, 0x6f, 0x22, 0xd8, 0x01, 0x0a, 0x05, 0x45, 0x6e, 0x74, 0x72, 0x79, 0x12, 0x10, 0x0a, 0x03,
     0x6b, 0x65, 0x79, 0x18, 0x01, 0x20, 0x01, 0x28, 0x09, 0x52, 0x03, 0x6b, 0x65, 0x79, 0x12, 0x14,
     0x0a, 0x05, 0x76, 0x61, 0x6c, 0x75, 0x65, 0x18, 0x02, 0x20, 0x01, 0x28, 0x0c, 0x52, 0x05, 0x76,
     0x61, 0x6c, 0x75, 0x65, 0x12, 0x1f, 0x0a, 0x08, 0x61, 0x72, 0x63, 0x68, 0x69, 0x76, 0x65, 0x64,
     0x18, 0x03, 0x20, 0x01, 0x28, 0x08, 0x48, 0x00, 0x52, 0x08, 0x61, 0x72, 0x63, 0x68, 0x69, 0x76,
     0x65, 0x64, 0x88, 0x01, 0x01, 0x12, 0x46, 0x0a, 0x11, 0x6c, 0x61, 0x73, 0x74, 0x5f, 0x75, 0x70,
     0x64, 0x61, 0x74, 0x65, 0x64, 0x5f, 0x74, 0x69, 0x6d, 0x65, 0x18, 0x04, 0x20, 0x01, 0x28, 0x0b,
     0x32, 0x1a, 0x2e, 0x67, 0x6f, 0x6f, 0x67, 0x6c, 0x65, 0x2e, 0x70, 0x72, 0x6f, 0x74, 0x6f, 0x62,
     0x75, 0x66, 0x2e, 0x54, 0x69, 0x6d, 0x65, 0x73, 0x74, 0x61, 0x6d, 0x70, 0x52, 0x0f, 0x6c, 0x61,
     0x73, 0x74, 0x55, 0x70, 0x64, 0x61, 0x74, 0x65, 0x64, 0x54, 0x69, 0x6d, 0x65, 0x12, 0x31, 0x0a,
     0x06, 0x65, 0x78, 0x70, 0x69, 0x72, 0x79, 0x18, 0x05, 0x20, 0x01, 0x28, 0x0b, 0x32, 0x19, 0x2e,
     0x67, 0x6f, 0x6f, 0x67, 0x6c, 0x65, 0x2e, 0x70, 0x72, 0x6f, 0x74, 0x6f, 0x62, 0x75, 0x66, 0x2e,
     0x44, 0x75, 0x72, 0x61, 0x74, 0x69, 0x6f, 0x6e, 0x52, 0x06, 0x65, 0x78, 0x70, 0x69, 0x72, 0x79,
     0x42, 0x0b, 0x0a, 0x09, 0x5f, 0x61, 0x72, 0x63, 0x68, 0x69, 0x76, 0x65, 0x64, 0x22, 0xb1, 0x01,
     0x0a, 0x09, 0x4e, 0x6f, 0x64, 0x65, 0x53, 0x74, 0x61, 0x74, 0x65, 0x12, 0x17, 0x0a, 0x07, 0x6e,
     0x6f, 0x64, 0x65, 0x5f, 0x69, 0x64, 0x18, 0x01, 0x20, 0x01, 0x28, 0x09, 0x52, 0x06, 0x6e, 0x6f,
     0x64, 0x65, 0x49, 0x64, 0x12, 0x3c, 0x0a, 0x07, 0x65, 0x6e, 0x74, 0x72, 0x69, 0x65, 0x73, 0x18,
     0x02, 0x20, 0x03, 0x28, 0x0b, 0x32, 0x22, 0x2e, 0x69, 0x6e, 0x74, 0x65, 0x72, 0x6e, 0x61, 0x6c,
     0x70, 0x62, 0x2e, 0x4e, 0x6f, 0x64, 0x65, 0x53, 0x74, 0x61, 0x74, 0x65, 0x2e, 0x45, 0x6e, 0x74,
     0x72, 0x69, 0x65, 0x73, 0x45, 0x6e, 0x74, 0x72, 0x79, 0x52, 0x07, 0x65, 0x6e, 0x74, 0x72, 0x69,
     0x65, 0x73, 0x1a, 0x4d, 0x0a, 0x0c, 0x45, 0x6e, 0x74, 0x72, 0x69, 0x65, 0x73, 0x45, 0x6e, 0x74,
     0x72, 0x79, 0x12, 0x10, 0x0a, 0x03, 0x6b, 0x65, 0x79, 0x18, 0x01, 0x20, 0x01, 0x28, 0x09, 0x52,
     0x03, 0x6b, 0x65, 0x79, 0x12, 0x27, 0x0a, 0x05, 0x76, 0x61, 0x6c, 0x75, 0x65, 0x18, 0x02, 0x20,
     0x01, 0x28, 0x0b, 0x32, 0x11, 0x2e, 0x69, 0x6e, 0x74, 0x65, 0x72, 0x6e, 0x61, 0x6c, 0x70, 0x62,
     0x2e, 0x45, 0x6e, 0x74, 0x72, 0x79, 0x52, 0x05, 0x76, 0x61, 0x6c, 0x75, 0x65, 0x3a, 0x02, 0x38,
     0x01, 0x22, 0x3d, 0x0a, 0x03, 0x46, 0x53, 0x4d, 0x12, 0x36, 0x0a, 0x0b, 0x6e, 0x6f, 0x64, 0x65,
     0x5f, 0x73, 0x74, 0x61, 0x74, 0x65, 0x73, 0x18, 0x01, 0x20, 0x03, 0x28, 0x0b, 0x32, 0x15, 0x2e,
     0x69, 0x6e, 0x74, 0x65, 0x72, 0x6e, 0x61, 0x6c, 0x70, 0x62, 0x2e, 0x4e, 0x6f, 0x64, 0x65, 0x53,
     0x74, 0x61, 0x74, 0x65, 0x52, 0x0a, 0x6e, 0x6f, 0x64, 0x65, 0x53, 0x74, 0x61, 0x74, 0x65, 0x73,
     0x22, 0xae, 0x01, 0x0a, 0x08, 0x4e, 0x6f, 0x64, 0x65, 0x4d, 0x65, 0x74, 0x61, 0x12, 0x12, 0x0a,
     0x04, 0x6e, 0x61, 0x6d, 0x65, 0x18, 0x01, 0x20, 0x01, 0x28, 0x09, 0x52, 0x04, 0x6e, 0x61, 0x6d,
     0x65, 0x12, 0x12, 0x0a, 0x04, 0x68, 0x6f, 0x73, 0x74, 0x18, 0x02, 0x20, 0x01, 0x28, 0x09, 0x52,
     0x04, 0x68, 0x6f, 0x73, 0x74, 0x12, 0x12, 0x0a, 0x04, 0x70, 0x6f, 0x72, 0x74, 0x18, 0x03, 0x20,
     0x01, 0x28, 0x0d, 0x52, 0x04, 0x70, 0x6f, 0x72, 0x74, 0x12, 0x25, 0x0a, 0x0e, 0x64, 0x69, 0x73,
     0x63, 0x6f, 0x76, 0x65, 0x72, 0x79, 0x5f, 0x70, 0x6f, 0x72, 0x74, 0x18, 0x04, 0x20, 0x01, 0x28,
     0x0d, 0x52, 0x0d, 0x64, 0x69, 0x73, 0x63, 0x6f, 0x76, 0x65, 0x72, 0x79, 0x50, 0x6f, 0x72, 0x74,
     0x12, 0x3f, 0x0a, 0x0d, 0x63, 0x72, 0x65, 0x61, 0x74, 0x69, 0x6f, 0x6e, 0x5f, 0x74, 0x69, 0x6d,
     0x65, 0x18, 0x05, 0x20, 0x01, 0x28, 0x0b, 0x32, 0x1a, 0x2e, 0x67, 0x6f, 0x6f, 0x67, 0x6c, 0x65,
     0x2e, 0x70, 0x72, 0x6f, 0x74, 0x6f, 0x62, 0x75, 0x66, 0x2e, 0x54, 0x69, 0x6d, 0x65, 0x73, 0x74,
     0x61, 0x6d, 0x70, 0x52, 0x0c, 0x63, 0x72, 0x65, 0x61, 0x74, 0x69, 0x6f, 0x6e, 0x54, 0x69, 0x6d,
     0x65, 0x22, 0x1e, 0x0a, 0x0a, 0x47, 0x65, 0x74, 0x52, 0x65, 0x71, 0x75, 0x65, 0x73, 0x74, 0x12,
     0x10, 0x0a, 0x03, 0x6b, 0x65, 0x79, 0x18, 0x01, 0x20, 0x01, 0x28, 0x09, 0x52, 0x03, 0x6b, 0x65,
     0x79, 0x22, 0x36, 0x0a, 0x0b, 0x47, 0x65, 0x74, 0x52, 0x65, 0x73, 0x70, 0x6f, 0x6e, 0x73, 0x65,
     0x12, 0x27, 0x0a, 0x05, 0x65, 0x6e, 0x74, 0x72, 0x79, 0x18, 0x01, 0x20, 0x01, 0x28, 0x0b, 0x32,
     0x11, 0x2e, 0x69, 0x6e, 0x74, 0x65, 0x72, 0x6e, 0x61, 0x6c, 0x70, 0x62, 0x2e, 0x45, 0x6e, 0x74,
     0x72, 0x79, 0x52, 0x05, 0x65, 0x6e, 0x74, 0x72, 0x79, 0x22, 0x67, 0x0a, 0x0a, 0x50, 0x75, 0x74,
     0x52, 0x65, 0x71, 0x75, 0x65, 0x73, 0x74, 0x12, 0x10, 0x0a, 0x03, 0x6b, 0x65, 0x79, 0x18, 0x01,
     0x20, 0x01, 0x28, 0x09, 0x52, 0x03, 0x6b, 0x65, 0x79, 0x12, 0x14, 0x0a, 0x05, 0x76, 0x61, 0x6c,
     0x75, 0x65, 0x18, 0x02, 0x20, 0x01, 0x28, 0x0c, 0x52, 0x05, 0x76, 0x61, 0x6c, 0x75, 0x65, 0x12,
     0x31, 0x0a, 0x06, 0x65, 0x78, 0x70, 0x69, 0x72, 0x79, 0x18, 0x03, 0x20, 0x01, 0x28, 0x0b, 0x32,
     0x19, 0x2e, 0x67, 0x6f, 0x6f, 0x67, 0x6c, 0x65, 0x2e, 0x70, 0x72, 0x6f, 0x74, 0x6f, 0x62, 0x75,
     0x66, 0x2e, 0x44, 0x75, 0x72, 0x61, 0x74, 0x69, 0x6f, 0x6e, 0x52, 0x06, 0x65, 0x78, 0x70, 0x69,
     0x72, 0x79, 0x22, 0x0d, 0x0a, 0x0b, 0x50, 0x75, 0x74, 0x52, 0x65, 0x73, 0x70, 0x6f, 0x6e, 0x73,
     0x65, 0x22, 0x21, 0x0a, 0x0d, 0x44, 0x65, 0x6c, 0x65, 0x74, 0x65, 0x52, 0x65, 0x71, 0x75, 0x65,
     0x73, 0x74, 0x12, 0x10, 0x0a, 0x03, 0x6b, 0x65, 0x79, 0x18, 0x01, 0x20, 0x01, 0x28, 0x09, 0x52,
     0x03, 0x6b, 0x65, 0x79, 0x22, 0x10, 0x0a, 0x0e, 0x44, 0x65, 0x6c, 0x65, 0x74, 0x65, 0x52, 0x65,
     0x73, 0x70, 0x6f, 0x6e, 0x73, 0x65, 0x22, 0x24, 0x0a, 0x10, 0x4b, 0x65, 0x79, 0x45, 0x78, 0x69,
     0x73, 0x74, 0x73, 0x52, 0x65, 0x71, 0x75, 0x65, 0x73, 0x74, 0x12, 0x10, 0x0a, 0x03, 0x6b, 0x65,
     0x79, 0x18, 0x01, 0x20, 0x01, 0x28, 0x09, 0x52, 0x03, 0x6b, 0x65, 0x79, 0x22, 0x2a, 0x0a, 0x10,
     0x4b, 0x65, 0x79, 0x45, 0x78, 0x69, 0x73, 0x74, 0x52, 0x65, 0x73, 0x70, 0x6f, 0x6e, 0x73, 0x65,
     0x12, 0x16, 0x0a, 0x06, 0x65, 0x78, 0x69, 0x73, 0x74, 0x73, 0x18, 0x01, 0x20, 0x01, 0x28, 0x08,
     0x52, 0x06, 0x65, 0x78, 0x69, 0x73, 0x74, 0x73, 0x22, 0x0d, 0x0a, 0x0b, 0x4c, 0x69, 0x73, 0x74,
     0x52, 0x65, 0x71, 0x75, 0x65, 0x73, 0x74, 0x22, 0x3b, 0x0a, 0x0c, 0x4c, 0x69, 0x73, 0x74, 0x52,
     0x65, 0x73, 0x70, 0x6f, 0x6e, 0x73, 0x65, 0x12, 0x2b, 0x0a, 0x07, 0x65, 0x6e, 0x74, 0x72, 0x69,
     0x65, 0x73, 0x18, 0x01, 0x20, 0x03, 0x28, 0x0b, 0x32, 0x11, 0x2e, 0x69, 0x6e, 0x74, 0x65, 0x72,
     0x6e, 0x61, 0x6c, 0x70, 0x62, 0x2e, 0x45, 0x6e, 0x74, 0x72, 0x79, 0x52, 0x07, 0x65, 0x6e, 0x74,
     0x72, 0x69, 0x65, 0x73, 0x32, 0xc0, 0x02, 0x0a, 0x09, 0x4b, 0x56, 0x53, 0x65, 0x72, 0x76, 0x69,
     0x63, 0x65, 0x12, 0x36, 0x0a, 0x03, 0x50, 0x75, 0x74, 0x12, 0x16, 0x2e, 0x69, 0x6e, 0x74, 0x65,
     0x72, 0x6e, 0x61, 0x6c, 0x70, 0x62, 0x2e, 0x50, 0x75, 0x74, 0x52, 0x65, 0x71, 0x75, 0x65, 0x73,
     0x74, 0x1a, 0x17, 0x2e, 0x69, 0x6e, 0x74, 0x65, 0x72, 0x6e, 0x61, 0x6c, 0x70, 0x62, 0x2e, 0x50,
     0x75, 0x74, 0x52, 0x65, 0x73, 0x70, 0x6f, 0x6e, 0x73, 0x65, 0x12, 0x36, 0x0a, 0x03, 0x47, 0x65,
     0x74, 0x12, 0x16, 0x2e, 0x69, 0x6e, 0x74, 0x65, 0x72, 0x6e, 0x61, 0x6c, 0x70, 0x62, 0x2e, 0x47,
     0x65, 0x74, 0x52, 0x65, 0x71, 0x75, 0x65, 0x73, 0x74, 0x1a, 0x17, 0x2e, 0x69, 0x6e, 0x74, 0x65,
     0x72, 0x6e, 0x61, 0x6c, 0x70, 0x62, 0x2e, 0x47, 0x65, 0x74, 0x52, 0x65, 0x73, 0x70, 0x6f, 0x6e,
     0x73, 0x65, 0x12, 0x3f, 0x0a, 0x06, 0x44, 0x65, 0x6c, 0x65, 0x74, 0x65, 0x12, 0x19, 0x2e, 0x69,
     0x6e, 0x74, 0x65, 0x72, 0x6e, 0x61, 0x6c, 0x70, 0x62, 0x2e, 0x44, 0x65, 0x6c, 0x65, 0x74, 0x65,
     0x52, 0x65, 0x71, 0x75, 0x65, 0x73, 0x74, 0x1a, 0x1a, 0x2e, 0x69, 0x6e, 0x74, 0x65, 0x72, 0x6e,
     0x61, 0x6c, 0x70, 0x62, 0x2e, 0x44, 0x65, 0x6c, 0x65, 0x74, 0x65, 0x52, 0x65, 0x73, 0x70, 0x6f,
     0x6e, 0x73, 0x65, 0x12, 0x47, 0x0a, 0x09, 0x4b, 0x65, 0x79, 0x45, 0x78, 0x69, 0x73, 0x74, 0x73,
     0x12, 0x1c, 0x2e, 0x69, 0x6e, 0x74, 0x65, 0x72, 0x6e, 0x61, 0x6c, 0x70, 0x62, 0x2e, 0x4b, 0x65,
     0x79, 0x45, 0x78, 0x69, 0x73, 0x74, 0x73, 0x52, 0x65, 0x71, 0x75, 0x65, 0x73, 0x74, 0x1a, 0x1c,
     0x2e, 0x69, 0x6e, 0x74, 0x65, 0x72, 0x6e, 0x61, 0x6c, 0x70, 0x62, 0x2e, 0x4b, 0x65, 0x79, 0x45,
     0x78, 0x69, 0x73, 0x74, 0x52, 0x65, 0x73, 0x70, 0x6f, 0x6e, 0x73, 0x65, 0x12, 0x39, 0x0a, 0x04,
     0x4c, 0x69, 0x73, 0x74, 0x12, 0x17, 0x2e, 0x69, 0x6e, 0x74, 0x65, 0x72, 0x6e, 0x61, 0x6c, 0x70,
     0x62, 0x2e, 0x4c, 0x69, 0x73, 0x74, 0x52, 0x65, 0x71, 0x75, 0x65, 0x73, 0x74, 0x1a, 0x18, 0x2e,
     0x69, 0x6e, 0x74, 0x65, 0x72, 0x6e, 0x61, 0x6c, 0x70, 0x62, 0x2e, 0x4c, 0x69, 0x73, 0x74, 0x52,
     0x65, 0x73, 0x70, 0x6f, 0x6e, 0x73, 0x65, 0x42, 0x9e, 0x01, 0x0a, 0x0e, 0x63, 0x6f, 0x6d, 0x2e,
     0x69, 0x6e, 0x74, 0x65, 0x72, 0x6e, 0x61, 0x6c, 0x70, 0x62, 0x42, 0x09, 0x47, 0x6f, 0x6b, 0x76,
     0x50, 0x72, 0x6f, 0x74, 0x6f, 0x48, 0x02, 0x50, 0x01, 0x5a, 0x37, 0x67, 0x69, 0x74, 0x68, 0x75,
     0x62, 0x2e, 0x63, 0x6f, 0x6d, 0x2f, 0x74, 0x6f, 0x63, 0x68, 0x65, 0x6d, 0x65, 0x79, 0x2f, 0x67,
     0x6f, 0x6b, 0x76, 0x2f, 0x69, 0x6e, 0x74, 0x65, 0x72, 0x6e, 0x61, 0x6c, 0x2f, 0x69, 0x6e, 0x74,
     0x65, 0x72, 0x6e, 0x61, 0x6c, 0x70, 0x62, 0x3b, 0x69, 0x6e, 0x74, 0x65, 0x72, 0x6e, 0x61, 0x6c,
     0x70, 0x62, 0xa2, 0x02, 0x03, 0x49, 0x58, 0x58, 0xaa, 0x02, 0x0a, 0x49, 0x6e, 0x74, 0x65, 0x72,
     0x6e, 0x61, 0x6c, 0x70, 0x62, 0xca, 0x02, 0x0a, 0x49, 0x6e, 0x74, 0x65, 0x72, 0x6e, 0x61, 0x6c,
     0x70, 0x62, 0xe2, 0x02, 0x16, 0x49, 0x6e, 0x74, 0x65, 0x72, 0x6e, 0x61, 0x6c, 0x70, 0x62, 0x5c,
     0x47, 0x50, 0x42, 0x4d, 0x65, 0x74, 0x61, 0x64, 0x61, 0x74, 0x61, 0xea, 0x02, 0x0a, 0x49, 0x6e,
     0x74, 0x65, 0x72, 0x6e, 0x61, 0x6c, 0x70, 0x62, 0x62, 0x06, 0x70, 0x72, 0x6f, 0x74, 0x6f, 0x33]"

definition gokv_proto :: FileDescriptorProto where
  "gokv_proto = \<lparr>FileName = ''internal/gokv.proto'', FilePackage = ''internalpb'',
     FileDependency = [''google/protobuf/duration.proto'', ''google/protobuf/timestamp.proto''],
     FileMessageTypes =
      [DescriptorProto ''Entry''
         [\<lparr>FieldName = ''key'', FieldNumber = 1, FieldLabel = 1, FieldType = 9, FieldTypeName = ''''\<rparr>,
          \<lparr>FieldName = ''value'', FieldNumber = 2, FieldLabel = 1, FieldType = 12, FieldTypeName = ''''\<rparr>,
          \<lparr>FieldName = ''archived'', FieldNumber = 3, FieldLabel = 1, FieldType = 8, FieldTypeName = ''''\<rparr>,
          \<lparr>FieldName = ''last_updated_time'', FieldNumber = 4, FieldLabel = 1, FieldType = 11, FieldTypeName = ''.google.protobuf.Timestamp''\<rparr>,
          \<lparr>FieldName = ''expiry'', FieldNumber = 5, FieldLabel = 1, FieldType = 11, FieldTypeName = ''.google.protobuf.Duration''\<rparr>]
         [] [] False,
       DescriptorProto ''NodeState''
         [\<lparr>FieldName = ''node_id'', FieldNumber = 1, FieldLabel = 1, FieldType = 9, FieldTypeName = ''''\<rparr>,
          \<lparr>FieldName = ''entries'', FieldNumber = 2, FieldLabel = 3, FieldType = 11, FieldTypeName = ''.internalpb.NodeState.EntriesEntry''\<rparr>]
         [DescriptorProto ''EntriesEntry''
             [\<lparr>FieldName = ''key'', FieldNumber = 1, FieldLabel = 1, FieldType = 9, FieldTypeName = ''''\<rparr>,
              \<lparr>FieldName = ''value'', FieldNumber = 2, FieldLabel = 1, FieldType = 11, FieldTypeName = ''.internalpb.Entry''\<rparr>]
             [] [] True] [] False,
       DescriptorProto ''FSM''
         [\<lparr>FieldName = ''node_states'', FieldNumber = 1, FieldLabel = 3, FieldType = 11, FieldTypeName = ''.internalpb.NodeState''\<rparr>]
         [] [] False,
       DescriptorProto ''NodeMeta''
         [\<lparr>FieldName = ''name'', FieldNumber = 1, FieldLabel = 1, FieldType = 9, FieldTypeName = ''''\<rparr>,
          \<lparr>FieldName = ''host'', FieldNumber = 2, FieldLabel = 1, FieldType = 9, FieldTypeName = ''''\<rparr>,
          \<lparr>FieldName = ''port'', FieldNumber = 3, FieldLabel = 1, FieldType = 13, FieldTypeName = ''''\<rparr>,
          \<lparr>FieldName = ''discovery_port'', FieldNumber = 4, FieldLabel = 1, FieldType = 13, FieldTypeName = ''''\<rparr>,
          \<lparr>FieldName = ''creation_time'', FieldNumber = 5, FieldLabel = 1, FieldType = 11, FieldTypeName = ''.google.protobuf.Timestamp''\<rparr>]
         [] [] False,
       DescriptorProto ''GetRequest''
         [\<lparr>FieldName = ''key'', FieldNumber = 1, FieldLabel = 1, FieldType = 9, FieldTypeName = ''''\<rparr>]
         [] [] False,
       DescriptorProto ''GetResponse''
         [\<lparr>FieldName = ''entry'', FieldNumber = 1, FieldLabel = 1, FieldType = 11, FieldTypeName = ''.internalpb.Entry''\<rparr>]
         [] [] False,
       DescriptorProto ''PutRequest''
         [\<lparr>FieldName = ''key'', FieldNumber = 1, FieldLabel = 1, FieldType = 9, FieldTypeName = ''''\<rparr>,
          \<lparr>FieldName = ''value'', FieldNumber = 2, FieldLabel = 1, FieldType = 12, FieldTypeName = ''''\<rparr>,
          \<lparr>FieldName = ''expiry'', FieldNumber = 3, FieldLabel = 1, FieldType = 11, FieldTypeName = ''.google.protobuf.Duration''\<rparr>]
         [] [] False,
       DescriptorProto ''PutResponse''
         []
         [] [] False,
       DescriptorProto ''DeleteRequest''
         [\<lparr>FieldName = ''key'', FieldNumber = 1, FieldLabel = 1, FieldType = 9, FieldTypeName = ''''\<rparr>]
         [] [] False,
       DescriptorProto ''DeleteResponse''
         []
         [] [] False,
       DescriptorProto ''KeyExistsRequest''
         [\<lparr>FieldName = ''key'', FieldNumber = 1, FieldLabel = 1, FieldType = 9, FieldTypeName = ''''\<rparr>]
         [] [] False,
       DescriptorProto ''KeyExistResponse''
         [\<lparr>FieldName = ''exists'', FieldNumber = 1, FieldLabel = 1, FieldType = 8, FieldTypeName = ''''\<rparr>]
         [] [] False,
       DescriptorProto ''ListRequest''
         []
         [] [] False,
       DescriptorProto ''ListResponse''
         [\<lparr>FieldName = ''entries'', FieldNumber = 1, FieldLabel = 3, FieldType = 11, FieldTypeName = ''.internalpb.Entry''\<rparr>]
         [] [] False],
     FileEnums = [],
     FileServices =
      [\<lparr>ServiceName = ''KVService'', ServiceMethods =
         [\<lparr>MethodName = ''Put'', MethodInputType = ''.internalpb.PutRequest'', MethodOutputType = ''.internalpb.PutResponse''\<rparr>,
          \<lparr>MethodName = ''Get'', MethodInputType = ''.internalpb.GetRequest'', MethodOutputType = ''.internalpb.GetResponse''\<rparr>,
          \<lparr>MethodName = ''Delete'', MethodInputType = ''.internalpb.DeleteRequest'', MethodOutputType = ''.internalpb.DeleteResponse''\<rparr>,
          \<lparr>MethodName = ''KeyExists'', MethodInputType = ''.internalpb.KeyExistsRequest'', MethodOutputType = ''.internalpb.KeyExistResponse''\<rparr>,
          \<lparr>MethodName = ''List'', MethodInputType = ''.internalpb.ListRequest'', MethodOutputType = ''.internalpb.ListResponse''\<rparr>]\<rparr>],
     FileSyntax = ''proto3''\<rparr>"


definition dec_string :: "nat \<Rightarrow> field list \<Rightarrow> string" where
  "dec_string n fs = string_of_bytes (last_or [] (payloads n fs))"

definition dec_FieldDescriptorProto :: "byte list \<Rightarrow> FieldDescriptorProto option" where
  "dec_FieldDescriptorProto bs = map_option (\<lambda>fs.
     \<lparr>FieldName = dec_string 1 fs, FieldNumber = last_or 0 (varints 3 fs),
      FieldLabel = last_or 0 (varints 4 fs), FieldType = last_or 0 (varints 5 fs),
      FieldTypeName = dec_string 6 fs\<rparr>) (parse_fields bs)"

definition dec_EnumDescriptorProto :: "byte list \<Rightarrow> string option" where
  "dec_EnumDescriptorProto bs = map_option (dec_string 1) (parse_fields bs)"

definition dec_MessageOptions :: "byte list \<Rightarrow> bool option" where
  "dec_MessageOptions bs = map_option (\<lambda>fs. last_or 0 (varints 7 fs) \<noteq> 0) (parse_fields bs)"

function dec_DescriptorProto :: "byte list \<Rightarrow> DescriptorProto option" where
  "dec_DescriptorProto bs =
     (case parse_fields bs of
        None \<Rightarrow> None
      | Some fs \<Rightarrow>
          (case dec_list dec_FieldDescriptorProto (payloads 2 fs) of
             None \<Rightarrow> None
           | Some flds \<Rightarrow>
               (case dec_list dec_DescriptorProto (payloads 3 fs) of
                  None \<Rightarrow> None
                | Some nested \<Rightarrow>
                    (case dec_list dec_EnumDescriptorProto (payloads 4 fs) of
                       None \<Rightarrow> None
                     | Some enums \<Rightarrow>
                         map_option (DescriptorProto (dec_string 1 fs) flds nested enums)
                           (dec_MessageOptions (concat (payloads 7 fs)))))))"
  by pat_completeness auto
termination
  by (relation "measure length") (auto dest: in_payloads parse_fields_payload_shorter)

definition dec_MethodDescriptorProto :: "byte list \<Rightarrow> MethodDescriptorProto option" where
  "dec_MethodDescriptorProto bs = map_option (\<lambda>fs.
     \<lparr>MethodName = dec_string 1 fs, MethodInputType = dec_string 2 fs,
      MethodOutputType = dec_string 3 fs\<rparr>) (parse_fields bs)"

definition dec_ServiceDescriptorProto :: "byte list \<Rightarrow> ServiceDescriptorProto option" where
  "dec_ServiceDescriptorProto bs = Option.bind (parse_fields bs) (\<lambda>fs.
     map_option (\<lambda>ms. \<lparr>ServiceName = dec_string 1 fs, ServiceMethods = ms\<rparr>)
       (dec_list dec_MethodDescriptorProto (payloads 2 fs)))"

definition dec_FileDescriptorProto :: "byte list \<Rightarrow> FileDescriptorProto option" where
  "dec_FileDescriptorProto bs = Option.bind (parse_fields bs) (\<lambda>fs.
     Option.bind (dec_list dec_DescriptorProto (payloads 4 fs)) (\<lambda>msgs.
     Option.bind (dec_list dec_EnumDescriptorProto (payloads 5 fs)) (\<lambda>enums.
     map_option (\<lambda>svcs.
       \<lparr>FileName = dec_string 1 fs, FilePackage = dec_string 2 fs,
        FileDependency = map string_of_bytes (payloads 3 fs), FileMessageTypes = msgs,
        FileEnums = enums, FileServices = svcs, FileSyntax = dec_string 12 fs\<rparr>)
       (dec_list dec_ServiceDescriptorProto (payloads 6 fs)))))"

definition proto_wire_type :: "nat \<Rightarrow> nat" where
  "proto_wire_type t = (if t \<in> {9, 11, 12} then 2 else 0)"

definition wire_type :: "wire_value \<Rightarrow> nat" where
  "wire_type v = (case v of WVarint _ \<Rightarrow> 0 | WFixed64 _ \<Rightarrow> 1 | WBytes _ \<Rightarrow> 2 | WFixed32 _ \<Rightarrow> 5)"

definition declared_fields :: "string \<Rightarrow> (nat \<times> nat) list" where
  "declared_fields msg =
     (case dec_FileDescriptorProto file_internal_gokv_proto_rawDesc of
        None \<Rightarrow> []
      | Some fd \<Rightarrow> (case find (\<lambda>m. MsgName m = msg) (FileMessageTypes fd) of
                     None \<Rightarrow> []
                   | Some m \<Rightarrow> map (\<lambda>f. (FieldNumber f, proto_wire_type (FieldType f))) (MsgFields m)))"

definition agrees :: "string \<Rightarrow> field list \<Rightarrow> bool" where
  "agrees msg fs \<longleftrightarrow> (\<forall>f \<in> set fs. (fst f, wire_type (snd f)) \<in> set (declared_fields msg))"

lemma rawDesc_is_gokv_proto:
  "dec_FileDescriptorProto file_internal_gokv_proto_rawDesc = Some gokv_proto"
  by code_simp

lemma declared_fields_gokv:
  "declared_fields ''Entry'' = [(1, 2), (2, 2), (3, 0), (4, 2), (5, 2)]"
  "declared_fields ''NodeState'' = [(1, 2), (2, 2)]"
  "declared_fields ''FSM'' = [(1, 2)]"
  "declared_fields ''NodeMeta'' = [(1, 2), (2, 2), (3, 0), (4, 0), (5, 2)]"
  by (simp_all add: declared_fields_def rawDesc_is_gokv_proto gokv_proto_def proto_wire_type_def)

lemma MsgNested_size: "size_list size (MsgNested m) < size m"
  by (cases m) simp

lemma agrees_append [simp]: "agrees msg (fs @ gs) \<longleftrightarrow> agrees msg fs \<and> agrees msg gs"
  by (auto simp: agrees_def)

text \<open>
  C22. The encoders write the layout the generated descriptor declares: every field of
  an encoded Entry, NodeState, FSM or NodeMeta carries a field number the descriptor
  lists for that message, with the wire type of its declared type.
\<close>

theorem encoders_follow_descriptor:
  "agrees ''Entry'' (fields_Entry e) \<and> agrees ''NodeState'' (fields_NodeState ns) \<and>
   agrees ''FSM'' (fields_FSM f) \<and> agrees ''NodeMeta'' (fields_NodeMeta m)"
  by (auto simp: fields_Entry_def fields_NodeState_def fields_FSM_def fields_NodeMeta_def
      declared_fields_gokv agrees_def string_field_def bytes_field_def bool_field_def message_field_def
      uint32_field_def wire_type_def split: option.splits if_splits)

end
