(* ===== verification/Registry.thy ===== *)
theory Registry
  imports Descriptor
begin

text \<open>
  The registration of the generated types at program start
  (\<open>file_internal_gokv_proto_init\<close> in \<open>src/internal/internalpb/gokv.pb.go\<close>):
  the tables \<open>file_internal_gokv_proto_msgTypes\<close> (15 message-info slots),
  \<open>file_internal_gokv_proto_goTypes\<close> (the Go type of each message, in the
  descriptor's flattened order, then the imported types) and
  \<open>file_internal_gokv_proto_depIdxs\<close> (for each field or method that names a message,
  the index of that message in \<open>goTypes\<close>, followed by the start offsets of the five
  sub-lists), and the \<open>protoimpl.TypeBuilder\<close> that \<open>init\<close> builds from them.
  A Go type is written by its Go name; \<open>go_type_full_name\<close> gives the protobuf full
  name of the message it implements (the generated types of this package carry the
  package \<open>internalpb\<close>, nested types joined by an underscore; \<open>timestamppb\<close> and
  \<open>durationpb\<close> implement the two well-known types). \<open>TypeBuilder_Build\<close> is what
  \<open>TypeBuilder.Build\<close> of google.golang.org/protobuf does with them: it decodes the raw
  descriptor, lays out its messages in the flattened order (the top-level messages, then
  the nested ones of each, depth first), panics (\<open>None\<close>) when a declared count or the
  length of \<open>MessageInfos\<close> differs from the descriptor, binds each non-nil Go type to
  the message at its position, and resolves each message-typed field and each method's
  input and output by \<open>depIdxs\<close> (\<open>resolverByIndex\<close>: an index below the number of
  local declarations names a local message, a higher one a Go type; a nil Go type falls
  back to the declared name). Extensions are not modelled; the file declares none.
\<close>

definition file_internal_gokv_proto_msgTypes :: nat where
  "file_internal_gokv_proto_msgTypes = 15"

definition file_internal_gokv_proto_goTypes :: "string option list" where
  "file_internal_gokv_proto_goTypes =
     [Some ''Entry'', Some ''NodeState'', Some ''FSM'', Some ''NodeMeta'', Some ''GetRequest'',
      Some ''GetResponse'', Some ''PutRequest'', Some ''PutResponse'', Some ''DeleteRequest'',
      Some ''DeleteResponse'', Some ''KeyExistsRequest'', Some ''KeyExistResponse'',
      Some ''ListRequest'', Some ''ListResponse'', None,
      Some ''timestamppb.Timestamp'', Some ''durationpb.Duration'']"

definition file_internal_gokv_proto_depIdxs :: "int list" where
  "file_internal_gokv_proto_depIdxs =
     [15, 16, 14, 1, 15, 0, 16, 0, 0,
      6, 4, 8, 10, 12,
      7, 5, 9, 11, 13,
      14, 9, 9, 9, 0]"

record DescBuilder =
  RawDescriptor :: "byte list"
  NumEnums :: nat
  NumMessages :: nat
  NumExtensions :: nat
  NumServices :: nat

record TypeBuilder =
  File :: DescBuilder
  GoTypes :: "string option list"
  DependencyIndexes :: "int list"
  MessageInfos :: nat

definition file_internal_gokv_proto_init_builder :: TypeBuilder where
  "file_internal_gokv_proto_init_builder =
     \<lparr>File = \<lparr>RawDescriptor = file_internal_gokv_proto_rawDesc, NumEnums = 0, NumMessages = 15,
              NumExtensions = 0, NumServices = 1\<rparr>,
      GoTypes = file_internal_gokv_proto_goTypes,
      DependencyIndexes = file_internal_gokv_proto_depIdxs,
      MessageInfos = file_internal_gokv_proto_msgTypes\<rparr>"

definition go_type_full_name :: "string \<Rightarrow> string" where
  "go_type_full_name t =
     (if t = ''timestamppb.Timestamp'' then ''google.protobuf.Timestamp''
      else if t = ''durationpb.Duration'' then ''google.protobuf.Duration''
      else ''internalpb.'' @ map (\<lambda>c. if c = CHR ''_'' then CHR ''.'' else c) t)"

function flat_messages :: "string \<Rightarrow> DescriptorProto list \<Rightarrow> (string \<times> DescriptorProto) list"
     and flat_children :: "string \<Rightarrow> DescriptorProto list \<Rightarrow> (string \<times> DescriptorProto) list" where
  "flat_messages p ms = map (\<lambda>m. (p @ ''.'' @ MsgName m, m)) ms @ flat_children p ms"
| "flat_children p [] = []"
| "flat_children p (m # ms) = flat_messages (p @ ''.'' @ MsgName m) (MsgNested m) @ flat_children p ms"
  by pat_completeness auto
termination
  by (relation "measure (\<lambda>x. case x of Inl (p, ms) \<Rightarrow> Suc (size_list size ms)
                                     | Inr (p, ms) \<Rightarrow> size_list size ms)")
     (auto intro: less_SucI trans_less_add1 MsgNested_size)

function flat_enums :: "string \<Rightarrow> DescriptorProto list \<Rightarrow> string list" where
  "flat_enums p [] = []"
| "flat_enums p (m # ms) =
     map (\<lambda>e. p @ ''.'' @ MsgName m @ ''.'' @ e) (MsgEnums m) @
     flat_enums (p @ ''.'' @ MsgName m) (MsgNested m) @ flat_enums p ms"
  by pat_completeness auto
termination
  by (relation "measure (\<lambda>(p, ms). size_list size ms)")
     (auto intro: less_SucI trans_less_add1 MsgNested_size)

definition all_messages :: "FileDescriptorProto \<Rightarrow> (string \<times> DescriptorProto) list" where
  "all_messages fd = flat_messages (FilePackage fd) (FileMessageTypes fd)"

definition all_enums :: "FileDescriptorProto \<Rightarrow> string list" where
  "all_enums fd = map (\<lambda>e. FilePackage fd @ ''.'' @ e) (FileEnums fd) @
                  flat_enums (FilePackage fd) (FileMessageTypes fd)"

definition message_table :: "FileDescriptorProto \<Rightarrow> (string \<times> bool) list" where
  "message_table fd = map (\<lambda>(n, m). (n, MsgMapEntry m)) (all_messages fd)"

definition strip_dot :: "string \<Rightarrow> string" where
  "strip_dot s = (case s of CHR ''.'' # r \<Rightarrow> r | _ \<Rightarrow> s)"

definition field_deps :: "FileDescriptorProto \<Rightarrow> (string \<times> string \<times> nat \<times> string) list" where
  "field_deps fd = [(n, FieldName f, FieldType f, strip_dot (FieldTypeName f)).
                      (n, m) \<leftarrow> all_messages fd, f \<leftarrow> MsgFields m, FieldType f \<in> {10, 11, 14}]"

definition all_methods :: "FileDescriptorProto \<Rightarrow> (string \<times> string \<times> string) list" where
  "all_methods fd = [(FilePackage fd @ ''.'' @ ServiceName s @ ''.'' @ MethodName m,
                       strip_dot (MethodInputType m), strip_dot (MethodOutputType m)).
                      s \<leftarrow> FileServices fd, m \<leftarrow> ServiceMethods s]"

definition dep_index :: "int list \<Rightarrow> nat \<Rightarrow> nat \<Rightarrow> int option" where
  "dep_index x i j =
     (if i < length x then
        (let k = x ! (length x - i - 1) + int j in
         if 0 \<le> k \<and> nat k < length x then Some (x ! nat k) else None)
      else None)"

definition resolve_dep ::
  "TypeBuilder \<Rightarrow> string list \<Rightarrow> string list \<Rightarrow> bool \<Rightarrow> nat \<Rightarrow> nat \<Rightarrow> string \<Rightarrow> string option" where
  "resolve_dep tb es ms is_enum i j declared =
     (case dep_index (DependencyIndexes tb) i j of
        None \<Rightarrow> None
      | Some d \<Rightarrow>
          if d < 0 then None
          else if nat d < length es + length ms then
            (if is_enum then (if nat d < length es then Some (es ! nat d) else None)
             else if nat d < length es then None else Some (ms ! (nat d - length es)))
          else if nat d < length (GoTypes tb) then
            (case GoTypes tb ! nat d of None \<Rightarrow> Some declared | Some t \<Rightarrow> Some (go_type_full_name t))
          else None)"

record BuildOut =
  OutMessages :: "(string \<times> bool \<times> string option) list"
  OutFields :: "(string \<times> string \<times> string \<times> string) list"
  OutMethods :: "(string \<times> (string \<times> string) \<times> (string \<times> string)) list"

definition resolve_fields ::
  "TypeBuilder \<Rightarrow> string list \<Rightarrow> string list \<Rightarrow> (string \<times> string \<times> nat \<times> string) list \<Rightarrow>
   (string \<times> string \<times> string \<times> string) list option" where
  "resolve_fields tb es ms deps =
     those (map (\<lambda>(j, (n, f, t, decl)).
                   map_option (\<lambda>r. (n, f, decl, r)) (resolve_dep tb es ms (t = 14) 0 j decl))
                (enumerate 0 deps))"

definition resolve_methods ::
  "TypeBuilder \<Rightarrow> string list \<Rightarrow> string list \<Rightarrow> (string \<times> string \<times> string) list \<Rightarrow>
   (string \<times> (string \<times> string) \<times> (string \<times> string)) list option" where
  "resolve_methods tb es ms meths =
     those (map (\<lambda>(j, (n, i, out)).
                   case (resolve_dep tb es ms False 3 j i, resolve_dep tb es ms False 4 j out) of
                     (Some ri, Some ro) \<Rightarrow> Some (n, (i, ri), (out, ro))
                   | _ \<Rightarrow> None)
                (enumerate 0 meths))"

definition Build_tables ::
  "TypeBuilder \<Rightarrow> string list \<Rightarrow> (string \<times> bool) list \<Rightarrow> (string \<times> string \<times> nat \<times> string) list \<Rightarrow>
   (string \<times> string \<times> string) list \<Rightarrow> nat \<Rightarrow> BuildOut option" where
  "Build_tables tb es msgs deps meths nsvc =
     (if NumEnums (File tb) \<noteq> length es \<or> NumMessages (File tb) \<noteq> length msgs
         \<or> NumExtensions (File tb) \<noteq> 0 \<or> NumServices (File tb) \<noteq> nsvc then None
      else if length (GoTypes tb) < length es + length msgs then None
      else if MessageInfos tb \<noteq> length msgs then None
      else
        Option.bind (resolve_fields tb es (map fst msgs) deps) (\<lambda>flds.
          map_option (\<lambda>mts.
             \<lparr>OutMessages = map2 (\<lambda>(n, me) g. (n, me, map_option go_type_full_name g))
                             msgs (take (length msgs) (drop (length es) (GoTypes tb))),
              OutFields = flds, OutMethods = mts\<rparr>)
            (resolve_methods tb es (map fst msgs) meths)))"

definition TypeBuilder_Build :: "TypeBuilder \<Rightarrow> BuildOut option" where
  "TypeBuilder_Build tb =
     Option.bind (dec_FileDescriptorProto (RawDescriptor (File tb))) (\<lambda>fd.
       Build_tables tb (all_enums fd) (message_table fd) (field_deps fd) (all_methods fd)
         (length (FileServices fd)))"

definition registration_consistent :: "BuildOut \<Rightarrow> bool" where
  "registration_consistent out \<longleftrightarrow>
     map (\<lambda>(n, me, g). g) (OutMessages out) =
       map (\<lambda>(n, me, g). if me then None else Some n) (OutMessages out) \<and>
     map (\<lambda>(n, f, decl, r). r) (OutFields out) = map (\<lambda>(n, f, decl, r). decl) (OutFields out) \<and>
     map (\<lambda>(n, (i, ri), (out, ro)). (ri, ro)) (OutMethods out) =
       map (\<lambda>(n, (i, ri), (out, ro)). (i, out)) (OutMethods out)"

subsection \<open>The tables of gokv.proto\<close>

lemma gokv_message_table:
  "message_table gokv_proto =
     [(''internalpb.Entry'', False), (''internalpb.NodeState'', False),
      (''internalpb.FSM'', False), (''internalpb.NodeMeta'', False),
      (''internalpb.GetRequest'', False), (''internalpb.GetResponse'', False),
      (''internalpb.PutRequest'', False), (''internalpb.PutResponse'', False),
      (''internalpb.DeleteRequest'', False), (''internalpb.DeleteResponse'', False),
      (''internalpb.KeyExistsRequest'', False), (''internalpb.KeyExistResponse'', False),
      (''internalpb.ListRequest'', False), (''internalpb.ListResponse'', False),
      (''internalpb.NodeState.EntriesEntry'', True)]"
  by (simp add: message_table_def all_messages_def gokv_proto_def)

lemma gokv_field_deps:
  "field_deps gokv_proto =
     [(''internalpb.Entry'', ''last_updated_time'', 11, ''google.protobuf.Timestamp''),
      (''internalpb.Entry'', ''expiry'', 11, ''google.protobuf.Duration''),
      (''internalpb.NodeState'', ''entries'', 11, ''internalpb.NodeState.EntriesEntry''),
      (''internalpb.FSM'', ''node_states'', 11, ''internalpb.NodeState''),
      (''internalpb.NodeMeta'', ''creation_time'', 11, ''google.protobuf.Timestamp''),
      (''internalpb.GetResponse'', ''entry'', 11, ''internalpb.Entry''),
      (''internalpb.PutRequest'', ''expiry'', 11, ''google.protobuf.Duration''),
      (''internalpb.ListResponse'', ''entries'', 11, ''internalpb.Entry''),
      (''internalpb.NodeState.EntriesEntry'', ''value'', 11, ''internalpb.Entry'')]"
  by (simp add: field_deps_def all_messages_def gokv_proto_def strip_dot_def)

lemma gokv_methods:
  "all_methods gokv_proto =
     [(''internalpb.KVService.Put'', ''internalpb.PutRequest'', ''internalpb.PutResponse''),
      (''internalpb.KVService.Get'', ''internalpb.GetRequest'', ''internalpb.GetResponse''),
      (''internalpb.KVService.Delete'', ''internalpb.DeleteRequest'', ''internalpb.DeleteResponse''),
      (''internalpb.KVService.KeyExists'', ''internalpb.KeyExistsRequest'', ''internalpb.KeyExistResponse''),
      (''internalpb.KVService.List'', ''internalpb.ListRequest'', ''internalpb.ListResponse'')]"
  by (simp add: all_methods_def gokv_proto_def strip_dot_def)

lemma gokv_enums: "all_enums gokv_proto = []"
  by (simp add: all_enums_def gokv_proto_def)

lemma gokv_services: "length (FileServices gokv_proto) = 1"
  by (simp add: gokv_proto_def)

lemmas gokv_tables = gokv_message_table gokv_field_deps gokv_methods gokv_enums gokv_services

lemma init_builder_Build:
  "TypeBuilder_Build file_internal_gokv_proto_init_builder =
     Build_tables file_internal_gokv_proto_init_builder [] (message_table gokv_proto)
       (field_deps gokv_proto) (all_methods gokv_proto) 1"
  using rawDesc_is_gokv_proto
  by (simp add: TypeBuilder_Build_def file_internal_gokv_proto_init_builder_def gokv_enums gokv_services)

lemma init_builder_builds: "TypeBuilder_Build file_internal_gokv_proto_init_builder \<noteq> None"
  unfolding init_builder_Build
  by (simp add: gokv_tables Build_tables_def resolve_fields_def resolve_methods_def
      resolve_dep_def dep_index_def file_internal_gokv_proto_init_builder_def
      file_internal_gokv_proto_goTypes_def file_internal_gokv_proto_depIdxs_def
      file_internal_gokv_proto_msgTypes_def)

text \<open>
  C23. The registration tables that \<open>init\<close> hands to \<open>TypeBuilder.Build\<close> agree with
  the embedded descriptor: the build does not panic, every message of the descriptor
  except the map entry is bound to the Go type that implements it, and every
  message-typed field and every method input and output is resolved through
  \<open>depIdxs\<close> to the message its declaration names.
\<close>

theorem init_registers_descriptor_types:
  "\<exists>out. TypeBuilder_Build file_internal_gokv_proto_init_builder = Some out \<and>
         registration_consistent out"
  unfolding init_builder_Build
  by (simp add: gokv_tables Build_tables_def resolve_fields_def resolve_methods_def
      resolve_dep_def dep_index_def registration_consistent_def go_type_full_name_def
      file_internal_gokv_proto_init_builder_def file_internal_gokv_proto_goTypes_def
      file_internal_gokv_proto_depIdxs_def file_internal_gokv_proto_msgTypes_def)

end
