(* ===== verification/WireCluster.thy ===== *)
theory WireCluster
  imports Codec Replication
begin

text \<open>
  The cluster as it runs: peers exchange the bytes of \<open>LocalState\<close> and decode them in
  \<open>MergeRemoteState\<close> (\<open>LocalState_bytes\<close>, \<open>MergeRemoteState_bytes\<close> of
  \<open>Codec\<close>). \<open>push_pull_bytes\<close> is memberlist's push/pull over bytes (both buffers
  taken before either merge); \<open>Unmarshal_FSM\<close> of \<open>Codec\<close> is what \<open>MergeRemoteState\<close> merges
  (the node states decoded before the first error, all of them for a valid payload). \<open>wire_step\<close> is
  \<open>cluster_step\<close> of \<open>Replication\<close> with that exchange and with the conditions the
  Go types impose or the wire format needs: node names and keys are UTF-8 (a Go string
  need not be; see the finding on dropped marshal errors), clock readings and
  durations fit int64, and a state fits a Go slice (fewer than 2 to the 63 bytes).
  \<open>view_valid\<close> is wire validity read on the partition view, which makes it easy to
  carry through Put, Delete and the last-writer-wins merge. The refinement theorem says
  every state the byte-level cluster reaches is reached by the message-level cluster
  and is well formed for the wire.
\<close>

definition push_pull_bytes ::
  "string list \<Rightarrow> string list \<Rightarrow> Delegate \<Rightarrow> Delegate \<Rightarrow> Delegate \<times> Delegate" where
  "push_pull_bytes order_a order_b a b =
     (let buf_a = LocalState_bytes False a; buf_b = LocalState_bytes False b
      in (MergeRemoteState_bytes order_a buf_b False a, MergeRemoteState_bytes order_b buf_a False b))"

inductive wire_step :: "cluster \<Rightarrow> cluster \<Rightarrow> bool" where
  join: "C n = None \<Longrightarrow> utf8_valid (bytes_of_string n) \<Longrightarrow> wire_step C (C(n \<mapsto> newDelegate n meta))"
| put: "C n = Some d \<Longrightarrow> utf8_valid (bytes_of_string key) \<Longrightarrow> ts_ok now \<Longrightarrow> int64_ok expiration \<Longrightarrow>
     wire_step C (C(n \<mapsto> Put now key value expiration d))"
| delete: "C n = Some d \<Longrightarrow> ts_ok now \<Longrightarrow> wire_step C (C(n \<mapsto> Delete now key d))"
| exchange: "C a = Some da \<Longrightarrow> C b = Some db \<Longrightarrow> a \<noteq> b \<Longrightarrow>
     length (LocalState_bytes False da) < 2 ^ 63 \<Longrightarrow> length (LocalState_bytes False db) < 2 ^ 63 \<Longrightarrow>
     merge_order_ok order_a (Unmarshal_FSM (LocalState_bytes False db)) da \<Longrightarrow>
     merge_order_ok order_b (Unmarshal_FSM (LocalState_bytes False da)) db \<Longrightarrow>
     push_pull_bytes order_a order_b da db = (da', db') \<Longrightarrow>
     wire_step C (C(a \<mapsto> da', b \<mapsto> db'))"

inductive wire_reach :: "cluster \<Rightarrow> bool" where
  empty: "wire_reach Map.empty"
| step: "wire_reach C \<Longrightarrow> wire_step C C' \<Longrightarrow> wire_reach C'"

definition view_valid :: "view \<Rightarrow> bool" where
  "view_valid V \<longleftrightarrow> (\<forall>n m. V n = Some m \<longrightarrow> utf8_valid (bytes_of_string n) \<and>
       (\<forall>k e. m k = Some e \<longrightarrow> utf8_valid (bytes_of_string k) \<and> entry_valid e))"

definition cluster_valid :: "cluster \<Rightarrow> bool" where
  "cluster_valid C \<longleftrightarrow> (\<forall>n d. C n = Some d \<longrightarrow> fsm_valid (fsm d))"

definition wire_ok :: "cluster \<Rightarrow> bool" where
  "wire_ok C \<longleftrightarrow> cluster_ok C \<and> cluster_valid C"

subsection \<open>Lemmas\<close>

lemma fsm_valid_view:
  assumes "remote_ok nss"
  shows "fsm_valid \<lparr>NodeStates = nss\<rparr> \<longleftrightarrow> view_valid (partitions nss)"
proof -
  have d: "distinct (map NodeId nss)" and g: "\<forall>ns \<in> set nss. go_map_ok (Entries ns)"
    using assms by (simp_all add: remote_ok_def)
  show ?thesis
  proof
    assume v: "fsm_valid \<lparr>NodeStates = nss\<rparr>"
    show "view_valid (partitions nss)" unfolding view_valid_def
    proof (intro allI impI)
      fix n m assume "partitions nss n = Some m"
      then obtain ns where ns: "ns \<in> set nss" "NodeId ns = n" "m = map_of (Entries ns)"
        using partitions_Some_iff [OF d] by auto
      have "node_valid ns" using v ns(1) by (simp add: fsm_valid_def)
      then show "utf8_valid (bytes_of_string n) \<and>
          (\<forall>k e. m k = Some e \<longrightarrow> utf8_valid (bytes_of_string k) \<and> entry_valid e)"
        using ns by (fastforce simp: node_valid_def dest: map_of_SomeD)
    qed
  next
    assume v: "view_valid (partitions nss)"
    show "fsm_valid \<lparr>NodeStates = nss\<rparr>" unfolding fsm_valid_def
    proof (simp, intro ballI)
      fix ns assume ns: "ns \<in> set nss"
      then have p: "partitions nss (NodeId ns) = Some (map_of (Entries ns))"
        using partitions_Some_iff [OF d] by auto
      have gm: "go_map_ok (Entries ns)" using g ns by simp
      show "node_valid ns"
        using v p gm by (fastforce simp: view_valid_def node_valid_def map_of_eq_Some_in)
    qed
  qed
qed

lemma dur_ok_setExpiry: "int64_ok expiration \<Longrightarrow> pred_option dur_ok (setExpiry expiration)"
proof (cases "0 < expiration")
  case True
  assume ok: "int64_ok expiration"
  define q where "q = expiration div 1000000000"
  define r where "r = expiration mod 1000000000"
  have dn: "durationpb_New expiration = \<lparr>DurSeconds = q, DurNanos = r\<rparr>"
    using True by (simp add: durationpb_New_def Let_def signed_divide_int_def q_def r_def minus_div_mult_eq_mod)
  have b: "0 \<le> q" "q \<le> expiration" "0 \<le> r" "r < 1000000000"
    using True unfolding q_def r_def by simp_all
  have "- 9223372036854775808 \<le> q \<and> q < 9223372036854775808 \<and> - 2147483648 \<le> r \<and> r < 2147483648"
    using b ok by (simp add: int64_ok_def)
  then show ?thesis using True by (simp add: setExpiry_def dn dur_ok_def int64_ok_def int32_ok_def)
qed (simp add: setExpiry_def)

lemma entry_valid_new_entry:
  "utf8_valid (bytes_of_string key) \<Longrightarrow> ts_ok now \<Longrightarrow> int64_ok expiration \<Longrightarrow>
     entry_valid (new_entry key value now (setExpiry expiration))"
  using dur_ok_setExpiry by (simp add: entry_valid_def new_entry_def)

lemma entry_valid_tombstone: "entry_valid e \<Longrightarrow> ts_ok now \<Longrightarrow> entry_valid (tombstone now e)"
  by (simp add: entry_valid_def tombstone_def)


lemma fsm_eq_node_states: "fsm d = \<lparr>NodeStates = node_states d\<rparr>"
  by (simp add: node_states_def)

lemma fsm_valid_delegate:
  "delegate_ok d \<Longrightarrow> fsm_valid (fsm d) \<longleftrightarrow> view_valid (partitions (node_states d))"
  using fsm_valid_view [of "node_states d"]
  by (simp add: fsm_eq_node_states [of d] delegate_ok_def fsm_ok_remote_ok)

lemma view_valid_merge_view: "view_valid L \<Longrightarrow> view_valid R \<Longrightarrow> view_valid (merge_view L R)"
  by (fastforce simp: view_valid_def merge_view_def lww_def split: option.splits if_splits)

lemma view_valid_Put:
  assumes ok: "delegate_ok d" and v: "view_valid (partitions (node_states d))"
    and k: "utf8_valid (bytes_of_string key)" and e: "entry_valid (new_entry key value now (setExpiry expiration))"
  shows "view_valid (partitions (node_states (Put now key value expiration d)))"
proof -
  have dist: "distinct (map NodeId (node_states d))" using ok by (simp add: delegate_ok_def fsm_ok_def)
  show ?thesis
    using v k e
    by (fastforce simp: Put_def Let_def partitions_put_overwrite partitions_put_local [OF dist]
          view_valid_def split: if_splits)
qed

lemma view_valid_Delete:
  assumes ok: "delegate_ok d" and v: "view_valid (partitions (node_states d))" and now: "ts_ok now"
  shows "view_valid (partitions (node_states (Delete now key d)))"
  using v entry_valid_tombstone [OF _ now]
  by (fastforce simp: partitions_Delete [OF ok] view_valid_def split: if_splits)

lemma LocalState_bytes_valid:
  assumes v: "fsm_valid (fsm d)" and len: "length (LocalState_bytes join d) < 2 ^ 63"
  shows "Unmarshal_FSM (LocalState_bytes join d) = LocalState join' d"
proof -
  have enc: "LocalState_bytes join d = enc_FSM (fsm d)"
    using fsm_valid_utf8 [OF v] by (simp add: LocalState_bytes_def)
  have "length (enc_FSM (fsm d)) < 2 ^ 64" using len unfolding enc by simp
  then show ?thesis using dec_enc_FSM [OF v] by (simp add: Unmarshal_FSM_dec enc LocalState_def)
qed

lemma fsm_valid_MergeRemoteState:
  assumes ok: "delegate_ok d" and okr: "delegate_ok r" and vd: "fsm_valid (fsm d)" and vr: "fsm_valid (fsm r)"
    and ord: "merge_order_ok order (LocalState False r) d"
  shows "fsm_valid (fsm (MergeRemoteState order (LocalState False r) d))"
proof -
  have rem: "remote_ok (NodeStates (LocalState False r))" using okr by (rule remote_ok_LocalState)
  have "view_valid (partitions (node_states (MergeRemoteState order (LocalState False r) d)))"
    using partitions_MergeRemoteState [OF ok rem ord] view_valid_merge_view
      fsm_valid_delegate [OF ok] fsm_valid_delegate [OF okr] vd vr
    by (simp add: LocalState_def node_states_def)
  then show ?thesis
    using fsm_valid_delegate [OF delegate_ok_MergeRemoteState [OF ok rem ord]] by simp
qed


lemma cluster_valid_upd [simp]:
  "cluster_valid C \<Longrightarrow> fsm_valid (fsm d) \<Longrightarrow> cluster_valid (C(n \<mapsto> d))"
  by (simp add: cluster_valid_def)

lemma cluster_ok_lookup:
  "cluster_ok C \<Longrightarrow> C n = Some d \<Longrightarrow> delegate_ok d"
  by (simp add: cluster_ok_def)

lemma cluster_valid_lookup:
  "cluster_valid C \<Longrightarrow> C n = Some d \<Longrightarrow> fsm_valid (fsm d)"
  by (simp add: cluster_valid_def)

lemma fsm_valid_newDelegate:
  "utf8_valid (bytes_of_string n) \<Longrightarrow> fsm_valid (fsm (newDelegate n meta))"
  by (simp add: newDelegate_def fsm_valid_def node_valid_def)

lemma push_pull_bytes_eq:
  assumes va: "fsm_valid (fsm da)" and vb: "fsm_valid (fsm db)"
    and la: "length (LocalState_bytes False da) < 2 ^ 63" and lb: "length (LocalState_bytes False db) < 2 ^ 63"
  shows "push_pull_bytes order_a order_b da db = push_pull order_a order_b da db"
  using LocalState_bytes_valid [OF va la, of False] LocalState_bytes_valid [OF vb lb, of False]
  by (simp add: push_pull_bytes_def push_pull_def MergeRemoteState_bytes_def)

lemma wire_step_refines:
  assumes step: "wire_step C C'" and ok: "wire_ok C"
  shows "cluster_step C C' \<and> wire_ok C'"
proof -
  have cok: "cluster_ok C" and cv: "cluster_valid C" using ok by (simp_all add: wire_ok_def)
  from step have "cluster_step C C' \<and> cluster_valid C'"
  proof cases
    case (join n meta)
    then show ?thesis using cv by (simp add: cluster_step.join fsm_valid_newDelegate)
  next
    case (put n d key now expiration "value")
    have okd: "delegate_ok d" using cluster_ok_lookup [OF cok put(2)] .
    have "fsm_valid (fsm (Put now key value expiration d))"
      using fsm_valid_delegate [OF Put_ok [OF okd]] fsm_valid_delegate [OF okd]
        cluster_valid_lookup [OF cv put(2)] view_valid_Put [OF okd] entry_valid_new_entry put(3-5)
      by simp
    then show ?thesis using put cv by (simp add: cluster_step.put)
  next
    case (delete n d now key)
    have okd: "delegate_ok d" using cluster_ok_lookup [OF cok delete(2)] .
    have "fsm_valid (fsm (Delete now key d))"
      using fsm_valid_delegate [OF Delete_ok [OF okd]] fsm_valid_delegate [OF okd]
        cluster_valid_lookup [OF cv delete(2)] view_valid_Delete [OF okd _ delete(3)]
      by simp
    then show ?thesis using delete cv by (simp add: cluster_step.delete)
  next
    case (exchange a da b db order_a order_b da' db')
    have oka: "delegate_ok da" and okb: "delegate_ok db"
      using cluster_ok_lookup [OF cok] exchange(2,3) by blast+
    have va: "fsm_valid (fsm da)" and vb: "fsm_valid (fsm db)"
      using cluster_valid_lookup [OF cv] exchange(2,3) by blast+
    have ra: "Unmarshal_FSM (LocalState_bytes False da) = LocalState False da"
      and rb: "Unmarshal_FSM (LocalState_bytes False db) = LocalState False db"
      using LocalState_bytes_valid [OF va exchange(5)] LocalState_bytes_valid [OF vb exchange(6)] by blast+
    have orda: "merge_order_ok order_a (LocalState False db) da"
      and ordb: "merge_order_ok order_b (LocalState False da) db"
      using exchange(7,8) unfolding ra rb by blast+
    have pp: "push_pull order_a order_b da db = (da', db')"
      using exchange(9) push_pull_bytes_eq [OF va vb exchange(5,6)] by simp
    have "cluster_step C (C(a \<mapsto> da', b \<mapsto> db'))"
      by (rule cluster_step.exchange [OF exchange(2,3,4) orda ordb pp])
    moreover have "fsm_valid (fsm da')" and "fsm_valid (fsm db')"
      using pp fsm_valid_MergeRemoteState [OF oka okb va vb orda]
        fsm_valid_MergeRemoteState [OF okb oka vb va ordb]
      by (auto simp: push_pull_def)
    ultimately show ?thesis using exchange(1) cv by simp
  qed
  then show ?thesis using cluster_step_ok [OF _ cok] by (simp add: wire_ok_def)
qed

text \<open>
  C24. The cluster in which peers exchange protobuf bytes refines the message-level
  cluster: as long as node names and keys are UTF-8, clocks and durations fit Go's
  int64 and every state sent fits a Go slice, every state the byte-level cluster reaches
  is a state the message-level cluster reaches, and every node's state is well formed
  for the wire. So the properties of reachable clusters hold of the running system.
\<close>

theorem wire_reach_refines_cluster: "wire_reach C \<Longrightarrow> cluster_reach C \<and> wire_ok C"
proof (induction rule: wire_reach.induct)
  case empty
  show ?case by (simp add: cluster_reach.empty wire_ok_def cluster_ok_def cluster_valid_def)
next
  case (step C C')
  then show ?case using wire_step_refines [of C C'] cluster_reach.step by blast
qed

theorem wire_reach_refines_cluster_witness:
  "wire_reach [''n1'' \<mapsto> newDelegate ''n1'' (test_meta ''n1'')] \<and>
   cluster_reach [''n1'' \<mapsto> newDelegate ''n1'' (test_meta ''n1'')] \<and>
   wire_ok [''n1'' \<mapsto> newDelegate ''n1'' (test_meta ''n1'')]"
proof -
  have "utf8_valid (bytes_of_string ''n1'')" by (rule utf8_valid_ascii) (simp add: bytes_of_string_def)
  then have "wire_step Map.empty [''n1'' \<mapsto> newDelegate ''n1'' (test_meta ''n1'')]"
    using wire_step.join [of Map.empty "''n1''" "test_meta ''n1''"] by simp
  then have w: "wire_reach [''n1'' \<mapsto> newDelegate ''n1'' (test_meta ''n1'')]"
    by (rule wire_reach.step [OF wire_reach.empty])
  then show ?thesis using wire_reach_refines_cluster [OF w] by blast
qed

end
