(* ===== verification/RPC.thy ===== *)
theory RPC
  imports Service Descriptor
begin

text \<open>
  The gRPC messages of \<open>KVService\<close> (gokv.pb.go: \<open>GetRequest\<close> ... \<open>ListResponse\<close>) on the
  wire, and a unary call through the wire.  \<open>fields_X\<close> lays out message X by its
  struct tags (field number and wire type), omitting proto3 zero values; \<open>build_X\<close>
  reads X back from parsed fields, the last occurrence of a scalar winning, occurrences
  of a message field concatenated, a non-UTF-8 string rejected.  \<open>marshal\<close> fails on a
  non-UTF-8 string, as proto.Marshal does for proto3 strings.  \<open>unary_call\<close> is a
  client call: marshal the request, unmarshal it at the server, run the handler of
  Service, marshal the response, unmarshal it at the client; each failing stage is a
  constructor of \<open>RPCError\<close>.  The lemmas show that each call refines the direct call
  of the handler when the strings are UTF-8 and the messages fit the 64-bit length
  prefix, that a non-UTF-8 key fails before the server's state changes, and that the
  layouts agree with the message descriptors of the embedded \<open>rawDesc\<close>.
\<close>

subsection \<open>Message layouts\<close>

definition dec_string_field :: "nat \<Rightarrow> field list \<Rightarrow> string option" where
  "dec_string_field n fs =
     (if list_all utf8_valid (payloads n fs) then Some (string_of_bytes (last_or [] (payloads n fs)))
      else None)"

definition fields_GetRequest :: "GetRequest \<Rightarrow> field list" where
  "fields_GetRequest r = string_field 1 (GetRequest_Key r)"

definition build_GetRequest :: "field list \<Rightarrow> GetRequest option" where
  "build_GetRequest fs = map_option (\<lambda>k. \<lparr>GetRequest_Key = k\<rparr>) (dec_string_field 1 fs)"

definition fields_GetResponse :: "GetResponse \<Rightarrow> field list" where
  "fields_GetResponse r = message_field 1 enc_Entry (GetResponse_Entry r)"

definition build_GetResponse :: "field list \<Rightarrow> GetResponse option" where
  "build_GetResponse fs = map_option (\<lambda>e. \<lparr>GetResponse_Entry = e\<rparr>) (sub_message dec_Entry (payloads 1 fs))"

definition fields_PutRequest :: "PutRequest \<Rightarrow> field list" where
  "fields_PutRequest r =
     string_field 1 (PutRequest_Key r) @ bytes_field 2 (PutRequest_Value r) @
     message_field 3 enc_Duration (PutRequest_Expiry r)"

definition build_PutRequest :: "field list \<Rightarrow> PutRequest option" where
  "build_PutRequest fs =
     (case (dec_string_field 1 fs, sub_message dec_Duration (payloads 3 fs)) of
        (Some k, Some x) \<Rightarrow>
          Some \<lparr>PutRequest_Key = k, PutRequest_Value = last_or [] (payloads 2 fs), PutRequest_Expiry = x\<rparr>
      | _ \<Rightarrow> None)"

definition fields_PutResponse :: "PutResponse \<Rightarrow> field list" where
  "fields_PutResponse r = []"

definition build_PutResponse :: "field list \<Rightarrow> PutResponse option" where
  "build_PutResponse fs = Some PutResponse"

definition fields_DeleteRequest :: "DeleteRequest \<Rightarrow> field list" where
  "fields_DeleteRequest r = string_field 1 (DeleteRequest_Key r)"

definition build_DeleteRequest :: "field list \<Rightarrow> DeleteRequest option" where
  "build_DeleteRequest fs = map_option (\<lambda>k. \<lparr>DeleteRequest_Key = k\<rparr>) (dec_string_field 1 fs)"

definition fields_DeleteResponse :: "DeleteResponse \<Rightarrow> field list" where
  "fields_DeleteResponse r = []"

definition build_DeleteResponse :: "field list \<Rightarrow> DeleteResponse option" where
  "build_DeleteResponse fs = Some DeleteResponse"

definition fields_KeyExistsRequest :: "KeyExistsRequest \<Rightarrow> field list" where
  "fields_KeyExistsRequest r = string_field 1 (KeyExistsRequest_Key r)"

definition build_KeyExistsRequest :: "field list \<Rightarrow> KeyExistsRequest option" where
  "build_KeyExistsRequest fs = map_option (\<lambda>k. \<lparr>KeyExistsRequest_Key = k\<rparr>) (dec_string_field 1 fs)"

definition fields_KeyExistResponse :: "KeyExistResponse \<Rightarrow> field list" where
  "fields_KeyExistResponse r = (if KeyExistResponse_Exists r then [(1, WVarint 1)] else [])"

definition build_KeyExistResponse :: "field list \<Rightarrow> KeyExistResponse option" where
  "build_KeyExistResponse fs = Some \<lparr>KeyExistResponse_Exists = (last_or 0 (varints 1 fs) \<noteq> 0)\<rparr>"

definition fields_ListRequest :: "ListRequest \<Rightarrow> field list" where
  "fields_ListRequest r = []"

definition build_ListRequest :: "field list \<Rightarrow> ListRequest option" where
  "build_ListRequest fs = Some ListRequest"

definition fields_ListResponse :: "ListResponse \<Rightarrow> field list" where
  "fields_ListResponse r = map (\<lambda>e. (1, WBytes (enc_Entry e))) (ListResponse_Entries r)"

definition build_ListResponse :: "field list \<Rightarrow> ListResponse option" where
  "build_ListResponse fs = map_option (\<lambda>es. \<lparr>ListResponse_Entries = es\<rparr>) (dec_list dec_Entry (payloads 1 fs))"

subsection \<open>Marshalling and the unary call\<close>

definition marshal :: "string list \<Rightarrow> field list \<Rightarrow> byte list option" where
  "marshal strs fs = (if list_all (\<lambda>s. utf8_valid (bytes_of_string s)) strs then Some (enc_fields fs) else None)"

definition unmarshal :: "(field list \<Rightarrow> 'm option) \<Rightarrow> byte list \<Rightarrow> 'm option" where
  "unmarshal build bs = Option.bind (parse_fields bs) build"

definition marshal_GetRequest :: "GetRequest \<Rightarrow> byte list option" where
  "marshal_GetRequest r = marshal [GetRequest_Key r] (fields_GetRequest r)"

definition marshal_GetResponse :: "GetResponse \<Rightarrow> byte list option" where
  "marshal_GetResponse r = marshal (case GetResponse_Entry r of None \<Rightarrow> [] | Some e \<Rightarrow> [Key e]) (fields_GetResponse r)"

definition marshal_PutRequest :: "PutRequest \<Rightarrow> byte list option" where
  "marshal_PutRequest r = marshal [PutRequest_Key r] (fields_PutRequest r)"

definition marshal_PutResponse :: "PutResponse \<Rightarrow> byte list option" where
  "marshal_PutResponse r = marshal [] (fields_PutResponse r)"

definition marshal_KeyExistsRequest :: "KeyExistsRequest \<Rightarrow> byte list option" where
  "marshal_KeyExistsRequest r = marshal [KeyExistsRequest_Key r] (fields_KeyExistsRequest r)"

definition marshal_KeyExistResponse :: "KeyExistResponse \<Rightarrow> byte list option" where
  "marshal_KeyExistResponse r = marshal [] (fields_KeyExistResponse r)"

definition marshal_DeleteRequest :: "DeleteRequest \<Rightarrow> byte list option" where
  "marshal_DeleteRequest r = marshal [DeleteRequest_Key r] (fields_DeleteRequest r)"

definition marshal_DeleteResponse :: "DeleteResponse \<Rightarrow> byte list option" where
  "marshal_DeleteResponse r = marshal [] (fields_DeleteResponse r)"

definition marshal_ListRequest :: "ListRequest \<Rightarrow> byte list option" where
  "marshal_ListRequest r = marshal [] (fields_ListRequest r)"

definition marshal_ListResponse :: "ListResponse \<Rightarrow> byte list option" where
  "marshal_ListResponse r = marshal (map Key (ListResponse_Entries r)) (fields_ListResponse r)"

datatype RPCError = RequestMarshal | RequestUnmarshal | HandlerError GoError | ResponseMarshal | ResponseUnmarshal

definition unary_call ::
  "('q \<Rightarrow> byte list option) \<Rightarrow> (byte list \<Rightarrow> 'q option) \<Rightarrow> ('r \<Rightarrow> byte list option) \<Rightarrow>
   (byte list \<Rightarrow> 'r option) \<Rightarrow> ('q \<Rightarrow> 's \<Rightarrow> (GoError + 'r) \<times> 's) \<Rightarrow> 'q \<Rightarrow> 's \<Rightarrow> (RPCError + 'r) \<times> 's" where
  "unary_call mq uq mr ur h req s =
     (case mq req of
        None \<Rightarrow> (Inl RequestMarshal, s)
      | Some bq \<Rightarrow>
          (case uq bq of
             None \<Rightarrow> (Inl RequestUnmarshal, s)
           | Some req' \<Rightarrow>
               (case h req' s of
                  (Inl err, s') \<Rightarrow> (Inl (HandlerError err), s')
                | (Inr resp, s') \<Rightarrow>
                    (case mr resp of
                       None \<Rightarrow> (Inl ResponseMarshal, s')
                     | Some br \<Rightarrow>
                         (case ur br of
                            None \<Rightarrow> (Inl ResponseUnmarshal, s')
                          | Some resp' \<Rightarrow> (Inr resp', s'))))))"

definition rpc_Put :: "Timestamp \<Rightarrow> PutRequest \<Rightarrow> Delegate \<Rightarrow> (RPCError + PutResponse) \<times> Delegate" where
  "rpc_Put now req d =
     unary_call marshal_PutRequest (unmarshal build_PutRequest) marshal_PutResponse (unmarshal build_PutResponse)
       (\<lambda>q s. case KVService_Put now q s of (resp, s') \<Rightarrow> (Inr resp, s')) req d"

definition rpc_Get :: "Timestamp \<Rightarrow> GetRequest \<Rightarrow> Delegate \<Rightarrow> (RPCError + GetResponse) \<times> Delegate" where
  "rpc_Get now req d =
     unary_call marshal_GetRequest (unmarshal build_GetRequest) marshal_GetResponse (unmarshal build_GetResponse)
       (\<lambda>q s. (KVService_Get now q s, s)) req d"

definition rpc_KeyExists ::
  "Timestamp \<Rightarrow> KeyExistsRequest \<Rightarrow> Delegate \<Rightarrow> (RPCError + KeyExistResponse) \<times> Delegate" where
  "rpc_KeyExists now req d =
     unary_call marshal_KeyExistsRequest (unmarshal build_KeyExistsRequest) marshal_KeyExistResponse
       (unmarshal build_KeyExistResponse) (\<lambda>q s. (Inr (KVService_KeyExists now q s), s)) req d"

definition rpc_Delete :: "Timestamp \<Rightarrow> DeleteRequest \<Rightarrow> Delegate \<Rightarrow> (RPCError + DeleteResponse) \<times> Delegate" where
  "rpc_Delete now req d =
     unary_call marshal_DeleteRequest (unmarshal build_DeleteRequest) marshal_DeleteResponse
       (unmarshal build_DeleteResponse) (\<lambda>q s. case KVService_Delete now q s of (resp, s') \<Rightarrow> (Inr resp, s')) req d"

definition rpc_List :: "Timestamp \<Rightarrow> ListRequest \<Rightarrow> Delegate \<Rightarrow> (RPCError + ListResponse) \<times> Delegate" where
  "rpc_List now req d =
     unary_call marshal_ListRequest (unmarshal build_ListRequest) marshal_ListResponse
       (unmarshal build_ListResponse) (\<lambda>q s. (Inr (KVService_List now q s), s)) req d"

subsection \<open>Round trips and length bounds\<close>

lemma dec_string_field_single:
  "utf8_valid (bytes_of_string s) \<Longrightarrow> dec_string_field n (string_field n s) = Some s"
  by (simp add: dec_string_field_def)

lemma unmarshal_enc:
  "fields_ok fs \<Longrightarrow> unmarshal build (enc_fields fs) = build fs"
  by (simp add: unmarshal_def parse_enc_fields)

lemma fields_ok_string_field [simp]:
  "0 < n \<Longrightarrow> n < 2 ^ 29 \<Longrightarrow> length (bytes_of_string s) < 2 ^ 64 \<Longrightarrow> fields_ok (string_field n s)"
  by (simp add: string_field_def fields_ok_bytes_field)

lemma payloads_map_bytes [simp]: "payloads n (map (\<lambda>x. (n, WBytes (f x))) xs) = map f xs"
  by (induction xs) simp_all

lemma unmarshal_string_message:
  assumes "utf8_valid (bytes_of_string s)" and "length (enc_fields (string_field 1 s)) < 2 ^ 64"
  shows "unmarshal (\<lambda>fs. map_option f (dec_string_field 1 fs)) (enc_fields (string_field 1 s)) = Some (f s)"
proof -
  have "fields_ok (string_field 1 s)"
    by (rule fields_ok_bounded) (use assms(2) in \<open>auto simp: string_field_def bytes_field_def\<close>)
  then show ?thesis using assms(1) by (simp add: unmarshal_enc dec_string_field_single)
qed

lemma roundtrip_PutRequest:
  assumes k: "utf8_valid (bytes_of_string (PutRequest_Key r))" and x: "pred_option dur_ok (PutRequest_Expiry r)"
    and len: "length (enc_fields (fields_PutRequest r)) < 2 ^ 64"
  shows "unmarshal build_PutRequest (enc_fields (fields_PutRequest r)) = Some r"
proof -
  have "fields_ok (fields_PutRequest r)"
    by (rule fields_ok_bounded)
       (use len in \<open>auto simp: fields_PutRequest_def string_field_def bytes_field_def message_field_def
          split: option.splits\<close>)
  then show ?thesis using k x
    by (cases r) (auto simp: unmarshal_enc build_PutRequest_def fields_PutRequest_def dec_string_field_def
        dec_enc_Duration split: option.splits)
qed

lemma roundtrip_GetResponse:
  assumes e: "pred_option entry_valid (GetResponse_Entry r)"
    and len: "length (enc_fields (fields_GetResponse r)) < 2 ^ 64"
  shows "unmarshal build_GetResponse (enc_fields (fields_GetResponse r)) = Some r"
proof -
  have "fields_ok (fields_GetResponse r)"
    by (rule fields_ok_bounded)
       (use len in \<open>auto simp: fields_GetResponse_def message_field_def split: option.splits\<close>)
  moreover have "pred_option (\<lambda>x. length (enc_Entry x) < 2 ^ 64) (GetResponse_Entry r)"
    using len payload_shorter [of 1 _ "fields_GetResponse r"]
    by (auto simp: fields_GetResponse_def message_field_def split: option.splits)
  ultimately show ?thesis using e
    by (cases r) (auto simp: unmarshal_enc build_GetResponse_def fields_GetResponse_def message_field_def
        dec_enc_Entry split: option.splits)
qed

lemma roundtrip_ListResponse:
  assumes e: "list_all entry_valid (ListResponse_Entries r)"
    and len: "length (enc_fields (fields_ListResponse r)) < 2 ^ 64"
  shows "unmarshal build_ListResponse (enc_fields (fields_ListResponse r)) = Some r"
proof -
  have "fields_ok (fields_ListResponse r)"
    by (rule fields_ok_bounded) (use len in \<open>auto simp: fields_ListResponse_def\<close>)
  moreover have "\<forall>x \<in> set (ListResponse_Entries r). dec_Entry (enc_Entry x) = Some x"
    using e len payload_shorter [of 1 _ "fields_ListResponse r"]
    by (fastforce simp: fields_ListResponse_def list_all_iff intro: dec_enc_Entry)
  ultimately show ?thesis
    by (cases r) (simp add: unmarshal_enc build_ListResponse_def fields_ListResponse_def dec_list_map)
qed

lemma roundtrip_KeyExistResponse:
  "unmarshal build_KeyExistResponse (enc_fields (fields_KeyExistResponse r)) = Some r"
  by (cases r) (simp add: unmarshal_def build_KeyExistResponse_def fields_KeyExistResponse_def
      enc_fields_def parse_fields.simps parse_field_def parse_value_def)

lemma unary_call_transparent:
  assumes "mq req = Some bq" and "uq bq = Some req"
    and "\<And>r. fst (h req s) = Inr r \<Longrightarrow> \<exists>br. mr r = Some br \<and> ur br = Some r"
  shows "unary_call mq uq mr ur h req s = (map_sum HandlerError id (fst (h req s)), snd (h req s))"
  using assms by (cases "h req s") (auto simp: unary_call_def split: sum.splits option.splits)

lemma enc_varint_length: "n < 2 ^ (7 * Suc k) \<Longrightarrow> length (enc_varint n) \<le> Suc k"
proof (induction k arbitrary: n)
  case 0
  then show ?case by simp
next
  case (Suc k)
  show ?case
  proof (cases "n < 128")
    case False
    have "n div 128 < 2 ^ (7 * Suc k)"
      using Suc.prems by (simp add: div_less_iff_less_mult power_add mult.commute)
    then show ?thesis using Suc.IH [of "n div 128"] False by simp
  qed simp
qed

lemma enc_bytes_field_length:
  "n < 16 \<Longrightarrow> length bs < 2 ^ 63 \<Longrightarrow> length (enc_fields [(n, WBytes bs)]) < 2 ^ 64"
proof -
  assume n: "n < 16" and l: "length bs < 2 ^ 63"
  have "length (enc_varint (n * 8 + 2)) \<le> 1" using n by simp
  moreover have "length (enc_varint (length bs)) \<le> 10"
    using enc_varint_length [of "length bs" 9] l by simp
  ultimately show ?thesis using l by (simp add: enc_fields_def)
qed

lemma enc_Entry_shorter:
  assumes "ns \<in> set (NodeStates f)" and "(k, e) \<in> set (Entries ns)"
  shows "length (enc_Entry e) < length (enc_FSM f)"
proof -
  have "length (enc_Entry e) < length (enc_fields (fields_MapEntry (k, e)))"
    using payload_shorter [of 2 "enc_Entry e" "fields_MapEntry (k, e)"] by (simp add: fields_MapEntry_def)
  also have "\<dots> < length (enc_NodeState ns)"
    using payload_shorter [of 2 "enc_fields (fields_MapEntry (k, e))" "fields_NodeState ns"] assms(2)
    by (force simp: fields_NodeState_def enc_NodeState_def)
  also have "\<dots> < length (enc_FSM f)"
    using payload_shorter [of 1 "enc_NodeState ns" "fields_FSM f"] assms(1)
    by (force simp: fields_FSM_def enc_FSM_def)
  finally show ?thesis .
qed

lemma unmarshal_empty [simp]: "unmarshal build [] = build []"
  by (simp add: unmarshal_def parse_fields.simps [of "[]"])

lemma Get_entry_valid:
  assumes "fsm_valid (fsm d)" and "Get now key d = Inr e"
  shows "entry_valid e \<and> length (enc_Entry e) < length (enc_FSM (fsm d))"
proof -
  from assms(2) have "find_entry key (NodeStates (fsm d)) = Some e"
    by (auto simp: Get_def node_states_def split: option.splits if_splits)
  then obtain ns where ns: "ns \<in> set (NodeStates (fsm d))" and ke: "(key, e) \<in> set (Entries ns)"
    using find_entry_in_Entries by blast
  have "entry_valid e" using assms(1) ns ke by (fastforce simp: fsm_valid_def node_valid_def)
  then show ?thesis using enc_Entry_shorter [OF ns ke] by simp
qed

text \<open>
  C26. A Put sent over gRPC refines the direct call of the handler: when the key is
  UTF-8, the expiry is a well-formed Duration and the request fits the length prefix,
  the client receives PutResponse and the server's delegate is the result of Put with
  the request's key, value and expiry, exactly as if the handler had been called directly.
\<close>

theorem rpc_Put_refines:
  assumes "utf8_valid (bytes_of_string (PutRequest_Key req))" and "pred_option dur_ok (PutRequest_Expiry req)"
    and "length (enc_fields (fields_PutRequest req)) < 2 ^ 64"
  shows "rpc_Put now req d =
           (Inr PutResponse, Put now (PutRequest_Key req) (PutRequest_Value req) (AsDuration (PutRequest_Expiry req)) d)"
proof -
  have "unmarshal build_PutRequest (enc_fields (fields_PutRequest req)) = Some req"
    using assms by (rule roundtrip_PutRequest)
  then show ?thesis using assms(1)
    by (subst rpc_Put_def, subst unary_call_transparent)
       (auto simp: marshal_PutRequest_def marshal_PutResponse_def marshal_def fields_PutResponse_def
          build_PutResponse_def KVService_Put_def enc_fields_def)
qed

text \<open>
  C27. A Get over gRPC returns what the handler returns: when the key is UTF-8 and the
  server's FSM is well formed with an encoding shorter than 2^63 bytes, the client gets
  the handler's response (the found entry survives marshalling and unmarshalling) or the
  handler's error, and the server's state is unchanged.
\<close>

theorem rpc_Get_refines:
  assumes k: "utf8_valid (bytes_of_string (GetRequest_Key req))"
    and lq: "length (enc_fields (fields_GetRequest req)) < 2 ^ 64"
    and v: "fsm_valid (fsm d)" and ld: "length (enc_FSM (fsm d)) < 2 ^ 63"
  shows "rpc_Get now req d = (map_sum HandlerError id (KVService_Get now req d), d)"
proof -
  have q: "unmarshal build_GetRequest (enc_fields (fields_GetRequest req)) = Some req"
    using unmarshal_string_message [of "GetRequest_Key req" "\<lambda>k. \<lparr>GetRequest_Key = k\<rparr>"] k lq
    by (cases req) (simp add: build_GetRequest_def [abs_def] fields_GetRequest_def)
  have r: "\<exists>br. marshal_GetResponse r = Some br \<and> unmarshal build_GetResponse br = Some r"
    if h: "KVService_Get now req d = Inr r" for r
  proof -
    obtain e where g: "Get now (GetRequest_Key req) d = Inr e" and r: "r = \<lparr>GetResponse_Entry = Some e\<rparr>"
      using h by (cases "Get now (GetRequest_Key req) d") (auto simp: KVService_Get_def)
    have e: "entry_valid e" and le: "length (enc_Entry e) < 2 ^ 63"
      using Get_entry_valid [OF v g] ld by auto
    have "length (enc_fields (fields_GetResponse r)) < 2 ^ 64"
      using enc_bytes_field_length [of 1 "enc_Entry e"] le
      by (simp add: r fields_GetResponse_def message_field_def)
    then show ?thesis using roundtrip_GetResponse [of r] e
      by (simp add: r marshal_GetResponse_def marshal_def entry_valid_def)
  qed
  show ?thesis using k q r
    by (subst rpc_Get_def, subst unary_call_transparent)
       (auto simp: marshal_GetRequest_def marshal_def)
qed

lemma rpc_KeyExists_refines:
  assumes "utf8_valid (bytes_of_string (KeyExistsRequest_Key req))"
    and "length (enc_fields (fields_KeyExistsRequest req)) < 2 ^ 64"
  shows "rpc_KeyExists now req d = (Inr (KVService_KeyExists now req d), d)"
proof -
  have q: "unmarshal build_KeyExistsRequest (enc_fields (fields_KeyExistsRequest req)) = Some req"
    using unmarshal_string_message [of "KeyExistsRequest_Key req" "\<lambda>k. \<lparr>KeyExistsRequest_Key = k\<rparr>"] assms
    by (cases req) (simp add: build_KeyExistsRequest_def [abs_def] fields_KeyExistsRequest_def)
  have "unmarshal build_KeyExistResponse (enc_fields (fields_KeyExistResponse r)) = Some r" for r
  proof -
    have "fields_ok (fields_KeyExistResponse r)"
      by (simp add: fields_KeyExistResponse_def fields_ok_def field_ok_def)
    then show ?thesis by (cases r) (simp add: unmarshal_enc fields_KeyExistResponse_def build_KeyExistResponse_def)
  qed
  then show ?thesis using assms(1) q
    by (subst rpc_KeyExists_def, subst unary_call_transparent)
       (auto simp: marshal_KeyExistsRequest_def marshal_KeyExistResponse_def marshal_def)
qed

lemma length_enc_fields_append [simp]: "length (enc_fields (xs @ ys)) = length (enc_fields xs) + length (enc_fields ys)"
  by (simp add: enc_fields_def)

lemma length_enc_fields_Cons [simp]: "length (enc_fields (x # xs)) = length (enc_field x) + length (enc_fields xs)"
  by (simp add: enc_fields_def)

lemma entry_field_shorter:
  "length (enc_field (1, WBytes (enc_Entry e))) < length (enc_field (2, WBytes (enc_fields (fields_MapEntry (k, e)))))"
proof -
  have "length (enc_field (1, WBytes (enc_Entry e))) = length (enc_field (2, WBytes (enc_Entry e)))"
    by (simp add: enc_varint.simps)
  also have "\<dots> \<le> length (enc_fields (fields_MapEntry (k, e)))"
    by (simp add: fields_MapEntry_def)
  also have "\<dots> < length (enc_field (2, WBytes (enc_fields (fields_MapEntry (k, e)))))"
    by simp
  finally show ?thesis .
qed

lemma entries_list_shorter:
  "length (enc_fields (map (\<lambda>e. (1, WBytes (enc_Entry e))) (filter P (map snd es))))
     \<le> length (enc_fields (map (\<lambda>p. (2, WBytes (enc_fields (fields_MapEntry p)))) es))"
proof (induction es)
  case (Cons p es)
  then show ?case using entry_field_shorter [of "snd p" "fst p"] by (cases p) auto
qed (simp add: enc_fields_def)

lemma List_entries_shorter:
  "length (enc_fields (fields_ListResponse \<lparr>ListResponse_Entries = List_entries now d\<rparr>)) \<le> length (enc_FSM (fsm d))"
proof -
  have "length (enc_fields (map (\<lambda>e. (1, WBytes (enc_Entry e)))
          (concat (map (\<lambda>ns. filter (\<lambda>entry. \<not> expired now entry) (map snd (Entries ns))) nss))))
        \<le> length (enc_fields (map (\<lambda>ns. (1, WBytes (enc_NodeState ns))) nss))" for nss
  proof (induction nss)
    case (Cons ns nss)
    have "length (enc_fields (map (\<lambda>e. (1, WBytes (enc_Entry e))) (filter (\<lambda>entry. \<not> expired now entry)
            (map snd (Entries ns))))) \<le> length (enc_NodeState ns)"
      using entries_list_shorter [of "\<lambda>entry. \<not> expired now entry" "Entries ns"]
      by (simp add: enc_NodeState_def fields_NodeState_def)
    then show ?case using Cons.IH by simp
  qed (simp add: enc_fields_def)
  then show ?thesis
    by (simp add: fields_ListResponse_def List_entries_def enc_FSM_def fields_FSM_def node_states_def)
qed

lemma List_entries_valid:
  assumes "fsm_valid (fsm d)"
  shows "list_all entry_valid (List_entries now d)"
  using assms by (fastforce simp: List_entries_def list_all_iff fsm_valid_def node_valid_def node_states_def)

text \<open>
  A Delete over gRPC refines the direct call: when the key is UTF-8 and the request
  fits the length prefix, the client receives DeleteResponse and the server's delegate
  is the result of Delete with the request's key.
\<close>

theorem rpc_Delete_refines:
  assumes "utf8_valid (bytes_of_string (DeleteRequest_Key req))"
    and "length (enc_fields (fields_DeleteRequest req)) < 2 ^ 64"
  shows "rpc_Delete now req d = (Inr DeleteResponse, Delete now (DeleteRequest_Key req) d)"
proof -
  have q: "unmarshal build_DeleteRequest (enc_fields (fields_DeleteRequest req)) = Some req"
    using unmarshal_string_message [of "DeleteRequest_Key req" "\<lambda>k. \<lparr>DeleteRequest_Key = k\<rparr>"] assms
    by (cases req) (simp add: build_DeleteRequest_def [abs_def] fields_DeleteRequest_def)
  then show ?thesis using assms(1)
    by (subst rpc_Delete_def, subst unary_call_transparent)
       (auto simp: marshal_DeleteRequest_def marshal_DeleteResponse_def marshal_def fields_DeleteResponse_def
          build_DeleteResponse_def KVService_Delete_def enc_fields_def)
qed

text \<open>
  C28. A List over gRPC returns the handler's list: when the server's FSM is well formed
  and its encoding fits the length prefix, the ListResponse that reaches the client holds
  exactly the unexpired entries of every partition, in order, and the server's state
  is unchanged.
\<close>

theorem rpc_List_refines:
  assumes v: "fsm_valid (fsm d)" and l: "length (enc_FSM (fsm d)) < 2 ^ 64"
  shows "rpc_List now req d = (Inr (KVService_List now req d), d)"
proof -
  let ?r = "KVService_List now req d"
  have e: "list_all entry_valid (ListResponse_Entries ?r)"
    using List_entries_valid [OF v] by (simp add: KVService_List_def)
  have "length (enc_fields (fields_ListResponse ?r)) < 2 ^ 64"
    using List_entries_shorter [of now d] l by (simp add: KVService_List_def)
  then have "unmarshal build_ListResponse (enc_fields (fields_ListResponse ?r)) = Some ?r"
    using e by (rule roundtrip_ListResponse [rotated])
  moreover have "list_all (\<lambda>s. utf8_valid (bytes_of_string s)) (map Key (ListResponse_Entries ?r))"
    using e by (simp add: list_all_iff entry_valid_def)
  ultimately show ?thesis
    by (cases req, subst rpc_List_def, subst unary_call_transparent)
       (auto simp: marshal_ListRequest_def marshal_ListResponse_def marshal_def fields_ListRequest_def
          build_ListRequest_def enc_fields_def)
qed

lemma declared_fields_rpc:
  "declared_fields ''GetRequest'' = [(1, 2)]"
  "declared_fields ''GetResponse'' = [(1, 2)]"
  "declared_fields ''PutRequest'' = [(1, 2), (2, 2), (3, 2)]"
  "declared_fields ''PutResponse'' = []"
  "declared_fields ''DeleteRequest'' = [(1, 2)]"
  "declared_fields ''DeleteResponse'' = []"
  "declared_fields ''KeyExistsRequest'' = [(1, 2)]"
  "declared_fields ''KeyExistResponse'' = [(1, 0)]"
  "declared_fields ''ListRequest'' = []"
  "declared_fields ''ListResponse'' = [(1, 2)]"
  by (simp_all add: declared_fields_def rawDesc_is_gokv_proto gokv_proto_def proto_wire_type_def)

text \<open>
  C29. The wire layout of every KVService message uses only field numbers and wire
  types that the message's descriptor, decoded from the embedded rawDesc, declares.
\<close>

theorem rpc_messages_follow_descriptor:
  "agrees ''GetRequest'' (fields_GetRequest gq) \<and> agrees ''GetResponse'' (fields_GetResponse gr) \<and>
   agrees ''PutRequest'' (fields_PutRequest pq) \<and> agrees ''PutResponse'' (fields_PutResponse pr) \<and>
   agrees ''DeleteRequest'' (fields_DeleteRequest dq) \<and> agrees ''DeleteResponse'' (fields_DeleteResponse dr) \<and>
   agrees ''KeyExistsRequest'' (fields_KeyExistsRequest kq) \<and>
   agrees ''KeyExistResponse'' (fields_KeyExistResponse kr) \<and>
   agrees ''ListRequest'' (fields_ListRequest lq) \<and> agrees ''ListResponse'' (fields_ListResponse lr)"
  by (auto simp: fields_GetRequest_def fields_GetResponse_def fields_PutRequest_def fields_PutResponse_def
      fields_DeleteRequest_def fields_DeleteResponse_def fields_KeyExistsRequest_def fields_KeyExistResponse_def
      fields_ListRequest_def fields_ListResponse_def declared_fields_rpc agrees_def string_field_def
      bytes_field_def message_field_def wire_type_def split: option.splits if_splits)

lemma wire_example_len: "length (enc_FSM (fsm wire_example)) < 2 ^ 63"
  by (simp add: wire_example_def Put_def newDelegate_def node_states_def set_node_states_def key_exists_def
      has_key_def setExpiry_def new_entry_def enc_FSM_def fields_FSM_def
      enc_NodeState_def fields_NodeState_def fields_MapEntry_def enc_Entry_def fields_Entry_def
      enc_Timestamp_def fields_Timestamp_def enc_fields_def string_field_def bytes_field_def
      int_field_def bool_field_def message_field_def u64_def bytes_of_string_def enc_varint.simps)

theorem rpc_Put_refines_witness:
  "utf8_valid (bytes_of_string ''k'') \<and>
   rpc_Put \<lparr>Seconds = 100, Nanos = 0\<rparr> \<lparr>PutRequest_Key = ''k'', PutRequest_Value = [7], PutRequest_Expiry = None\<rparr>
     (newDelegate ''n1'' (test_meta ''n1'')) = (Inr PutResponse, wire_example)"
proof -
  let ?q = "\<lparr>PutRequest_Key = ''k'', PutRequest_Value = [7::byte], PutRequest_Expiry = None\<rparr>"
  have u: "utf8_valid (bytes_of_string ''k'')" by (simp add: bytes_of_string_def utf8_accept_def)
  have l: "length (enc_fields (fields_PutRequest ?q)) < 2 ^ 64"
    by (simp add: fields_PutRequest_def string_field_def bytes_field_def message_field_def enc_fields_def
        bytes_of_string_def)
  have a: "AsDuration None = 0" by (simp add: AsDuration_def wrap64_def)
  show ?thesis using u rpc_Put_refines [of ?q, OF _ _ l] by (simp add: a wire_example_def)
qed

theorem rpc_Get_refines_witness:
  "rpc_Get \<lparr>Seconds = 100, Nanos = 0\<rparr> \<lparr>GetRequest_Key = ''k''\<rparr> wire_example =
     (map_sum HandlerError id (KVService_Get \<lparr>Seconds = 100, Nanos = 0\<rparr> \<lparr>GetRequest_Key = ''k''\<rparr> wire_example),
      wire_example)"
proof -
  have u: "utf8_valid (bytes_of_string ''k'')" by (simp add: bytes_of_string_def utf8_accept_def)
  have l: "length (enc_fields (fields_GetRequest \<lparr>GetRequest_Key = ''k''\<rparr>)) < 2 ^ 64"
    by (simp add: fields_GetRequest_def string_field_def bytes_field_def enc_fields_def bytes_of_string_def)
  show ?thesis using rpc_Get_refines [OF _ l _ wire_example_len] u wire_example_ok by simp
qed

theorem rpc_List_refines_witness:
  "rpc_List \<lparr>Seconds = 100, Nanos = 0\<rparr> ListRequest wire_example =
     (Inr (KVService_List \<lparr>Seconds = 100, Nanos = 0\<rparr> ListRequest wire_example), wire_example)"
  using rpc_List_refines wire_example_ok by blast

theorem rpc_Delete_refines_witness:
  "rpc_Delete \<lparr>Seconds = 100, Nanos = 0\<rparr> \<lparr>DeleteRequest_Key = ''k''\<rparr> wire_example =
     (Inr DeleteResponse, Delete \<lparr>Seconds = 100, Nanos = 0\<rparr> ''k'' wire_example)"
proof -
  have u: "utf8_valid (bytes_of_string ''k'')" by (simp add: bytes_of_string_def utf8_accept_def)
  have l: "length (enc_fields (fields_DeleteRequest \<lparr>DeleteRequest_Key = ''k''\<rparr>)) < 2 ^ 64"
    by (simp add: fields_DeleteRequest_def string_field_def bytes_field_def enc_fields_def bytes_of_string_def)
  show ?thesis using rpc_Delete_refines [OF _ l] u by simp
qed

end
