(* ===== verification/Generated.thy ===== *)
theory Generated
  imports RPC Registry
begin

text \<open>
  The methods that protoc-gen-go generates for each message of gokv.proto, and the
  package state they share (src/internal/internalpb/gokv.pb.go).  A message pointer is
  an option, \<open>None\<close> the nil pointer.  \<open>X_Reset\<close> is \<open>*x = X{}\<close>, the zero message on
  the fields; \<open>X_ResetPtr\<close> and \<open>X_ProtoReflect\<close> act on the message object with
  the message-info slot stored in its hidden state (see the ProtoReflect subsection).
  \<open>X_GetY\<close> is the nil-safe getter of field Y.  The package state \<open>PkgState\<close> holds the
  variables that \<open>init\<close> and \<open>Descriptor()\<close> touch: \<open>File_internal_gokv_proto\<close>, the
  raw descriptor and its gzip cache behind a \<open>sync.Once\<close>, the fifteen message-info
  slots and the two registration tables.  \<open>file_internal_gokv_proto_init\<close> is the
  package's init function: it returns at once when the file is already built,
  otherwise installs the field exporters (when unsafe pointer access is disabled) and
  the oneof wrappers of Entry, runs \<open>TypeBuilder.Build\<close> (Registry), publishes the file
  and drops the tables.  The compressor of protoimpl is a parameter.
\<close>

subsection \<open>Reset and the nil-safe getters\<close>

definition Entry_Reset :: "Entry \<Rightarrow> Entry" where
  "Entry_Reset x = \<lparr>Key = '''', Value = [], Archived = None, LastUpdatedTime = None, Expiry = None\<rparr>"

definition Entry_GetKey :: "Entry option \<Rightarrow> string" where
  "Entry_GetKey x = (case x of Some m \<Rightarrow> Key m | None \<Rightarrow> '''')"

definition Entry_GetValue :: "Entry option \<Rightarrow> byte list" where
  "Entry_GetValue x = (case x of Some m \<Rightarrow> Value m | None \<Rightarrow> [])"

definition Entry_GetArchived :: "Entry option \<Rightarrow> bool" where
  "Entry_GetArchived x = (case x of Some m \<Rightarrow> (case Archived m of Some b \<Rightarrow> b | None \<Rightarrow> False) | None \<Rightarrow> False)"

definition Entry_GetLastUpdatedTime :: "Entry option \<Rightarrow> Timestamp option" where
  "Entry_GetLastUpdatedTime x = (case x of Some m \<Rightarrow> LastUpdatedTime m | None \<Rightarrow> None)"

definition Entry_GetExpiry :: "Entry option \<Rightarrow> Duration option" where
  "Entry_GetExpiry x = (case x of Some m \<Rightarrow> Expiry m | None \<Rightarrow> None)"

definition NodeState_Reset :: "NodeState \<Rightarrow> NodeState" where
  "NodeState_Reset x = \<lparr>NodeId = '''', Entries = []\<rparr>"

definition NodeState_GetNodeId :: "NodeState option \<Rightarrow> string" where
  "NodeState_GetNodeId x = (case x of Some m \<Rightarrow> NodeId m | None \<Rightarrow> '''')"

definition NodeState_GetEntries :: "NodeState option \<Rightarrow> (string, Entry) gomap" where
  "NodeState_GetEntries x = (case x of Some m \<Rightarrow> Entries m | None \<Rightarrow> [])"

definition FSM_Reset :: "FSM \<Rightarrow> FSM" where
  "FSM_Reset x = \<lparr>NodeStates = []\<rparr>"

definition FSM_GetNodeStates :: "FSM option \<Rightarrow> NodeState list" where
  "FSM_GetNodeStates x = (case x of Some m \<Rightarrow> NodeStates m | None \<Rightarrow> [])"

definition NodeMeta_Reset :: "NodeMeta \<Rightarrow> NodeMeta" where
  "NodeMeta_Reset x = \<lparr>Name = '''', Host = '''', Port = 0, DiscoveryPort = 0, CreationTime = None\<rparr>"

definition NodeMeta_GetName :: "NodeMeta option \<Rightarrow> string" where
  "NodeMeta_GetName x = (case x of Some m \<Rightarrow> Name m | None \<Rightarrow> '''')"

definition NodeMeta_GetHost :: "NodeMeta option \<Rightarrow> string" where
  "NodeMeta_GetHost x = (case x of Some m \<Rightarrow> Host m | None \<Rightarrow> '''')"

definition NodeMeta_GetPort :: "NodeMeta option \<Rightarrow> 32 word" where
  "NodeMeta_GetPort x = (case x of Some m \<Rightarrow> Port m | None \<Rightarrow> 0)"

definition NodeMeta_GetDiscoveryPort :: "NodeMeta option \<Rightarrow> 32 word" where
  "NodeMeta_GetDiscoveryPort x = (case x of Some m \<Rightarrow> DiscoveryPort m | None \<Rightarrow> 0)"

definition NodeMeta_GetCreationTime :: "NodeMeta option \<Rightarrow> Timestamp option" where
  "NodeMeta_GetCreationTime x = (case x of Some m \<Rightarrow> CreationTime m | None \<Rightarrow> None)"

definition GetRequest_Reset :: "GetRequest \<Rightarrow> GetRequest" where
  "GetRequest_Reset x = \<lparr>GetRequest_Key = ''''\<rparr>"

definition GetRequest_GetKey :: "GetRequest option \<Rightarrow> string" where
  "GetRequest_GetKey x = (case x of Some m \<Rightarrow> GetRequest_Key m | None \<Rightarrow> '''')"

definition GetResponse_Reset :: "GetResponse \<Rightarrow> GetResponse" where
  "GetResponse_Reset x = \<lparr>GetResponse_Entry = None\<rparr>"

definition GetResponse_GetEntry :: "GetResponse option \<Rightarrow> Entry option" where
  "GetResponse_GetEntry x = (case x of Some m \<Rightarrow> GetResponse_Entry m | None \<Rightarrow> None)"

definition PutRequest_Reset :: "PutRequest \<Rightarrow> PutRequest" where
  "PutRequest_Reset x = \<lparr>PutRequest_Key = '''', PutRequest_Value = [], PutRequest_Expiry = None\<rparr>"

definition PutRequest_GetKey :: "PutRequest option \<Rightarrow> string" where
  "PutRequest_GetKey x = (case x of Some m \<Rightarrow> PutRequest_Key m | None \<Rightarrow> '''')"

definition PutRequest_GetValue :: "PutRequest option \<Rightarrow> byte list" where
  "PutRequest_GetValue x = (case x of Some m \<Rightarrow> PutRequest_Value m | None \<Rightarrow> [])"

definition PutRequest_GetExpiry :: "PutRequest option \<Rightarrow> Duration option" where
  "PutRequest_GetExpiry x = (case x of Some m \<Rightarrow> PutRequest_Expiry m | None \<Rightarrow> None)"

definition PutResponse_Reset :: "PutResponse \<Rightarrow> PutResponse" where
  "PutResponse_Reset x = PutResponse"

definition DeleteRequest_Reset :: "DeleteRequest \<Rightarrow> DeleteRequest" where
  "DeleteRequest_Reset x = \<lparr>DeleteRequest_Key = ''''\<rparr>"

definition DeleteRequest_GetKey :: "DeleteRequest option \<Rightarrow> string" where
  "DeleteRequest_GetKey x = (case x of Some m \<Rightarrow> DeleteRequest_Key m | None \<Rightarrow> '''')"

definition DeleteResponse_Reset :: "DeleteResponse \<Rightarrow> DeleteResponse" where
  "DeleteResponse_Reset x = DeleteResponse"

definition KeyExistsRequest_Reset :: "KeyExistsRequest \<Rightarrow> KeyExistsRequest" where
  "KeyExistsRequest_Reset x = \<lparr>KeyExistsRequest_Key = ''''\<rparr>"

definition KeyExistsRequest_GetKey :: "KeyExistsRequest option \<Rightarrow> string" where
  "KeyExistsRequest_GetKey x = (case x of Some m \<Rightarrow> KeyExistsRequest_Key m | None \<Rightarrow> '''')"

definition KeyExistResponse_Reset :: "KeyExistResponse \<Rightarrow> KeyExistResponse" where
  "KeyExistResponse_Reset x = \<lparr>KeyExistResponse_Exists = False\<rparr>"

definition KeyExistResponse_GetExists :: "KeyExistResponse option \<Rightarrow> bool" where
  "KeyExistResponse_GetExists x = (case x of Some m \<Rightarrow> KeyExistResponse_Exists m | None \<Rightarrow> False)"

definition ListRequest_Reset :: "ListRequest \<Rightarrow> ListRequest" where
  "ListRequest_Reset x = ListRequest"

definition ListResponse_Reset :: "ListResponse \<Rightarrow> ListResponse" where
  "ListResponse_Reset x = \<lparr>ListResponse_Entries = []\<rparr>"

definition ListResponse_GetEntries :: "ListResponse option \<Rightarrow> Entry list" where
  "ListResponse_GetEntries x = (case x of Some m \<Rightarrow> ListResponse_Entries m | None \<Rightarrow> [])"

subsection \<open>Descriptor() and the package state\<close>

datatype InternalField = FState | FSizeCache | FUnknownFields

record MessageInfo =
  Exporter :: "(string \<Rightarrow> nat \<Rightarrow> InternalField option option) option"
  OneofWrappers :: "string list option"

record PkgState =
  File_internal_gokv_proto :: "BuildOut option"
  rawDesc :: "byte list"
  rawDescOnce :: bool
  rawDescData :: "byte list"
  msgTypes :: "MessageInfo list"
  goTypes :: "string option list"
  depIdxs :: "int list"

definition pkg_var_init :: PkgState where
  "pkg_var_init =
     \<lparr>File_internal_gokv_proto = None, rawDesc = file_internal_gokv_proto_rawDesc, rawDescOnce = False,
      rawDescData = file_internal_gokv_proto_rawDesc,
      msgTypes = replicate file_internal_gokv_proto_msgTypes \<lparr>Exporter = None, OneofWrappers = None\<rparr>,
      goTypes = file_internal_gokv_proto_goTypes, depIdxs = file_internal_gokv_proto_depIdxs\<rparr>"

definition file_internal_gokv_proto_rawDescGZIP ::
  "(byte list \<Rightarrow> byte list) \<Rightarrow> PkgState \<Rightarrow> byte list \<times> PkgState" where
  "file_internal_gokv_proto_rawDescGZIP compress s =
     (let s = (if rawDescOnce s then s else s\<lparr>rawDescOnce := True, rawDescData := compress (rawDescData s)\<rparr>)
      in (rawDescData s, s))"

definition descriptor_call :: "nat \<Rightarrow> (byte list \<Rightarrow> byte list) \<Rightarrow> PkgState \<Rightarrow> (byte list \<times> nat list) \<times> PkgState" where
  "descriptor_call i compress s =
     (case file_internal_gokv_proto_rawDescGZIP compress s of (bs, s') \<Rightarrow> ((bs, [i]), s'))"

definition Entry_Descriptor where "Entry_Descriptor = descriptor_call 0"
definition NodeState_Descriptor where "NodeState_Descriptor = descriptor_call 1"
definition FSM_Descriptor where "FSM_Descriptor = descriptor_call 2"
definition NodeMeta_Descriptor where "NodeMeta_Descriptor = descriptor_call 3"
definition GetRequest_Descriptor where "GetRequest_Descriptor = descriptor_call 4"
definition GetResponse_Descriptor where "GetResponse_Descriptor = descriptor_call 5"
definition PutRequest_Descriptor where "PutRequest_Descriptor = descriptor_call 6"
definition PutResponse_Descriptor where "PutResponse_Descriptor = descriptor_call 7"
definition DeleteRequest_Descriptor where "DeleteRequest_Descriptor = descriptor_call 8"
definition DeleteResponse_Descriptor where "DeleteResponse_Descriptor = descriptor_call 9"
definition KeyExistsRequest_Descriptor where "KeyExistsRequest_Descriptor = descriptor_call 10"
definition KeyExistResponse_Descriptor where "KeyExistResponse_Descriptor = descriptor_call 11"
definition ListRequest_Descriptor where "ListRequest_Descriptor = descriptor_call 12"
definition ListResponse_Descriptor where "ListResponse_Descriptor = descriptor_call 13"

datatype GoMessage =
  MEntry | MNodeState | MFSM | MNodeMeta | MGetRequest | MGetResponse | MPutRequest | MPutResponse
| MDeleteRequest | MDeleteResponse | MKeyExistsRequest | MKeyExistResponse | MListRequest | MListResponse

fun go_type_name :: "GoMessage \<Rightarrow> string" where
  "go_type_name MEntry = ''Entry''"
| "go_type_name MNodeState = ''NodeState''"
| "go_type_name MFSM = ''FSM''"
| "go_type_name MNodeMeta = ''NodeMeta''"
| "go_type_name MGetRequest = ''GetRequest''"
| "go_type_name MGetResponse = ''GetResponse''"
| "go_type_name MPutRequest = ''PutRequest''"
| "go_type_name MPutResponse = ''PutResponse''"
| "go_type_name MDeleteRequest = ''DeleteRequest''"
| "go_type_name MDeleteResponse = ''DeleteResponse''"
| "go_type_name MKeyExistsRequest = ''KeyExistsRequest''"
| "go_type_name MKeyExistResponse = ''KeyExistResponse''"
| "go_type_name MListRequest = ''ListRequest''"
| "go_type_name MListResponse = ''ListResponse''"

fun Descriptor :: "GoMessage \<Rightarrow> (byte list \<Rightarrow> byte list) \<Rightarrow> PkgState \<Rightarrow> (byte list \<times> nat list) \<times> PkgState" where
  "Descriptor MEntry = Entry_Descriptor"
| "Descriptor MNodeState = NodeState_Descriptor"
| "Descriptor MFSM = FSM_Descriptor"
| "Descriptor MNodeMeta = NodeMeta_Descriptor"
| "Descriptor MGetRequest = GetRequest_Descriptor"
| "Descriptor MGetResponse = GetResponse_Descriptor"
| "Descriptor MPutRequest = PutRequest_Descriptor"
| "Descriptor MPutResponse = PutResponse_Descriptor"
| "Descriptor MDeleteRequest = DeleteRequest_Descriptor"
| "Descriptor MDeleteResponse = DeleteResponse_Descriptor"
| "Descriptor MKeyExistsRequest = KeyExistsRequest_Descriptor"
| "Descriptor MKeyExistResponse = KeyExistResponse_Descriptor"
| "Descriptor MListRequest = ListRequest_Descriptor"
| "Descriptor MListResponse = ListResponse_Descriptor"

definition exporter_for :: "string \<Rightarrow> string \<Rightarrow> nat \<Rightarrow> InternalField option option" where
  "exporter_for t vt i =
     (if vt \<noteq> t then None
      else Some (if i = 0 then Some FState else if i = 1 then Some FSizeCache
                 else if i = 2 then Some FUnknownFields else None))"

definition file_internal_gokv_proto_exporter_types :: "string list" where
  "file_internal_gokv_proto_exporter_types =
     [''Entry'', ''NodeState'', ''FSM'', ''NodeMeta'', ''GetRequest'', ''GetResponse'', ''PutRequest'',
      ''PutResponse'', ''DeleteRequest'', ''DeleteResponse'', ''KeyExistsRequest'', ''KeyExistResponse'',
      ''ListRequest'', ''ListResponse'']"

definition install_exporters :: "MessageInfo list \<Rightarrow> MessageInfo list" where
  "install_exporters mis =
     map (\<lambda>(mi, t). mi\<lparr>Exporter := Some (exporter_for t)\<rparr>) (zip mis file_internal_gokv_proto_exporter_types)
     @ drop (length file_internal_gokv_proto_exporter_types) mis"

definition file_internal_gokv_proto_init :: "bool \<Rightarrow> PkgState \<Rightarrow> PkgState option" where
  "file_internal_gokv_proto_init unsafe_enabled s =
     (if File_internal_gokv_proto s \<noteq> None then Some s
      else
        let s = (if unsafe_enabled then s else s\<lparr>msgTypes := install_exporters (msgTypes s)\<rparr>);
            s = s\<lparr>msgTypes := (msgTypes s)[0 := (msgTypes s ! 0)\<lparr>OneofWrappers := Some []\<rparr>]\<rparr>;
            tb = \<lparr>File = \<lparr>RawDescriptor = rawDesc s, NumEnums = 0, NumMessages = 15,
                           NumExtensions = 0, NumServices = 1\<rparr>,
                  GoTypes = goTypes s, DependencyIndexes = depIdxs s, MessageInfos = length (msgTypes s)\<rparr>
        in map_option (\<lambda>out. s\<lparr>File_internal_gokv_proto := Some out, rawDesc := [], goTypes := [], depIdxs := []\<rparr>)
             (TypeBuilder_Build tb))"

datatype PkgOp = Init | CallDescriptor GoMessage

fun run_pkg ::
  "(byte list \<Rightarrow> byte list) \<Rightarrow> bool \<Rightarrow> PkgOp list \<Rightarrow> PkgState \<Rightarrow> ((byte list \<times> nat list) list \<times> PkgState) option" where
  "run_pkg compress u [] s = Some ([], s)"
| "run_pkg compress u (Init # ops) s = Option.bind (file_internal_gokv_proto_init u s) (run_pkg compress u ops)"
| "run_pkg compress u (CallDescriptor m # ops) s =
     (case Descriptor m compress s of
        (r, s') \<Rightarrow> map_option (\<lambda>(rs, s''). (r # rs, s'')) (run_pkg compress u ops s'))"

definition pkg_inv :: "(byte list \<Rightarrow> byte list) \<Rightarrow> PkgState \<Rightarrow> bool" where
  "pkg_inv compress s \<longleftrightarrow>
     rawDescData s = (if rawDescOnce s then compress file_internal_gokv_proto_rawDesc else file_internal_gokv_proto_rawDesc) \<and>
     (File_internal_gokv_proto s = None \<longrightarrow>
        rawDesc s = file_internal_gokv_proto_rawDesc \<and> goTypes s = file_internal_gokv_proto_goTypes \<and>
        depIdxs s = file_internal_gokv_proto_depIdxs \<and> length (msgTypes s) = file_internal_gokv_proto_msgTypes)"

subsection \<open>ProtoReflect and the message state\<close>

text \<open>
  A message object is its fields together with the message-info slot stored in its
  hidden \<open>state\<close> field (\<open>None\<close> until one is stored).  \<open>ProtoReflect\<close> of slot
  \<open>i\<close> returns, for a non-nil message under unsafe pointer access, the message state
  itself after storing slot \<open>i\<close> if none was stored, and otherwise the reflective
  wrapper \<open>mi.MessageOf(x)\<close> bound to slot \<open>i\<close> (also for a nil pointer).  \<open>Reset\<close>
  overwrites the whole struct, hidden state included, with the zero message, then
  stores slot \<open>i\<close> under unsafe pointer access; on a nil pointer it panics (\<open>None\<close>).
\<close>

datatype ReflectMessage = MessageState "nat option" | MessageReflectWrapper nat bool

type_synonym 'm msg_obj = "'m \<times> nat option"

definition message_ProtoReflect ::
  "nat \<Rightarrow> bool \<Rightarrow> 'm msg_obj option \<Rightarrow> ReflectMessage \<times> 'm msg_obj option" where
  "message_ProtoReflect i unsafe_enabled x =
     (case x of
        Some (m, info) \<Rightarrow>
          if unsafe_enabled
          then (let info' = (if info = None then Some i else info) in (MessageState info', Some (m, info')))
          else (MessageReflectWrapper i False, x)
      | None \<Rightarrow> (MessageReflectWrapper i True, None))"

definition message_Reset ::
  "nat \<Rightarrow> ('m \<Rightarrow> 'm) \<Rightarrow> bool \<Rightarrow> 'm msg_obj option \<Rightarrow> 'm msg_obj option" where
  "message_Reset i zero unsafe_enabled x =
     map_option (\<lambda>(m, info). (zero m, if unsafe_enabled then Some i else None)) x"

definition Entry_ProtoReflect :: "bool \<Rightarrow> Entry msg_obj option \<Rightarrow> ReflectMessage \<times> Entry msg_obj option" where
  "Entry_ProtoReflect = message_ProtoReflect 0"

definition Entry_ResetPtr :: "bool \<Rightarrow> Entry msg_obj option \<Rightarrow> Entry msg_obj option" where
  "Entry_ResetPtr = message_Reset 0 Entry_Reset"

definition NodeState_ProtoReflect :: "bool \<Rightarrow> NodeState msg_obj option \<Rightarrow> ReflectMessage \<times> NodeState msg_obj option" where
  "NodeState_ProtoReflect = message_ProtoReflect 1"

definition NodeState_ResetPtr :: "bool \<Rightarrow> NodeState msg_obj option \<Rightarrow> NodeState msg_obj option" where
  "NodeState_ResetPtr = message_Reset 1 NodeState_Reset"

definition FSM_ProtoReflect :: "bool \<Rightarrow> FSM msg_obj option \<Rightarrow> ReflectMessage \<times> FSM msg_obj option" where
  "FSM_ProtoReflect = message_ProtoReflect 2"

definition FSM_ResetPtr :: "bool \<Rightarrow> FSM msg_obj option \<Rightarrow> FSM msg_obj option" where
  "FSM_ResetPtr = message_Reset 2 FSM_Reset"

definition NodeMeta_ProtoReflect :: "bool \<Rightarrow> NodeMeta msg_obj option \<Rightarrow> ReflectMessage \<times> NodeMeta msg_obj option" where
  "NodeMeta_ProtoReflect = message_ProtoReflect 3"

definition NodeMeta_ResetPtr :: "bool \<Rightarrow> NodeMeta msg_obj option \<Rightarrow> NodeMeta msg_obj option" where
  "NodeMeta_ResetPtr = message_Reset 3 NodeMeta_Reset"

definition GetRequest_ProtoReflect :: "bool \<Rightarrow> GetRequest msg_obj option \<Rightarrow> ReflectMessage \<times> GetRequest msg_obj option" where
  "GetRequest_ProtoReflect = message_ProtoReflect 4"

definition GetRequest_ResetPtr :: "bool \<Rightarrow> GetRequest msg_obj option \<Rightarrow> GetRequest msg_obj option" where
  "GetRequest_ResetPtr = message_Reset 4 GetRequest_Reset"

definition GetResponse_ProtoReflect :: "bool \<Rightarrow> GetResponse msg_obj option \<Rightarrow> ReflectMessage \<times> GetResponse msg_obj option" where
  "GetResponse_ProtoReflect = message_ProtoReflect 5"

definition GetResponse_ResetPtr :: "bool \<Rightarrow> GetResponse msg_obj option \<Rightarrow> GetResponse msg_obj option" where
  "GetResponse_ResetPtr = message_Reset 5 GetResponse_Reset"

definition PutRequest_ProtoReflect :: "bool \<Rightarrow> PutRequest msg_obj option \<Rightarrow> ReflectMessage \<times> PutRequest msg_obj option" where
  "PutRequest_ProtoReflect = message_ProtoReflect 6"

definition PutRequest_ResetPtr :: "bool \<Rightarrow> PutRequest msg_obj option \<Rightarrow> PutRequest msg_obj option" where
  "PutRequest_ResetPtr = message_Reset 6 PutRequest_Reset"

definition PutResponse_ProtoReflect :: "bool \<Rightarrow> PutResponse msg_obj option \<Rightarrow> ReflectMessage \<times> PutResponse msg_obj option" where
  "PutResponse_ProtoReflect = message_ProtoReflect 7"

definition PutResponse_ResetPtr :: "bool \<Rightarrow> PutResponse msg_obj option \<Rightarrow> PutResponse msg_obj option" where
  "PutResponse_ResetPtr = message_Reset 7 PutResponse_Reset"

definition DeleteRequest_ProtoReflect :: "bool \<Rightarrow> DeleteRequest msg_obj option \<Rightarrow> ReflectMessage \<times> DeleteRequest msg_obj option" where
  "DeleteRequest_ProtoReflect = message_ProtoReflect 8"

definition DeleteRequest_ResetPtr :: "bool \<Rightarrow> DeleteRequest msg_obj option \<Rightarrow> DeleteRequest msg_obj option" where
  "DeleteRequest_ResetPtr = message_Reset 8 DeleteRequest_Reset"

definition DeleteResponse_ProtoReflect :: "bool \<Rightarrow> DeleteResponse msg_obj option \<Rightarrow> ReflectMessage \<times> DeleteResponse msg_obj option" where
  "DeleteResponse_ProtoReflect = message_ProtoReflect 9"

definition DeleteResponse_ResetPtr :: "bool \<Rightarrow> DeleteResponse msg_obj option \<Rightarrow> DeleteResponse msg_obj option" where
  "DeleteResponse_ResetPtr = message_Reset 9 DeleteResponse_Reset"

definition KeyExistsRequest_ProtoReflect :: "bool \<Rightarrow> KeyExistsRequest msg_obj option \<Rightarrow> ReflectMessage \<times> KeyExistsRequest msg_obj option" where
  "KeyExistsRequest_ProtoReflect = message_ProtoReflect 10"

definition KeyExistsRequest_ResetPtr :: "bool \<Rightarrow> KeyExistsRequest msg_obj option \<Rightarrow> KeyExistsRequest msg_obj option" where
  "KeyExistsRequest_ResetPtr = message_Reset 10 KeyExistsRequest_Reset"

definition KeyExistResponse_ProtoReflect :: "bool \<Rightarrow> KeyExistResponse msg_obj option \<Rightarrow> ReflectMessage \<times> KeyExistResponse msg_obj option" where
  "KeyExistResponse_ProtoReflect = message_ProtoReflect 11"

definition KeyExistResponse_ResetPtr :: "bool \<Rightarrow> KeyExistResponse msg_obj option \<Rightarrow> KeyExistResponse msg_obj option" where
  "KeyExistResponse_ResetPtr = message_Reset 11 KeyExistResponse_Reset"

definition ListRequest_ProtoReflect :: "bool \<Rightarrow> ListRequest msg_obj option \<Rightarrow> ReflectMessage \<times> ListRequest msg_obj option" where
  "ListRequest_ProtoReflect = message_ProtoReflect 12"

definition ListRequest_ResetPtr :: "bool \<Rightarrow> ListRequest msg_obj option \<Rightarrow> ListRequest msg_obj option" where
  "ListRequest_ResetPtr = message_Reset 12 ListRequest_Reset"

definition ListResponse_ProtoReflect :: "bool \<Rightarrow> ListResponse msg_obj option \<Rightarrow> ReflectMessage \<times> ListResponse msg_obj option" where
  "ListResponse_ProtoReflect = message_ProtoReflect 13"

definition ListResponse_ResetPtr :: "bool \<Rightarrow> ListResponse msg_obj option \<Rightarrow> ListResponse msg_obj option" where
  "ListResponse_ResetPtr = message_Reset 13 ListResponse_Reset"

fun view_slot :: "ReflectMessage \<Rightarrow> nat option" where
  "view_slot (MessageState info) = info"
| "view_slot (MessageReflectWrapper i isnil) = Some i"

datatype ReflectOp = OpReset | OpProtoReflect

fun run_msg ::
  "(bool \<Rightarrow> 'm msg_obj option \<Rightarrow> ReflectMessage \<times> 'm msg_obj option) \<Rightarrow>
   (bool \<Rightarrow> 'm msg_obj option \<Rightarrow> 'm msg_obj option) \<Rightarrow> bool \<Rightarrow> ReflectOp list \<Rightarrow> 'm msg_obj option \<Rightarrow>
   ReflectMessage list option" where
  "run_msg pr rs u [] x = Some []"
| "run_msg pr rs u (OpProtoReflect # ops) x =
     (case pr u x of (v, x') \<Rightarrow> map_option (Cons v) (run_msg pr rs u ops x'))"
| "run_msg pr rs u (OpReset # ops) x = Option.bind (rs u x) (\<lambda>x'. run_msg pr rs u ops (Some x'))"

definition binds_slot ::
  "(bool \<Rightarrow> 'm msg_obj option \<Rightarrow> ReflectMessage \<times> 'm msg_obj option) \<Rightarrow>
   (bool \<Rightarrow> 'm msg_obj option \<Rightarrow> 'm msg_obj option) \<Rightarrow> nat \<Rightarrow> bool" where
  "binds_slot pr rs i \<longleftrightarrow>
     (\<forall>u. view_slot (fst (pr u None)) = Some i) \<and>
     (\<forall>u ops m. \<exists>vs. run_msg pr rs u ops (Some (m, None)) = Some vs \<and>
        map view_slot vs = replicate (length (filter (\<lambda>op. op = OpProtoReflect) ops)) (Some i))"

subsection \<open>Lemmas\<close>

lemma message_Reset_Some [simp]:
  "message_Reset i zero u (Some (m, info)) = Some (zero m, if u then Some i else None)"
  by (simp add: message_Reset_def)

lemma run_msg_slot:
  "info = None \<or> info = Some i \<Longrightarrow>
   \<exists>vs. run_msg (message_ProtoReflect i) (message_Reset i zero) u ops (Some (m, info)) = Some vs \<and>
     map view_slot vs = replicate (length (filter (\<lambda>op. op = OpProtoReflect) ops)) (Some i)"
proof (induction ops arbitrary: m info)
  case (Cons op ops)
  show ?case
  proof (cases op)
    case OpReset
    have "(if u then Some i else None) = None \<or> (if u then Some i else None) = Some i" by simp
    from Cons.IH [OF this, of "zero m"] obtain vs where
      "run_msg (message_ProtoReflect i) (message_Reset i zero) u ops
        (Some (zero m, if u then Some i else None)) = Some vs"
      and "map view_slot vs = replicate (length (filter (\<lambda>op. op = OpProtoReflect) ops)) (Some i)"
      by blast
    then show ?thesis using OpReset by simp
  next
    case OpProtoReflect
    let ?info = "if u then Some i else info"
    have r: "message_ProtoReflect i u (Some (m, info)) =
               (if u then MessageState (Some i) else MessageReflectWrapper i False, Some (m, ?info))"
      using Cons.prems by (auto simp: message_ProtoReflect_def Let_def)
    have "?info = None \<or> ?info = Some i" using Cons.prems by simp
    from Cons.IH [OF this, of m] obtain vs where
      "run_msg (message_ProtoReflect i) (message_Reset i zero) u ops (Some (m, ?info)) = Some vs"
      and "map view_slot vs = replicate (length (filter (\<lambda>op. op = OpProtoReflect) ops)) (Some i)"
      by blast
    then show ?thesis using OpProtoReflect r by simp
  qed
qed simp

lemma binds_slot_generated: "binds_slot (message_ProtoReflect i) (message_Reset i zero) i"
  unfolding binds_slot_def by (auto simp: message_ProtoReflect_def intro!: run_msg_slot)

lemmas ProtoReflect_defs = Entry_ProtoReflect_def NodeState_ProtoReflect_def FSM_ProtoReflect_def
  NodeMeta_ProtoReflect_def GetRequest_ProtoReflect_def GetResponse_ProtoReflect_def PutRequest_ProtoReflect_def
  PutResponse_ProtoReflect_def DeleteRequest_ProtoReflect_def DeleteResponse_ProtoReflect_def
  KeyExistsRequest_ProtoReflect_def KeyExistResponse_ProtoReflect_def ListRequest_ProtoReflect_def
  ListResponse_ProtoReflect_def

lemmas ResetPtr_defs = Entry_ResetPtr_def NodeState_ResetPtr_def FSM_ResetPtr_def NodeMeta_ResetPtr_def
  GetRequest_ResetPtr_def GetResponse_ResetPtr_def PutRequest_ResetPtr_def PutResponse_ResetPtr_def
  DeleteRequest_ResetPtr_def DeleteResponse_ResetPtr_def KeyExistsRequest_ResetPtr_def
  KeyExistResponse_ResetPtr_def ListRequest_ResetPtr_def ListResponse_ResetPtr_def

lemmas Descriptor_defs = Entry_Descriptor_def NodeState_Descriptor_def FSM_Descriptor_def
  NodeMeta_Descriptor_def GetRequest_Descriptor_def GetResponse_Descriptor_def PutRequest_Descriptor_def
  PutResponse_Descriptor_def DeleteRequest_Descriptor_def DeleteResponse_Descriptor_def
  KeyExistsRequest_Descriptor_def KeyExistResponse_Descriptor_def ListRequest_Descriptor_def
  ListResponse_Descriptor_def

lemma descriptor_call_path [simp]: "snd (fst (descriptor_call i compress s)) = [i]"
  by (simp add: descriptor_call_def split: prod.splits)

lemma dec_empty:
  "dec_Entry [] = Some (Entry_Reset e)"
  "dec_NodeState [] = Some (NodeState_Reset ns)"
  "dec_FSM [] = Some (FSM_Reset f)"
  by (simp_all add: dec_Entry_def build_Entry_def dec_NodeState_def build_NodeState_def dec_FSM_def
      build_FSM_def parse_fields.simps Entry_Reset_def NodeState_Reset_def FSM_Reset_def)

lemma length_install_exporters [simp]:
  "length file_internal_gokv_proto_exporter_types \<le> length mis \<Longrightarrow> length (install_exporters mis) = length mis"
  by (simp add: install_exporters_def)

lemma install_exporters_nth:
  "i < length file_internal_gokv_proto_exporter_types \<Longrightarrow> i < length mis \<Longrightarrow>
     Exporter (install_exporters mis ! i) = Some (exporter_for (file_internal_gokv_proto_exporter_types ! i))"
  by (simp add: install_exporters_def nth_append)

lemma init_inv:
  assumes "pkg_inv compress s"
  shows "\<exists>s'. file_internal_gokv_proto_init u s = Some s' \<and> pkg_inv compress s' \<and>
              rawDescOnce s' = rawDescOnce s \<and> rawDescData s' = rawDescData s \<and>
              File_internal_gokv_proto s' \<noteq> None"
proof (cases "File_internal_gokv_proto s = None")
  case True
  let ?s1 = "if u then s else s\<lparr>msgTypes := install_exporters (msgTypes s)\<rparr>"
  have len: "length (msgTypes ?s1) = file_internal_gokv_proto_msgTypes"
    using assms True by (simp add: pkg_inv_def file_internal_gokv_proto_msgTypes_def
        file_internal_gokv_proto_exporter_types_def)
  obtain out where "TypeBuilder_Build file_internal_gokv_proto_init_builder = Some out"
    using init_builder_builds by blast
  then show ?thesis using assms True len
    by (auto simp: file_internal_gokv_proto_init_def pkg_inv_def Let_def file_internal_gokv_proto_init_builder_def)
next
  case False
  then show ?thesis using assms by (simp add: file_internal_gokv_proto_init_def)
qed

lemma Descriptor_inv:
  assumes "pkg_inv compress s"
  shows "fst (fst (Descriptor m compress s)) = compress file_internal_gokv_proto_rawDesc \<and>
         pkg_inv compress (snd (Descriptor m compress s))"
  using assms by (cases m) (auto simp: Descriptor_defs descriptor_call_def file_internal_gokv_proto_rawDescGZIP_def pkg_inv_def)

lemma run_pkg_inv:
  "pkg_inv compress s \<Longrightarrow>
     \<exists>outs s'. run_pkg compress u ops s = Some (outs, s') \<and>
       map fst outs = replicate (length (filter (\<lambda>op. op \<noteq> Init) ops)) (compress file_internal_gokv_proto_rawDesc)"
proof (induction compress u ops s rule: run_pkg.induct)
  case (2 compress u ops s)
  then show ?case using init_inv [OF "2.prems", of u] by auto
next
  case (3 compress u m ops s)
  obtain r s' where d: "Descriptor m compress s = (r, s')" by fastforce
  then show ?case using Descriptor_inv [OF "3.prems", of m] "3.IH" [OF d [symmetric]] by auto
qed simp

lemma pkg_var_init_inv: "pkg_inv compress pkg_var_init"
  by (simp add: pkg_inv_def pkg_var_init_def)

text \<open>
  C30. ProtoReflect binds every message to its own message-info slot, the slot its
  Descriptor method names: for each of the fourteen message types, a nil pointer
  reflects through the wrapper of that slot, and on a fresh message any sequence of
  Reset and ProtoReflect calls, with or without unsafe pointer access, never panics and
  every reflective view it returns carries that slot (Reset clears the stored slot with
  the rest of the struct and stores it again).
\<close>

theorem reflection_binds_own_slot:
  "binds_slot Entry_ProtoReflect Entry_ResetPtr (hd (snd (fst (Entry_Descriptor compress s)))) \<and>
   binds_slot NodeState_ProtoReflect NodeState_ResetPtr (hd (snd (fst (NodeState_Descriptor compress s)))) \<and>
   binds_slot FSM_ProtoReflect FSM_ResetPtr (hd (snd (fst (FSM_Descriptor compress s)))) \<and>
   binds_slot NodeMeta_ProtoReflect NodeMeta_ResetPtr (hd (snd (fst (NodeMeta_Descriptor compress s)))) \<and>
   binds_slot GetRequest_ProtoReflect GetRequest_ResetPtr (hd (snd (fst (GetRequest_Descriptor compress s)))) \<and>
   binds_slot GetResponse_ProtoReflect GetResponse_ResetPtr (hd (snd (fst (GetResponse_Descriptor compress s)))) \<and>
   binds_slot PutRequest_ProtoReflect PutRequest_ResetPtr (hd (snd (fst (PutRequest_Descriptor compress s)))) \<and>
   binds_slot PutResponse_ProtoReflect PutResponse_ResetPtr (hd (snd (fst (PutResponse_Descriptor compress s)))) \<and>
   binds_slot DeleteRequest_ProtoReflect DeleteRequest_ResetPtr (hd (snd (fst (DeleteRequest_Descriptor compress s)))) \<and>
   binds_slot DeleteResponse_ProtoReflect DeleteResponse_ResetPtr (hd (snd (fst (DeleteResponse_Descriptor compress s)))) \<and>
   binds_slot KeyExistsRequest_ProtoReflect KeyExistsRequest_ResetPtr (hd (snd (fst (KeyExistsRequest_Descriptor compress s)))) \<and>
   binds_slot KeyExistResponse_ProtoReflect KeyExistResponse_ResetPtr (hd (snd (fst (KeyExistResponse_Descriptor compress s)))) \<and>
   binds_slot ListRequest_ProtoReflect ListRequest_ResetPtr (hd (snd (fst (ListRequest_Descriptor compress s)))) \<and>
   binds_slot ListResponse_ProtoReflect ListResponse_ResetPtr (hd (snd (fst (ListResponse_Descriptor compress s))))"
  by (simp add: ProtoReflect_defs ResetPtr_defs Descriptor_defs binds_slot_generated)

text \<open>
  The nil-safe getters make a nil message read as the zero message: every getter
  of every message returns on a nil pointer what it returns on the message after
  Reset, and unmarshalling an empty buffer gives that same zero message, so a nil
  message, a reset one and an empty payload are indistinguishable to the code.
\<close>

theorem nil_reset_and_empty_agree:
  "Entry_GetKey None = Entry_GetKey (Some (Entry_Reset e)) \<and>
   Entry_GetValue None = Entry_GetValue (Some (Entry_Reset e)) \<and>
   Entry_GetArchived None = Entry_GetArchived (Some (Entry_Reset e)) \<and>
   Entry_GetLastUpdatedTime None = Entry_GetLastUpdatedTime (Some (Entry_Reset e)) \<and>
   Entry_GetExpiry None = Entry_GetExpiry (Some (Entry_Reset e)) \<and>
   NodeState_GetNodeId None = NodeState_GetNodeId (Some (NodeState_Reset ns)) \<and>
   NodeState_GetEntries None = NodeState_GetEntries (Some (NodeState_Reset ns)) \<and>
   FSM_GetNodeStates None = FSM_GetNodeStates (Some (FSM_Reset f)) \<and>
   NodeMeta_GetName None = NodeMeta_GetName (Some (NodeMeta_Reset nm)) \<and>
   NodeMeta_GetHost None = NodeMeta_GetHost (Some (NodeMeta_Reset nm)) \<and>
   NodeMeta_GetPort None = NodeMeta_GetPort (Some (NodeMeta_Reset nm)) \<and>
   NodeMeta_GetDiscoveryPort None = NodeMeta_GetDiscoveryPort (Some (NodeMeta_Reset nm)) \<and>
   NodeMeta_GetCreationTime None = NodeMeta_GetCreationTime (Some (NodeMeta_Reset nm)) \<and>
   GetRequest_GetKey None = GetRequest_GetKey (Some (GetRequest_Reset gq)) \<and>
   GetResponse_GetEntry None = GetResponse_GetEntry (Some (GetResponse_Reset gr)) \<and>
   PutRequest_GetKey None = PutRequest_GetKey (Some (PutRequest_Reset pq)) \<and>
   PutRequest_GetValue None = PutRequest_GetValue (Some (PutRequest_Reset pq)) \<and>
   PutRequest_GetExpiry None = PutRequest_GetExpiry (Some (PutRequest_Reset pq)) \<and>
   DeleteRequest_GetKey None = DeleteRequest_GetKey (Some (DeleteRequest_Reset dq)) \<and>
   KeyExistsRequest_GetKey None = KeyExistsRequest_GetKey (Some (KeyExistsRequest_Reset kq)) \<and>
   KeyExistResponse_GetExists None = KeyExistResponse_GetExists (Some (KeyExistResponse_Reset kr)) \<and>
   ListResponse_GetEntries None = ListResponse_GetEntries (Some (ListResponse_Reset lr)) \<and>
   dec_Entry [] = Some (Entry_Reset e) \<and> dec_NodeState [] = Some (NodeState_Reset ns) \<and>
   dec_FSM [] = Some (FSM_Reset f) \<and>
   unmarshal build_GetRequest [] = Some (GetRequest_Reset gq) \<and>
   unmarshal build_GetResponse [] = Some (GetResponse_Reset gr) \<and>
   unmarshal build_PutRequest [] = Some (PutRequest_Reset pq) \<and>
   unmarshal build_PutResponse [] = Some (PutResponse_Reset pr) \<and>
   unmarshal build_DeleteRequest [] = Some (DeleteRequest_Reset dq) \<and>
   unmarshal build_DeleteResponse [] = Some (DeleteResponse_Reset dr) \<and>
   unmarshal build_KeyExistsRequest [] = Some (KeyExistsRequest_Reset kq) \<and>
   unmarshal build_KeyExistResponse [] = Some (KeyExistResponse_Reset kr) \<and>
   unmarshal build_ListRequest [] = Some (ListRequest_Reset lq) \<and>
   unmarshal build_ListResponse [] = Some (ListResponse_Reset lr)"
  using dec_empty
  by (simp add: Entry_GetKey_def Entry_Reset_def Entry_GetValue_def Entry_GetArchived_def
      Entry_GetLastUpdatedTime_def Entry_GetExpiry_def NodeState_GetNodeId_def NodeState_Reset_def
      NodeState_GetEntries_def FSM_GetNodeStates_def FSM_Reset_def NodeMeta_GetName_def NodeMeta_Reset_def
      NodeMeta_GetHost_def NodeMeta_GetPort_def NodeMeta_GetDiscoveryPort_def NodeMeta_GetCreationTime_def
      GetRequest_GetKey_def GetRequest_Reset_def GetResponse_GetEntry_def GetResponse_Reset_def
      PutRequest_GetKey_def PutRequest_Reset_def PutRequest_GetValue_def PutRequest_GetExpiry_def
      DeleteRequest_GetKey_def DeleteRequest_Reset_def KeyExistsRequest_GetKey_def KeyExistsRequest_Reset_def
      KeyExistResponse_GetExists_def KeyExistResponse_Reset_def ListResponse_GetEntries_def ListResponse_Reset_def
      build_GetRequest_def GetRequest_Reset_def dec_string_field_def
      build_GetResponse_def GetResponse_Reset_def build_PutRequest_def PutRequest_Reset_def
      build_PutResponse_def PutResponse_Reset_def build_DeleteRequest_def DeleteRequest_Reset_def
      build_DeleteResponse_def DeleteResponse_Reset_def build_KeyExistsRequest_def KeyExistsRequest_Reset_def
      build_KeyExistResponse_def KeyExistResponse_Reset_def build_ListRequest_def ListRequest_Reset_def
      build_ListResponse_def ListResponse_Reset_def)


text \<open>
  C31. The generated tables agree slot by slot: after init (with unsafe pointer access
  disabled, so that the exporters are installed), for every message type the index
  path its Descriptor() method returns selects its Go type in goTypes and its message
  in the descriptor decoded from rawDesc, and the exporter in its message-info slot
  accepts exactly that Go type, returning its internal state field for index 0 and
  panicking on a value of any other type.
\<close>

theorem message_slots_agree:
  "\<exists>fd s. dec_FileDescriptorProto file_internal_gokv_proto_rawDesc = Some fd \<and>
          file_internal_gokv_proto_init False pkg_var_init = Some s \<and>
     (\<forall>m. let i = hd (snd (fst (Descriptor m compress s))) in
        file_internal_gokv_proto_goTypes ! i = Some (go_type_name m) \<and>
        MsgName (FileMessageTypes fd ! i) = go_type_name m \<and>
        map_option (\<lambda>ex. ex t 0) (Exporter (msgTypes s ! i)) =
          Some (if t = go_type_name m then Some (Some FState) else None))"
proof -
  obtain s where s: "file_internal_gokv_proto_init False pkg_var_init = Some s"
    using init_inv [OF pkg_var_init_inv, where u = False] by blast
  have "msgTypes s = (install_exporters (msgTypes pkg_var_init))[0 := (install_exporters (msgTypes pkg_var_init) ! 0)\<lparr>OneofWrappers := Some []\<rparr>]"
    using s by (auto simp: file_internal_gokv_proto_init_def pkg_var_init_def Let_def)
  then have "Exporter (msgTypes s ! i) = Some (exporter_for (file_internal_gokv_proto_exporter_types ! i))" if "i < 14" for i
    using that install_exporters_nth [of i "msgTypes pkg_var_init"] install_exporters_nth [of 0 "msgTypes pkg_var_init"]
    by (cases "i = 0") (simp_all add: pkg_var_init_def file_internal_gokv_proto_msgTypes_def
        file_internal_gokv_proto_exporter_types_def)
  then show ?thesis using s
    apply (intro exI conjI allI)
      apply (rule rawDesc_is_gokv_proto)
     apply assumption
    subgoal for m by (cases m) (simp_all add: Let_def Descriptor_defs descriptor_call_def file_internal_gokv_proto_rawDescGZIP_def
      file_internal_gokv_proto_goTypes_def gokv_proto_def exporter_for_def file_internal_gokv_proto_exporter_types_def)
    done
qed

text \<open>
  C32. Descriptor() keeps returning the compressed original descriptor in any order of
  calls, before and after init: init never panics on the package's tables, and although
  it drops rawDesc, every Descriptor() call of any message returns the compression of
  the original rawDesc, compressed once and cached by the sync.Once.
\<close>

theorem descriptor_bytes_survive_init:
  "\<exists>outs s'. run_pkg compress u ops pkg_var_init = Some (outs, s') \<and>
     map fst outs = replicate (length (filter (\<lambda>op. op \<noteq> Init) ops)) (compress file_internal_gokv_proto_rawDesc)"
  using run_pkg_inv [OF pkg_var_init_inv] .

end
