(* ===== verification/Adapter.thy ===== *)
theory Adapter
  imports Service
begin

text \<open>
  The adapter layer around the delegate that the spec describes outside \<open>src/\<close>
  (section 6) and the README: the codec-based client operations
  \<open>PutAny\<close>/\<open>GetAny\<close> (a codec with \<open>Encode\<close>/\<open>Decode\<close>, whose failures
  surface as \<open>SerializationError\<close>), modelled from the spec over the client
  operations of \<open>Service\<close>.
\<close>

subsection \<open>Codec-based client operations\<close>

record 'a Codec =
  Encode :: "'a \<Rightarrow> string + byte list"
  Decode :: "byte list \<Rightarrow> string + 'a"

definition client_PutAny ::
  "'a Codec \<Rightarrow> Timestamp \<Rightarrow> string \<Rightarrow> 'a \<Rightarrow> int \<Rightarrow> Delegate \<Rightarrow> ClientError + Delegate" where
  "client_PutAny codec now key value expiration d =
     (case Encode codec value of
        Inl err \<Rightarrow> Inl SerializationError
      | Inr bytea \<Rightarrow> Inr (client_Put now \<lparr>Key = key, Value = bytea, Archived = None,
                                         LastUpdatedTime = None, Expiry = None\<rparr> expiration d))"

definition client_GetAny :: "'a Codec \<Rightarrow> Timestamp \<Rightarrow> string \<Rightarrow> Delegate \<Rightarrow> ClientError + 'a" where
  "client_GetAny codec now key d =
     (case client_Get now key d of
        Inl err \<Rightarrow> Inl err
      | Inr e \<Rightarrow> (case Decode codec (Value e) of Inl err \<Rightarrow> Inl SerializationError | Inr v \<Rightarrow> Inr v))"

subsection \<open>Lemmas\<close>

lemma Value_new_entry [simp]: "Value (new_entry key value now x) = value"
  by (simp add: new_entry_def)

lemma client_GetAny_after_PutAny:
  assumes "delegate_ok d" and "valid_now now" and "int64_ok expiration"
    and "Encode codec v = Inr bs" and "Decode codec bs = Inr v"
  shows "\<exists>d'. client_PutAny codec now key v expiration d = Inr d' \<and> client_GetAny codec now key d' = Inr v"
  using assms
  by (simp add: client_PutAny_def client_GetAny_def client_Put_Put client_Get_Get Get_def find_entry_Put
      not_expired_at_write)

lemma client_PutAny_encode_error:
  "Encode codec v = Inl err \<Longrightarrow> client_PutAny codec now key v expiration d = Inl SerializationError"
  by (simp add: client_PutAny_def)

end
