(* ===== verification/Spec2Isabelle.thy ===== *)
theory Spec2Isabelle
  imports Tests Registry WireCluster RPC Generated Adapter
begin

text \<open>
  \<^bold>\<open>A verification development of gokv\<close>, a distributed in-memory key/value store
  that replicates per-node partitions by push/pull anti-entropy with last-writer-wins.

  \<^bold>\<open>The program.\<close> The core is the node delegate of \<open>src/unnamed/part_001\<close>
  (package \<open>cluster\<close>, struct \<open>Delegate\<close>): it owns the replicated state, an
  \<open>internalpb.FSM\<close> (a slice of \<open>NodeState\<close>s, each a node id and a Go map from key
  to \<open>Entry\<close>, types generated in \<open>src/internal/internalpb/gokv.pb.go\<close>), serves the
  local operations \<open>Put\<close>, \<open>Get\<close>, \<open>List\<close>, \<open>Delete\<close>, \<open>Exists\<close> to the client,
  and implements the five memberlist callbacks \<open>NodeMeta\<close>, \<open>NotifyMsg\<close>,
  \<open>GetBroadcasts\<close>, \<open>LocalState\<close> and \<open>MergeRemoteState\<close>. The gossip transport
  calls \<open>LocalState\<close> on both ends of a TCP push/pull and \<open>MergeRemoteState\<close> on
  the bytes received, which is how writes spread. The state crosses the network as
  protobuf bytes (\<open>proto.Marshal\<close>/\<open>Unmarshal\<close> over the generated types, whose
  schema is embedded in \<open>gokv.pb.go\<close> as a raw descriptor and registered at start-up
  by \<open>file_internal_gokv_proto_init\<close>). The client and the RPC service (outside
  \<open>src/\<close>) turn requests into delegate operations. The tests of
  \<open>src/unnamed/part_000\<close> run two nodes and check that a Put on one is read on the
  other and that an expiring Put is not.

  \<^bold>\<open>The theories.\<close>
  \<^item> \<open>Prelude\<close>: Go maps as association lists with distinct keys (\<open>go_map_ok\<close>);
    \<open>map_of\<close> reads them, \<open>AList.update\<close> is \<open>m[k] = v\<close>, the list order is one
    iteration order and \<open>iter_order\<close> says that a key list enumerates a map; the
    collection \<open>go_map_simps\<close>.
  \<^item> \<open>Entry\<close>: records \<open>Timestamp\<close>, \<open>Duration\<close>, \<open>Entry\<close> (fields named as in
    the Go struct; a nil pointer is \<open>None\<close>), the getter \<open>GetArchived\<close>, \<open>unix\<close>
    (\<open>AsTime().Unix()\<close>, nil read as the epoch), \<open>expired\<close> and \<open>setExpiry\<close> with
    \<open>durationpb_New\<close> (truncating division, \<open>sdiv\<close>).
  \<^item> \<open>FSM\<close>: records \<open>NodeState\<close>, \<open>FSM\<close>, \<open>NodeMeta\<close>; the abstraction
    \<open>partitions\<close> of a slice to a two-level map (node id to key to entry) and the
    invariant \<open>fsm_ok\<close> (unique node ids, own partition present, Go maps).
  \<^item> \<open>Delegate\<close>: record \<open>Delegate\<close> (\<open>nodeMeta\<close>, \<open>fsm\<close>, \<open>me\<close>),
    \<open>newDelegate\<close>, and one definition per method: \<open>Put\<close> (its two loops are
    \<open>put_overwrite\<close> and \<open>put_local\<close>), \<open>Get\<close> and \<open>Exists\<close> (their common scan
    \<open>find_entry\<close>), \<open>List_entries\<close>, \<open>Delete\<close> (\<open>delete_local\<close>, \<open>tombstone\<close>),
    \<open>NodeMeta_cb\<close>, \<open>NotifyMsg\<close>, \<open>GetBroadcasts\<close>, \<open>LocalState\<close>. The wall clock
    \<open>time.Now().UTC()\<close> is a parameter \<open>now\<close>; \<open>ErrKeyNotFound\<close> is \<open>Inl\<close>.
  \<^item> \<open>Merge\<close>: \<open>MergeRemoteState\<close> on the decoded FSM as the code builds it:
    \<open>local_entries_map\<close> (first loop), \<open>merge_node_state\<close> and \<open>merge_entries\<close>
    (the loops over the remote partitions and their keys), \<open>rebuild_node_states\<close> (the
    final range over the working map, whose order is the parameter \<open>order\<close>,
    constrained by \<open>merge_order_ok\<close> to be an enumeration of the working map as Go's
    unspecified iteration order may produce). The abstract specification is \<open>lww\<close> on
    one partition and \<open>merge_view\<close> on whole views.
  \<^item> \<open>Replication\<close>: the transport's exchanges \<open>push_pull\<close> (both snapshots taken
    before either merge, as memberlist does) and \<open>push_then_pull\<close> (sequential), the
    cluster as an inductive step relation \<open>cluster_step\<close> over a map from node name to
    delegate (join, Put, Delete, exchange, interleaved freely) and its reachable states
    \<open>cluster_reach\<close>.
  \<^item> \<open>Wire\<close>: the protobuf wire format of the library: varints (at most ten bytes,
    values below 2 to the 64), tags, the four wire types, the field loop
    \<open>parse_fields\<close> of \<open>proto.Unmarshal\<close>, and Go's \<open>utf8.Valid\<close>.
  \<^item> \<open>Codec\<close>: field lists, encoders and decoders of \<open>Timestamp\<close>, \<open>Duration\<close>,
    \<open>Entry\<close>, \<open>NodeState\<close> (its map as repeated entry messages), \<open>FSM\<close>,
    \<open>NodeMeta\<close>, from the struct tags of \<open>gokv.pb.go\<close>; the byte-level callbacks
    \<open>LocalState_bytes\<close>, \<open>NodeMeta_bytes\<close> and \<open>MergeRemoteState_bytes\<close>.
  \<^item> \<open>Service\<close>: the RPC request/response messages (records of \<open>gokv.pb.go\<close>), the
    handlers \<open>KVService_*\<close> and the client \<open>client_*\<close> (modelled from the spec),
    \<open>AsDuration\<close> with int64 wrap-around, and the test message \<open>Hello\<close>.
  \<^item> \<open>Tests\<close>: one definition per subtest of \<open>TestClient\<close> over a two-node run
    (\<open>two_node_run\<close>: join exchange, the client's write, sync exchange), with the Go
    map iteration orders of the exchanges as a schedule.
  \<^item> \<open>Descriptor\<close>: the raw descriptor byte for byte, the subset of
    \<open>descriptor.proto\<close> that reads it (with a nested-message decoder that recurses on
    payloads), \<open>gokv_proto\<close> (the schema \<open>internal/gokv.proto\<close> as a value), and the
    field numbers and wire types it declares per message.
  \<^item> \<open>Registry\<close>: the start-up registration: \<open>msgTypes\<close>, \<open>goTypes\<close>,
    \<open>depIdxs\<close>, the \<open>TypeBuilder\<close> of \<open>init\<close> and the library's \<open>Build\<close> with
    its flattened message order and index-based dependency resolution.
  \<^item> \<open>WireCluster\<close>: the cluster whose peers exchange bytes (\<open>push_pull_bytes\<close>,
    \<open>wire_step\<close>, \<open>wire_reach\<close>), wire validity on the partition view
    (\<open>view_valid\<close>) and its preservation by Put, Delete and the merge.
  \<^item> \<open>RPC\<close>: the KVService messages on the wire (\<open>fields_X\<close>/\<open>build_X\<close> from
    the struct tags of \<open>gokv.pb.go\<close>), \<open>marshal\<close> (fails on a non-UTF-8 string) and
    \<open>unmarshal\<close>, and \<open>unary_call\<close>: a gRPC call as marshal, server unmarshal,
    handler, marshal, client unmarshal, each failing stage an \<open>RPCError\<close>;
    \<open>rpc_Put\<close>, \<open>rpc_Get\<close>, \<open>rpc_Delete\<close>, \<open>rpc_KeyExists\<close>,
    \<open>rpc_List\<close> compose it with the handlers of \<open>Service\<close>.
  \<^item> \<open>Generated\<close>: the per-message methods of \<open>gokv.pb.go\<close> (\<open>X_Reset\<close>, the
    nil-safe getters \<open>X_GetY\<close> over a message option, \<open>X_Descriptor\<close>), the
    package state \<open>PkgState\<close> (file, raw descriptor, gzip cache behind
    \<open>sync.Once\<close>, message-info slots, tables), \<open>file_internal_gokv_proto_rawDescGZIP\<close>
    with the compressor as a parameter, and \<open>file_internal_gokv_proto_init\<close> with its
    early return, the \<open>Exporter\<close> closures and the oneof wrappers, then \<open>Build\<close>;
    \<open>run_pkg\<close> runs any sequence of init and \<open>Descriptor()\<close> calls; \<open>X_ProtoReflect\<close>
    and \<open>X_ResetPtr\<close> act on a message object carrying the message-info slot stored in
    its hidden state, and \<open>run_msg\<close> runs any sequence of Reset and ProtoReflect calls.
  \<^item> \<open>Adapter\<close>: the adapter layer the spec describes outside \<open>src/\<close>: the codec
    record \<open>Codec\<close> with \<open>client_PutAny\<close>/\<open>client_GetAny\<close>.
  \<^item> This theory: tombstone propagation, a property that spans Delegate, Merge and
    Replication.

  \<^bold>\<open>What is proved.\<close> Each operation keeps \<open>delegate_ok\<close>, and every reachable
  cluster satisfies \<open>cluster_ok\<close> (rule induction over \<open>cluster_step\<close>). Put has
  read-your-writes, overwrites every partition that holds the key, and inserts a new key
  only into the node's own partition; Delete tombstones only the own partition, and the
  tombstone of a deleted key stays readable as the spec's contract says (Get returns it
  archived, Exists is false, List includes it). The
  merge loops refine \<open>lww\<close>/\<open>merge_view\<close> for every iteration order; from that
  follow monotone timestamps, the tie rule, order independence, convergence after a sequential
  exchange, and tombstone propagation. Expiry is lazy and permanent, and ignores the
  stored duration. On the wire: varint, field and message round trips; decoding the
  bytes \<open>LocalState\<close> sends and merging them is the message-level merge (for states
  whose strings are UTF-8 and whose times fit in int64), so the byte-level exchange
  refines the model above, and, since Put, Delete and the merge keep every state well
  formed for the wire, every state of the cluster running over bytes is a state of the
  message-level cluster, so the cluster theorems apply to it; a payload corrupted after
  its last complete node state is merged up to the corruption; the encoders write only the numbers and
  wire types the embedded descriptor declares; the registration tables resolve every
  field and method to the type its declaration names. For the client: a Put hands the
  delegate exactly the caller's expiration (\<open>durationpb.New\<close> and \<open>AsDuration\<close> are
  inverse on int64), and every subtest of \<open>TestClient\<close> passes for all node names,
  clock readings one second apart and all legal iteration orders. Over gRPC: Put, Get,
  List and Delete through a marshalled unary call refine the direct handler calls (for
  UTF-8 keys and messages within the 64-bit length prefix; Get's response is bounded by
  the FSM's encoding, List's too, by a length argument over the nested encodings);
  every RPC message's layout agrees with its
  descriptor. For the generated code: nil getters, Reset and the empty payload agree;
  after init, Descriptor paths, goTypes, the decoded descriptor and the exporters agree
  slot by slot; and Descriptor() returns the once-compressed original descriptor in
  every interleaving with init, which drops the raw descriptor; ProtoReflect binds every
  message, nil or not, before and after any Reset, to its own slot. In the adapter:
  GetAny right after PutAny returns the value when the codec round-trips, an encoding
  failure is a SerializationError.

  \<^bold>\<open>Findings.\<close> (1) \<open>expired\<close> compares the clock with the last-update second
  only, so any positive expiration hides the entry one second after the write. (2) Put
  overwrites every copy of a key, in every partition. (3) Get and Exists stop at the
  first partition holding the key even when that copy is expired and a later copy is
  visible, whereas the spec says the first visible match. (4) A simultaneous push/pull
  swaps same-second entries instead of converging. (5) \<open>NodeMeta\<close> ignores its byte
  limit. (6) Get and List hand out pointers to stored entries that a later Delete
  mutates in place. (7) \<open>LocalState\<close> and \<open>MergeRemoteState\<close> drop the errors of
  \<open>proto.Marshal\<close>/\<open>Unmarshal\<close>: a key that is not UTF-8 makes a node send no state,
  so the peer never learns it; a corrupt payload is not dropped (the spec says it is):
  the node states decoded before the corruption are merged. (8) A client Put with a
  key that is not UTF-8 fails in the gRPC client's marshalling, although the spec treats
  keys as arbitrary strings.

  \<^bold>\<open>Bounds, fuel and orders.\<close> No fuel is needed: every loop of the code runs over
  a finite slice or map and is structural recursion or a fold here; the parsers recurse
  on strictly shorter byte lists (\<open>function\<close> with a length measure), the descriptor
  flattening on the size of the nested messages. Times in the delegate are unbounded
  \<open>int\<close> seconds and nanoseconds; on the wire they are int64/int32 varints, and the
  round trips assume they fit (\<open>int64_ok\<close>, \<open>ts_ok\<close>). Go's map iteration order
  is a parameter of every merge, constrained only to enumerate the map.

  \<^bold>\<open>Not modelled.\<close> Inside \<open>src/\<close>: \<open>String\<close> of the messages (the text
  format of protoimpl) and the empty marker \<open>ProtoMessage\<close>; the gzip algorithm itself
  (a parameter); the version assertions and imports; \<open>testCodec\<close> (JSON), which
  the tests do not use; the README, which is prose. Outside \<open>src/\<close>: the memberlist library (failure
  detection, TCP, encryption) beyond its two exchanges, node discovery, the built-in
  janitor the README mentions (its code is not part of the repository's sources here,
  and the spec only sketches it, so it is not modelled),
  configuration and logging. A marshal failure is modelled as sending no bytes (the
  library leaves the content of the returned buffer open); groups (wire types 3 and 4)
  are rejected, where the library would skip an unknown group, and a field number above
  2 to the 29 minus 1 is skipped as unknown, where the library reports an error.
  The read/write lock is modelled by treating each operation as one atomic step; readers
  that keep a returned pointer are outside the model.
\<close>

text \<open>
  C4. Tombstone propagation: after the owner deletes a key of its own partition and a
  peer merges the owner's exported state, Exists on the peer is false for that key at
  every instant, provided the key lives only in the owner's partition on both sides and
  the peer's copy is not from a later second than the delete (clock skew can otherwise
  let an older copy win).
\<close>

theorem delete_then_exchange_hides_key:
  assumes okA: "delegate_ok A" and okB: "delegate_ok B" and now: "valid_now now"
    and own: "partitions (node_states A) (me A) = Some m" and has: "m key = Some e"
    and onlyA: "\<forall>n' m'. n' \<noteq> me A \<longrightarrow> partitions (node_states A) n' = Some m' \<longrightarrow> m' key = None"
    and older: "\<forall>n' m' e'. partitions (node_states B) n' = Some m' \<longrightarrow> m' key = Some e' \<longrightarrow>
                  n' = me A \<and> unix (LastUpdatedTime e') \<le> Seconds now"
    and ord: "merge_order_ok order (LocalState False (Delete now key A)) B"
  shows "\<not> Exists t key (MergeRemoteState order (LocalState False (Delete now key A)) B)"
proof -
  let ?A' = "Delete now key A"
  let ?B' = "MergeRemoteState order (LocalState False ?A') B"
  have "delegate_ok ?A'" using okA by (rule Delete_ok)
  then have rA: "remote_ok (NodeStates (LocalState False ?A'))" by (rule remote_ok_LocalState)
  have vB: "partitions (node_states ?B') =
              merge_view (partitions (node_states B)) (partitions (node_states ?A'))"
    using partitions_MergeRemoteState [OF okB rA ord] by simp
  have tomb_ts: "unix (LastUpdatedTime (tombstone now e)) = Seconds now"
    using now by (simp add: tombstone_def)
  have own': "partitions (node_states ?A') (me A) = Some (m(key \<mapsto> tombstone now e))"
    using partitions_Delete [OF okA, of now key "me A"] own has by simp
  have oth': "partitions (node_states ?A') n = partitions (node_states A) n" if "n \<noteq> me A" for n
    using partitions_Delete [OF okA, of now key n] that by simp
  have "\<exists>mm. partitions (node_states ?B') (me A) = Some mm \<and> mm key = Some (tombstone now e)"
  proof (cases "partitions (node_states B) (me A)")
    case None
    then show ?thesis using vB own' by (simp add: merge_view_def)
  next
    case (Some mb)
    have "lww mb (m(key \<mapsto> tombstone now e)) key = Some (tombstone now e)"
    proof (cases "mb key")
      case (Some eb)
      then have "unix (LastUpdatedTime eb) \<le> Seconds now" using older \<open>partitions (node_states B) (me A) = Some mb\<close> by blast
      with Some tomb_ts show ?thesis by (simp add: lww_def)
    qed (simp add: lww_def)
    then show ?thesis using vB own' Some by (simp add: merge_view_def)
  qed
  then obtain mm where mm: "partitions (node_states ?B') (me A) = Some mm"
    and mmk: "mm key = Some (tombstone now e)" by blast
  have others: "\<forall>n' m'. n' \<noteq> me A \<longrightarrow> partitions (node_states ?B') n' = Some m' \<longrightarrow> m' key = None"
  proof (intro allI impI)
    fix n' m' assume ne: "n' \<noteq> me A" and p: "partitions (node_states ?B') n' = Some m'"
    have pa: "\<forall>ma. partitions (node_states ?A') n' = Some ma \<longrightarrow> ma key = None"
      using onlyA ne oth' [OF ne] by simp
    have pb: "\<forall>mb. partitions (node_states B) n' = Some mb \<longrightarrow> mb key = None"
      using older ne by (metis not_None_eq)
    show "m' key = None"
      using p pa pb unfolding vB
      by (auto simp: merge_view_def lww_def split: option.splits)
  qed
  have "delegate_ok ?B'" using delegate_ok_MergeRemoteState [OF okB rA ord] .
  then have "distinct (map NodeId (node_states ?B'))" by (simp add: delegate_ok_def fsm_ok_def)
  from find_entry_single_owner [OF this mm others] mmk
  have "find_entry key (node_states ?B') = Some (tombstone now e)" by simp
  then show ?thesis by (simp add: Exists_def GetArchived_def tombstone_def)
qed

theorem delete_then_exchange_hides_key_witness:
  "\<not> Exists \<lparr>Seconds = 42, Nanos = 0\<rparr> ''k''
     (MergeRemoteState [''n2'', ''n1'']
        (LocalState False (Delete \<lparr>Seconds = 6, Nanos = 0\<rparr> ''k''
           (Put \<lparr>Seconds = 5, Nanos = 0\<rparr> ''k'' [1] 0 (newDelegate ''n1'' (test_meta ''n1'')))))
        (newDelegate ''n2'' (test_meta ''n2'')))"
proof -
  let ?A = "Put \<lparr>Seconds = 5, Nanos = 0\<rparr> ''k'' [1] 0 (newDelegate ''n1'' (test_meta ''n1''))"
  let ?B = "newDelegate ''n2'' (test_meta ''n2'')"
  let ?e = "new_entry ''k'' [1] \<lparr>Seconds = 5, Nanos = 0\<rparr> None"
  have eA: "node_states ?A = [\<lparr>NodeId = ''n1'', Entries = [(''k'', ?e)]\<rparr>]" and meA: "me ?A = ''n1''"
    by (simp_all add: Put_def newDelegate_def node_states_def set_node_states_def key_exists_def
                      has_key_def setExpiry_def)
  have okA: "delegate_ok ?A" by (intro Put_ok newDelegate_ok)
  have okB: "delegate_ok ?B" by (rule newDelegate_ok)
  have now: "valid_now \<lparr>Seconds = 6, Nanos = 0\<rparr>" by (simp add: valid_now_def)
  have own: "partitions (node_states ?A) (me ?A) = Some [''k'' \<mapsto> ?e]" by (simp add: eA meA)
  have has: "[''k'' \<mapsto> ?e] ''k'' = Some ?e" by simp
  have onlyA: "\<forall>n' m'. n' \<noteq> me ?A \<longrightarrow> partitions (node_states ?A) n' = Some m' \<longrightarrow> m' ''k'' = None"
    by (simp add: eA meA)
  have older: "\<forall>n' m' e'. partitions (node_states ?B) n' = Some m' \<longrightarrow> m' ''k'' = Some e' \<longrightarrow>
                  n' = me ?A \<and> unix (LastUpdatedTime e') \<le> Seconds \<lparr>Seconds = 6, Nanos = 0\<rparr>"
    by (simp add: newDelegate_def node_states_def)
  have ord: "merge_order_ok [''n2'', ''n1''] (LocalState False (Delete \<lparr>Seconds = 6, Nanos = 0\<rparr> ''k'' ?A)) ?B"
    by (simp add: merge_eval_simps Delete_def Put_def newDelegate_def set_node_states_def
                  key_exists_def has_key_def setExpiry_def tombstone_def)
  show ?thesis by (rule delete_then_exchange_hides_key [OF okA okB now own has onlyA older ord])
qed

end
